theory Spec2Isabelle
  imports Main "HOL-Library.Multiset" "HOL-Library.Sublist"
begin

section \<open>types/blockchain.types.ts and config/networks.config.ts\<close>

text \<open>
  The enum \<open>NetworkType\<close> is a string enum: at run time a network type is a string, and
  the HTTP layer casts an arbitrary path parameter to it (\<open>network as NetworkType\<close>).
  \<open>NetworkType_values\<close> is \<open>Object.values(NetworkType)\<close>, in declaration order.
\<close>

datatype NetworkType = ARBITRUM | TON | SOLANA | RIPPLE | POLYGON | AVALANCHE | CARDANO | TRC20

fun NetworkType_value :: "NetworkType \<Rightarrow> string" where
  "NetworkType_value ARBITRUM = ''arbitrum''"
| "NetworkType_value TON = ''ton''"
| "NetworkType_value SOLANA = ''solana''"
| "NetworkType_value RIPPLE = ''ripple''"
| "NetworkType_value POLYGON = ''polygon''"
| "NetworkType_value AVALANCHE = ''avalanche''"
| "NetworkType_value CARDANO = ''cardano''"
| "NetworkType_value TRC20 = ''trc20''"

definition NetworkType_values :: "string list" where
  "NetworkType_values =
     map NetworkType_value [ARBITRUM, TON, SOLANA, RIPPLE, POLYGON, AVALANCHE, CARDANO, TRC20]"

record NetworkConfig =
  name :: string
  rpcUrl :: string
  chainId :: "nat option"
  apiKey :: "string option"
  testnet :: "bool option"
  enable :: bool

text \<open>\<open>process.env\<close>: a variable is absent or a string.\<close>

type_synonym process_env = "string \<rightharpoonup> string"

text \<open>\<open>process.env.X || fallback\<close>: an absent or empty variable gives the fallback.\<close>

definition env_or :: "process_env \<Rightarrow> string \<Rightarrow> string \<Rightarrow> string" where
  "env_or env var fallback =
     (case env var of None \<Rightarrow> fallback | Some v \<Rightarrow> if v = [] then fallback else v)"

definition NETWORK_CONFIGS :: "process_env \<Rightarrow> string \<rightharpoonup> NetworkConfig" where
  "NETWORK_CONFIGS env = [
     ''arbitrum'' \<mapsto> \<lparr>name = ''Arbitrum One'',
        rpcUrl = env_or env ''ARBITRUM_RPC_URL'' ''https://arb1.arbitrum.io/rpc'',
        chainId = Some 42161, apiKey = None, testnet = Some False, enable = False\<rparr>,
     ''ton'' \<mapsto> \<lparr>name = ''TON Mainnet'',
        rpcUrl = env_or env ''TON_RPC_URL'' ''https://toncenter.com/api/v2/jsonRPC'',
        chainId = None, apiKey = env ''TON_API_KEY'', testnet = Some False, enable = False\<rparr>,
     ''solana'' \<mapsto> \<lparr>name = ''Solana Mainnet'',
        rpcUrl = env_or env ''SOLANA_RPC_URL'' ''https://api.mainnet-beta.solana.com'',
        chainId = None, apiKey = None, testnet = Some False, enable = False\<rparr>,
     ''ripple'' \<mapsto> \<lparr>name = ''XRPL Mainnet'',
        rpcUrl = env_or env ''RIPPLE_RPC_URL'' ''wss://xrplcluster.com'',
        chainId = None, apiKey = None, testnet = Some False, enable = False\<rparr>,
     ''polygon'' \<mapsto> \<lparr>name = ''Polygon Mainnet'',
        rpcUrl = env_or env ''POLYGON_RPC_URL'' ''https://polygon-rpc.com'',
        chainId = Some 137, apiKey = None, testnet = Some False, enable = False\<rparr>,
     ''avalanche'' \<mapsto> \<lparr>name = ''Avalanche C-Chain'',
        rpcUrl = env_or env ''AVALANCHE_RPC_URL'' ''https://api.avax.network/ext/bc/C/rpc'',
        chainId = Some 43114, apiKey = None, testnet = Some False, enable = False\<rparr>,
     ''cardano'' \<mapsto> \<lparr>name = ''Cardano Mainnet'',
        rpcUrl = env_or env ''CARDANO_RPC_URL'' ''https://cardano-mainnet.blockfrost.io/api/v0'',
        chainId = None, apiKey = env ''CARDANO_API_KEY'', testnet = Some False, enable = False\<rparr>,
     ''trc20'' \<mapsto> \<lparr>name = ''Tron Mainnet'',
        rpcUrl = env_or env ''TRON_RPC_URL'' ''https://api.trongrid.io'',
        chainId = None, apiKey = env ''TRON_API_KEY'', testnet = Some False, enable = True\<rparr>]"

section \<open>abstracts/BaseBlockchainService.ts: the adapter base class\<close>

text \<open>
  What a JavaScript \<open>throw\<close> carries: an \<open>Error\<close> (or a subclass such as
  \<open>TypeError\<close>) with its message, or any other value. \<open>NonError\<close> stands for the
  values that are no \<open>Error\<close> and have no \<open>message\<close> property, \<open>null\<close> and
  \<open>undefined\<close> apart: no SDK call of the adapters throws those two.
\<close>

datatype exn = Error string | TypeError string | NonError

text \<open>\<open>error instanceof Error ? error.message : 'Unknown error'\<close>\<close>

fun message_or_unknown :: "exn \<Rightarrow> string" where
  "message_or_unknown (Error m) = m"
| "message_or_unknown (TypeError m) = m"
| "message_or_unknown NonError = ''Unknown error''"

text \<open>\<open>error.message\<close>, which is \<open>undefined\<close> on a value that is no \<open>Error\<close>.\<close>

fun message :: "exn \<Rightarrow> string option" where
  "message (Error m) = Some m"
| "message (TypeError m) = Some m"
| "message NonError = None"

text \<open>Reading property \<open>p\<close> of \<open>undefined\<close>: a field that was never set, or a config
  the table lacks.\<close>

definition undefined_property :: "string \<Rightarrow> exn" where
  "undefined_property p =
     TypeError (''Cannot read properties of undefined (reading '' @ [CHR 0x27] @ p @ [CHR 0x27] @ '')'')"

text \<open>The class the factory's \<open>switch\<close> instantiates.\<close>

datatype AdapterClass =
  ArbitrumService | SolanaService | TONService | RippleService
  | PolygonService | AvalancheService | CardanoService | TRC20Service

text \<open>
  An adapter object. \<open>ref\<close> is the object's identity (its allocation number): two
  references are identical exactly when their \<open>ref\<close> is the same. \<open>config\<close> is
  \<open>NETWORK_CONFIGS[networkType]\<close>, \<open>undefined\<close> for a key the table lacks.
  \<open>initialized\<close> records that \<open>initialize()\<close> has completed on this object.
\<close>

record BaseBlockchainService =
  ref :: nat
  cls :: AdapterClass
  config :: "NetworkConfig option"
  networkType :: string
  initialized :: bool

definition new_service ::
  "AdapterClass \<Rightarrow> NetworkConfig option \<Rightarrow> string \<Rightarrow> nat \<Rightarrow> BaseBlockchainService" where
  "new_service c cfg nt r =
     \<lparr>ref = r, cls = c, config = cfg, networkType = nt, initialized = False\<rparr>"

definition getNetworkType :: "BaseBlockchainService \<Rightarrow> string" where
  "getNetworkType s = networkType s"

text \<open>\<open>service.getNetworkConfig().name\<close>: spreading \<open>undefined\<close> gives an empty object.\<close>

definition getNetworkConfig_name :: "BaseBlockchainService \<Rightarrow> string option" where
  "getNetworkConfig_name s = map_option name (config s)"

text \<open>\<open>handleError\<close> always throws \<open>`${networkType} ${context} failed: ${error.message}`\<close>.\<close>

definition handleError :: "string \<Rightarrow> string \<Rightarrow> string \<Rightarrow> exn" where
  "handleError nt msg ctxt = Error (nt @ '' '' @ ctxt @ '' failed: '' @ msg)"

section \<open>factory/BlockchainServiceFactory.ts\<close>

text \<open>
  The world outside the factory: the configuration table in force, and the outcome of
  the connection handshake that \<open>initialize()\<close> performs, which may differ from one
  adapter object to the next (a transient outage): \<open>None\<close> when it succeeds, the
  transport error's message when it fails.
\<close>

record world =
  configs :: "string \<rightharpoonup> NetworkConfig"
  connect :: "string \<Rightarrow> nat \<Rightarrow> string option"

text \<open>Every adapter's \<open>initialize\<close> wraps its handshake in
  \<open>try { ... } catch (error) { this.handleError(error, 'initialization') }\<close>.\<close>

definition initialize :: "world \<Rightarrow> BaseBlockchainService \<Rightarrow> exn + BaseBlockchainService" where
  "initialize W s =
     (case connect W (networkType s) (ref s) of
        None \<Rightarrow> Inr (s\<lparr>initialized := True\<rparr>)
      | Some msg \<Rightarrow> Inl (handleError (networkType s) msg ''initialization''))"

text \<open>The side effects a spy would count.\<close>

datatype event = Constructed nat string | InitializeCalled nat

text \<open>
  The factory's static state: the \<open>services\<close> map, the number of adapter objects
  allocated so far, and the log of constructions and \<open>initialize\<close> calls.
\<close>

record Factory =
  services :: "string \<rightharpoonup> BaseBlockchainService"
  allocated :: nat
  calls :: "event list"

definition Factory_init :: Factory where
  "Factory_init = \<lparr>services = Map.empty, allocated = 0, calls = []\<rparr>"

text \<open>The \<open>switch\<close> of \<open>createService\<close>; \<open>None\<close> is its \<open>default\<close> branch.\<close>

definition adapterClass_of :: "string \<Rightarrow> AdapterClass option" where
  "adapterClass_of nt =
     (if nt = ''arbitrum'' then Some ArbitrumService
      else if nt = ''solana'' then Some SolanaService
      else if nt = ''ton'' then Some TONService
      else if nt = ''ripple'' then Some RippleService
      else if nt = ''polygon'' then Some PolygonService
      else if nt = ''avalanche'' then Some AvalancheService
      else if nt = ''cardano'' then Some CardanoService
      else if nt = ''trc20'' then Some TRC20Service
      else None)"

definition createService ::
  "world \<Rightarrow> Factory \<Rightarrow> string \<Rightarrow> (exn + BaseBlockchainService) \<times> Factory" where
  "createService W st nt =
     (case services st nt of
        Some cached \<Rightarrow> (Inr cached, st)
      | None \<Rightarrow>
         (case adapterClass_of nt of
            None \<Rightarrow> (Inl (Error (''Unsupported network type: '' @ nt)), st)
          | Some c \<Rightarrow>
             (let cfg = configs W nt;
                  service = new_service c cfg nt (allocated st);
                  st1 = st\<lparr>allocated := Suc (allocated st),
                           calls := calls st @ [Constructed (allocated st) nt]\<rparr>
              in case cfg of
                   None \<Rightarrow> (Inl (undefined_property ''enable''), st1)
                 | Some cf \<Rightarrow>
                    if enable cf then
                      (let st2 = st1\<lparr>calls := calls st1 @ [InitializeCalled (ref service)]\<rparr>
                       in case initialize W service of
                            Inl e \<Rightarrow> (Inl e, st2)
                          | Inr service' \<Rightarrow>
                              (Inr service', st2\<lparr>services := (services st2)(nt \<mapsto> service')\<rparr>))
                    else (Inr service, st1))))"

text \<open>The \<open>for ... of\<close> loop of \<open>getAllServices\<close>, with its \<open>try/catch\<close> per network.\<close>

fun getAllServices_loop ::
  "world \<Rightarrow> string list \<Rightarrow> Factory \<Rightarrow> BaseBlockchainService list
     \<Rightarrow> BaseBlockchainService list \<times> Factory" where
  "getAllServices_loop W [] st acc = (acc, st)"
| "getAllServices_loop W (nt # nts) st acc =
     (case createService W st nt of
        (Inr service, st') \<Rightarrow> getAllServices_loop W nts st' (acc @ [service])
      | (Inl e, st') \<Rightarrow> getAllServices_loop W nts st' acc)"

definition getAllServices :: "world \<Rightarrow> Factory \<Rightarrow> BaseBlockchainService list \<times> Factory" where
  "getAllServices W st = getAllServices_loop W NetworkType_values st []"

definition getAvailableNetworks :: "string list" where
  "getAvailableNetworks = NetworkType_values"

text \<open>The states the factory can be in: the initial one, and any state a call of
  \<open>createService\<close> leaves behind.\<close>

inductive reachable :: "world \<Rightarrow> Factory \<Rightarrow> bool" for W :: world where
  reachable_init: "reachable W Factory_init"
| reachable_step: "reachable W st \<Longrightarrow> reachable W (snd (createService W st nt))"

text \<open>The cache holds, under a registered network type, an adapter of that type.\<close>

definition cache_ok :: "Factory \<Rightarrow> bool" where
  "cache_ok st =
     (\<forall>nt s. services st nt = Some s \<longrightarrow> networkType s = nt \<and> nt \<in> set NetworkType_values)"

text \<open>The cache holds only initialised adapters of enabled networks.\<close>

definition cache_enabled :: "world \<Rightarrow> Factory \<Rightarrow> bool" where
  "cache_enabled W st =
     (\<forall>nt s. services st nt = Some s \<longrightarrow>
        initialized s \<and> (\<exists>cf. configs W nt = Some cf \<and> enable cf))"

text \<open>An adapter that was constructed and never initialised: no call of \<open>initialize\<close>
  on it is on record.\<close>

definition untouched :: "Factory \<Rightarrow> BaseBlockchainService \<Rightarrow> bool" where
  "untouched st s =
     (\<not> initialized s \<and> ref s < allocated st \<and> InitializeCalled (ref s) \<notin> set (calls st))"

text \<open>The object an event is about; every event is about an object already allocated.\<close>

fun event_ref :: "event \<Rightarrow> nat" where
  "event_ref (Constructed r nt) = r"
| "event_ref (InitializeCalled r) = r"

definition calls_allocated :: "Factory \<Rightarrow> bool" where
  "calls_allocated st = (\<forall>e\<in>set (calls st). event_ref e < allocated st)"

text \<open>What a spy on \<open>initialize\<close> counts.\<close>

fun is_InitializeCalled :: "event \<Rightarrow> bool" where
  "is_InitializeCalled (InitializeCalled r) = True"
| "is_InitializeCalled (Constructed r nt) = False"

section \<open>services: what the adapters share\<close>

text \<open>
  A call into a chain SDK returns a value or throws. \<open>try_catch body handler\<close> is
  \<open>try { body } catch (error) { handler(error) }\<close>; \<open>and_then\<close> sequences two steps that
  may throw.
\<close>

definition try_catch :: "exn + 'a \<Rightarrow> (exn \<Rightarrow> exn + 'a) \<Rightarrow> exn + 'a" where
  "try_catch body handler = (case body of Inl e \<Rightarrow> handler e | Inr v \<Rightarrow> Inr v)"

definition and_then :: "exn + 'a \<Rightarrow> ('a \<Rightarrow> exn + 'b) \<Rightarrow> exn + 'b" where
  "and_then m f = (case m of Inl e \<Rightarrow> Inl e | Inr v \<Rightarrow> f v)"

text \<open>\<open>this.handleError(error, context)\<close> in a \<open>catch\<close>: the template prints the message
  of an \<open>Error\<close>, and \<open>undefined\<close> for a thrown value without one.\<close>

definition rethrow :: "string \<Rightarrow> string \<Rightarrow> exn \<Rightarrow> exn + 'a" where
  "rethrow nt ctxt e =
     Inl (handleError nt (case message e of Some m \<Rightarrow> m | None \<Rightarrow> ''undefined'') ctxt)"

text \<open>JavaScript truthiness of an optional string and of an optional number.\<close>

definition truthy :: "string option \<Rightarrow> bool" where
  "truthy s = (case s of None \<Rightarrow> False | Some v \<Rightarrow> v \<noteq> [])"

definition truthy_num :: "nat option \<Rightarrow> bool" where
  "truthy_num n = (case n of None \<Rightarrow> False | Some v \<Rightarrow> v \<noteq> 0)"

text \<open>\<open>a || b\<close> on an optional number and on an optional string.\<close>

definition or_num :: "nat option \<Rightarrow> nat \<Rightarrow> nat" where
  "or_num a b = (case a of None \<Rightarrow> b | Some v \<Rightarrow> if v \<noteq> 0 then v else b)"

definition or_string :: "string option \<Rightarrow> string \<Rightarrow> string" where
  "or_string a b = (case a of None \<Rightarrow> b | Some v \<Rightarrow> if v \<noteq> [] then v else b)"

section \<open>services: validateAddress\<close>

text \<open>
  Each adapter's \<open>validateAddress\<close> calls its SDK inside \<open>try\<close> and returns from the
  \<open>catch\<close>. The SDK's check is a parameter: any function that returns or throws. No
  body assigns to a field of the adapter, so the model has no state to return. A
  JavaScript string is modelled by its characters as a \<open>string\<close>.
\<close>

definition ArbitrumService_validateAddress :: "(string \<Rightarrow> exn + bool) \<Rightarrow> string \<Rightarrow> exn + bool" where
  "ArbitrumService_validateAddress ethers_isAddress address =
     try_catch (ethers_isAddress address) (\<lambda>e. Inr False)"

definition AvalancheService_validateAddress :: "(string \<Rightarrow> exn + bool) \<Rightarrow> string \<Rightarrow> exn + bool" where
  "AvalancheService_validateAddress ethers_isAddress address =
     try_catch (ethers_isAddress address) (\<lambda>e. Inr False)"

definition SolanaService_validateAddress ::
  "(string \<Rightarrow> exn + 'pk) \<Rightarrow> ('pk \<Rightarrow> exn + bool) \<Rightarrow> string \<Rightarrow> exn + bool" where
  "SolanaService_validateAddress new_PublicKey PublicKey_isOnCurve address =
     try_catch (and_then (new_PublicKey address) (\<lambda>publicKey. PublicKey_isOnCurve publicKey))
       (\<lambda>e. Inr False)"

text \<open>\<open>Address.parse\<close> returns an \<open>Address\<close>, so \<open>addr instanceof Address\<close> is true.\<close>

definition TONService_validateAddress :: "(string \<Rightarrow> exn + 'addr) \<Rightarrow> string \<Rightarrow> exn + bool" where
  "TONService_validateAddress Address_parse address =
     try_catch (and_then (Address_parse address) (\<lambda>addr. Inr True)) (\<lambda>e. Inr False)"

text \<open>\<open>this.tronWeb\<close> is \<open>undefined\<close> until \<open>initialize\<close> has run.\<close>

definition TRC20Service_validateAddress ::
  "'tw option \<Rightarrow> ('tw \<Rightarrow> string \<Rightarrow> exn + bool) \<Rightarrow> string \<Rightarrow> exn + bool" where
  "TRC20Service_validateAddress tronWeb isAddress address =
     try_catch
       (case tronWeb of None \<Rightarrow> Inl (undefined_property ''isAddress'') | Some tw \<Rightarrow> isAddress tw address)
       (\<lambda>e. Inr False)"

definition CardanoService_validateAddress :: "(string \<Rightarrow> exn + 'addr) \<Rightarrow> string \<Rightarrow> exn + bool" where
  "CardanoService_validateAddress Address_from_bech32 address =
     try_catch (and_then (Address_from_bech32 address) (\<lambda>addr. Inr True)) (\<lambda>e. Inr False)"

text \<open>The character class \<open>[1-9A-HJ-NP-Za-km-z]\<close> and the pattern
  \<open>/^r[1-9A-HJ-NP-Za-km-z]{25,34}$/\<close> of \<open>RippleService\<close>'s fallback.\<close>

definition char_in :: "char \<Rightarrow> char \<Rightarrow> char \<Rightarrow> bool" where
  "char_in lo hi c = ((of_char lo :: nat) \<le> of_char c \<and> (of_char c :: nat) \<le> of_char hi)"

definition ripple_class :: "char \<Rightarrow> bool" where
  "ripple_class c =
     (char_in CHR ''1'' CHR ''9'' c \<or> char_in CHR ''A'' CHR ''H'' c \<or> char_in CHR ''J'' CHR ''N'' c
      \<or> char_in CHR ''P'' CHR ''Z'' c \<or> char_in CHR ''a'' CHR ''k'' c \<or> char_in CHR ''m'' CHR ''z'' c)"

definition ripple_address_pattern :: "string \<Rightarrow> bool" where
  "ripple_address_pattern s =
     (case s of
        [] \<Rightarrow> False
      | c # cs \<Rightarrow> c = CHR ''r'' \<and> 25 \<le> length cs \<and> length cs \<le> 34 \<and> list_all ripple_class cs)"

definition RippleService_validateAddress :: "(string \<Rightarrow> exn + bool) \<Rightarrow> string \<Rightarrow> exn + bool" where
  "RippleService_validateAddress isValidAddress address =
     try_catch (isValidAddress address) (\<lambda>e. Inr (ripple_address_pattern address))"

section \<open>services: getTransactionStatus\<close>

datatype TxStatus = pending | confirmed | failed

record 'n TransactionResponse =
  hash :: string
  status :: TxStatus
  blockNumber :: "nat option"
  gasUsed :: "nat option"
  fee :: "'n option"
  timestamp :: "nat option"

text \<open>\<open>Math.floor(Date.now() / 1000)\<close>, \<open>now\<close> being \<open>Date.now()\<close> in milliseconds.\<close>

definition now_seconds :: "nat \<Rightarrow> nat" where
  "now_seconds now = now div 1000"

subsection \<open>ArbitrumService\<close>

text \<open>What the ethers provider answers: \<open>getTransaction\<close> and \<open>getTransactionReceipt\<close>
  return \<open>null\<close> for a hash the chain does not know. \<open>'n\<close> is the type of JavaScript
  numbers; \<open>formatEther\<close> stands for \<open>parseFloat(ethers.formatEther(wei))\<close>.\<close>

record EthersTx =
  tx_gasPrice :: "nat option"

record EthersReceipt =
  receipt_status :: "nat option"
  receipt_gasUsed :: nat
  receipt_gasPrice :: "nat option"
  receipt_blockNumber :: nat

record 'n EthersProvider =
  getTransaction :: "string \<Rightarrow> exn + EthersTx option"
  getTransactionReceipt :: "string \<Rightarrow> exn + EthersReceipt option"
  formatEther :: "nat \<Rightarrow> 'n"

text \<open>\<open>Number(x)\<close> on a non-negative \<open>bigint\<close>: the nearest double, ties to the even
  significand of 53 bits, and \<open>Infinity\<close> (here \<open>None\<close>) from \<open>2 ^ 1024\<close> on.\<close>

fun bit_len :: "nat \<Rightarrow> nat" where
  "bit_len n = (if n = 0 then 0 else Suc (bit_len (n div 2)))"

declare bit_len.simps [simp del]

definition round53 :: "nat \<Rightarrow> nat" where
  "round53 n =
     (if bit_len n \<le> 53 then n
      else (let e = bit_len n - 53; q = n div 2 ^ e; r = n mod 2 ^ e
            in if 2 ^ e < 2 * r \<or> (2 * r = 2 ^ e \<and> odd q) then (q + 1) * 2 ^ e else q * 2 ^ e))"

definition Number_of_bigint :: "nat \<Rightarrow> nat option" where
  "Number_of_bigint n = (if round53 n < 2 ^ 1024 then Some (round53 n) else None)"

text \<open>\<open>receipt.gasPrice || tx.gasPrice || 0n\<close>\<close>

definition effectiveGasPrice :: "EthersReceipt \<Rightarrow> EthersTx \<Rightarrow> nat" where
  "effectiveGasPrice receipt tx = or_num (receipt_gasPrice receipt) (or_num (tx_gasPrice tx) 0)"

text \<open>The message of the \<open>RangeError\<close> that \<open>BigInt(Infinity)\<close> throws.\<close>

definition BigInt_of_Infinity :: string where
  "BigInt_of_Infinity =
     ''The number Infinity cannot be converted to a BigInt because it is not an integer''"

definition ArbitrumService_getTransactionStatus ::
  "string \<Rightarrow> 'n EthersProvider option \<Rightarrow> nat \<Rightarrow> string \<Rightarrow> exn + 'n TransactionResponse" where
  "ArbitrumService_getTransactionStatus nt provider now h =
     try_catch
       (case provider of
          None \<Rightarrow> Inl (undefined_property ''getTransaction'')
        | Some p \<Rightarrow>
           and_then (getTransaction p h) (\<lambda>tx.
             case tx of
               None \<Rightarrow> Inr \<lparr>hash = h, status = failed, blockNumber = None, gasUsed = None,
                              fee = None, timestamp = Some (now_seconds now)\<rparr>
             | Some t \<Rightarrow>
                and_then (getTransactionReceipt p h) (\<lambda>receipt.
                  case receipt of
                    Some r \<Rightarrow>
                      (case Number_of_bigint (receipt_gasUsed r) of
                         Some g \<Rightarrow> Inr
                           \<lparr>hash = h,
                            status = (if receipt_status r = Some 1 then confirmed else failed),
                            blockNumber = Some (receipt_blockNumber r),
                            gasUsed = Some g,
                            fee = Some (formatEther p (g * effectiveGasPrice r t)),
                            timestamp = Some (now_seconds now)\<rparr>
                       | None \<Rightarrow> Inl (Error BigInt_of_Infinity))
                  | None \<Rightarrow> Inr
                      \<lparr>hash = h, status = pending, blockNumber = None, gasUsed = None,
                       fee = None, timestamp = Some (now_seconds now)\<rparr>)))
       (rethrow nt ''getTransactionStatus'')"

subsection \<open>TRC20Service\<close>

record TronTx =
  txID :: "string option"

record TronTxInfo =
  info_id :: "string option"
  info_result :: "string option"
  info_blockNumber :: "nat option"
  info_fee :: "nat option"
  info_energy_usage :: "nat option"

record 'n TronWeb =
  trx_getTransaction :: "string \<Rightarrow> exn + TronTx option"
  trx_getTransactionInfo :: "string \<Rightarrow> exn + TronTxInfo"
  fromSun :: "nat \<Rightarrow> 'n"

definition TRC20Service_getTransactionStatus ::
  "string \<Rightarrow> 'n TronWeb option \<Rightarrow> nat \<Rightarrow> string \<Rightarrow> exn + 'n TransactionResponse" where
  "TRC20Service_getTransactionStatus nt tronWeb now h =
     try_catch
       (case tronWeb of
          None \<Rightarrow> Inl (undefined_property ''trx'')
        | Some tw \<Rightarrow>
           and_then (trx_getTransaction tw h) (\<lambda>transaction.
             if (case transaction of None \<Rightarrow> True | Some t \<Rightarrow> \<not> truthy (txID t)) then
               Inr \<lparr>hash = h, status = failed, blockNumber = None, gasUsed = None,
                     fee = None, timestamp = Some (now_seconds now)\<rparr>
             else
               and_then (trx_getTransactionInfo tw h) (\<lambda>transactionInfo. Inr
                 \<lparr>hash = h,
                  status = (if truthy (info_id transactionInfo)
                            then (if info_result transactionInfo = Some ''SUCCESS''
                                  then confirmed else failed)
                            else pending),
                  blockNumber = info_blockNumber transactionInfo,
                  gasUsed = info_energy_usage transactionInfo,
                  fee = (if truthy_num (info_fee transactionInfo)
                         then map_option (fromSun tw) (info_fee transactionInfo) else None),
                  timestamp = Some (now_seconds now)\<rparr>)))
       (rethrow nt ''getTransactionStatus'')"

subsection \<open>RippleService\<close>

text \<open>The result of the \<open>tx\<close> command. The XRPL client rejects the request when the
  server answers with an error, as it does (\<open>txnNotFound\<close>) for a hash it does not
  know. \<open>dropsToXrp\<close> stands for \<open>parseFloat(dropsToXrp(drops))\<close>, which throws on a
  malformed amount.\<close>

record RippleTx =
  validated :: bool
  Fee :: "string option"
  ledger_index :: "nat option"
  date :: "nat option"

record 'n RippleClient =
  request_tx :: "string \<Rightarrow> exn + RippleTx"
  dropsToXrp :: "string \<Rightarrow> exn + 'n"

definition RippleService_getTransactionStatus ::
  "string \<Rightarrow> 'n RippleClient option \<Rightarrow> nat \<Rightarrow> string \<Rightarrow> exn + 'n TransactionResponse" where
  "RippleService_getTransactionStatus nt client now h =
     try_catch
       (case client of
          None \<Rightarrow> Inl (undefined_property ''request'')
        | Some c \<Rightarrow>
           and_then (request_tx c h) (\<lambda>response.
             and_then
               (case Fee response of
                  None \<Rightarrow> Inr None
                | Some drops \<Rightarrow>
                    if drops \<noteq> [] then and_then (dropsToXrp c drops) (\<lambda>x. Inr (Some x))
                    else Inr None)
               (\<lambda>fee. Inr
                 \<lparr>hash = h,
                  status = (if validated response then confirmed else pending),
                  blockNumber = ledger_index response,
                  gasUsed = None,
                  fee = fee,
                  timestamp = Some (case date response of
                                      None \<Rightarrow> now_seconds now
                                    | Some d \<Rightarrow> if d \<noteq> 0 then d + 946684800
                                                else now_seconds now)\<rparr>)))
       (rethrow nt ''getTransactionStatus'')"

section \<open>services: createWallet\<close>

text \<open>\<open>'ix\<close> is the type of the JavaScript numbers an index can be. What the adapters
  do with an index is print it in a template literal and test it in \<open>index || 0\<close>.\<close>

record 'ix NumberOps =
  number_toString :: "'ix \<Rightarrow> string"
  number_truthy :: "'ix \<Rightarrow> bool"

record 'ix CreateWalletOptions =
  mnemonic :: "string option"
  password :: "string option"
  derivationPath :: "string option"
  keySize :: "'ix option"
  index :: "'ix option"

text \<open>\<open>keyPair\<close> is the SDK's key-pair object, of a type \<open>'kp\<close> the SDK fixes.\<close>

record ('kp, 'ix) WalletCreationResponse =
  address :: string
  privateKey :: "string option"
  publicKey :: "string option"
  mnemonic :: "string option"
  seed :: "string option"
  keyPair :: "'kp option"
  derivationPath :: "string option"
  network :: string
  index :: "'ix option"

text \<open>\<open>options?.field\<close> on the optional argument.\<close>

definition opt :: "'o option \<Rightarrow> ('o \<Rightarrow> 'a option) \<Rightarrow> 'a option" where
  "opt options field = (case options of None \<Rightarrow> None | Some ob \<Rightarrow> field ob)"

text \<open>\<open>a || b\<close> on optional strings, and the value an \<open>if (a)\<close> branch sees.\<close>

definition or_else :: "string option \<Rightarrow> string option \<Rightarrow> string option" where
  "or_else a b = (if truthy a then a else b)"

definition nonempty :: "string option \<Rightarrow> string option" where
  "nonempty a = (if truthy a then a else None)"

text \<open>\<open>`m/44'/${coin}'/${index}'/0/0`\<close>, \<open>i\<close> being the printed index.\<close>

definition bip44_path :: "string \<Rightarrow> string \<Rightarrow> string" where
  "bip44_path coin i = ''m/44'/'' @ coin @ '''/'' @ i @ '''/0/0''"

subsection \<open>ArbitrumService and AvalancheService (ethers)\<close>

record EthersWallet =
  wallet_address :: string
  wallet_privateKey :: string
  wallet_publicKey :: string
  signingKey_publicKey :: string
  mnemonic_phrase :: "string option"

text \<open>The ethers calls of \<open>createWallet\<close>. \<open>Wallet.createRandom\<close> draws entropy: the
  draw of a call is its argument \<open>'r\<close>.\<close>

record ('m, 'r) EthersLib =
  Mnemonic_fromPhrase :: "string \<Rightarrow> exn + 'm"
  HDNodeWallet_fromMnemonic :: "'m \<Rightarrow> string option \<Rightarrow> exn + EthersWallet"
  Wallet_createRandom :: "'r \<Rightarrow> exn + EthersWallet"

definition ArbitrumService_createWallet ::
  "string \<Rightarrow> ('m, 'r) EthersLib \<Rightarrow> 'ix NumberOps \<Rightarrow> process_env \<Rightarrow> 'r \<Rightarrow> 'ix CreateWalletOptions option
     \<Rightarrow> exn + ('kp, 'ix) WalletCreationResponse" where
  "ArbitrumService_createWallet nt lib num env rnd options =
     try_catch
       (case nonempty (or_else (opt options CreateWalletOptions.mnemonic) (env ''ARBITRUM_SEED'')) of
          Some targetMnemonic \<Rightarrow>
            and_then (Mnemonic_fromPhrase lib targetMnemonic) (\<lambda>mnemonicObj.
              case opt options CreateWalletOptions.index of
                Some i \<Rightarrow>
                  (let usedDerivationPath =
                         or_string (opt options CreateWalletOptions.derivationPath) (bip44_path ''60'' (number_toString num i))
                   in and_then (HDNodeWallet_fromMnemonic lib mnemonicObj (Some usedDerivationPath))
                        (\<lambda>wallet. Inr
                          \<lparr>address = wallet_address wallet,
                           privateKey = Some (wallet_privateKey wallet),
                           publicKey = Some (wallet_publicKey wallet),
                           mnemonic = Some targetMnemonic, seed = None, keyPair = None,
                           derivationPath = Some usedDerivationPath,
                           network = ''Arbitrum'', index = Some i\<rparr>))
              | None \<Rightarrow>
                  and_then (HDNodeWallet_fromMnemonic lib mnemonicObj None)
                    (\<lambda>wallet. Inr
                      \<lparr>address = wallet_address wallet,
                       privateKey = Some (wallet_privateKey wallet),
                       publicKey = Some (wallet_publicKey wallet),
                       mnemonic = Some targetMnemonic, seed = None, keyPair = None,
                       derivationPath = None, network = ''Arbitrum'', index = None\<rparr>))
        | None \<Rightarrow>
            (case opt options CreateWalletOptions.index of
               Some i \<Rightarrow>
                 and_then (Wallet_createRandom lib rnd) (\<lambda>randomWallet.
                   case nonempty (mnemonic_phrase randomWallet) of
                     Some phrase \<Rightarrow>
                       (let usedDerivationPath =
                              or_string (opt options CreateWalletOptions.derivationPath)
                                (bip44_path ''60'' (number_toString num i))
                        in and_then (Mnemonic_fromPhrase lib phrase) (\<lambda>mnemonicObj.
                             and_then (HDNodeWallet_fromMnemonic lib mnemonicObj (Some usedDerivationPath))
                               (\<lambda>wallet. Inr
                                 \<lparr>address = wallet_address wallet,
                                  privateKey = Some (wallet_privateKey wallet),
                                  publicKey = Some (wallet_publicKey wallet),
                                  mnemonic = Some phrase, seed = None, keyPair = None,
                                  derivationPath = Some usedDerivationPath,
                                  network = ''Arbitrum'', index = Some i\<rparr>)))
                   | None \<Rightarrow> Inl (Error ''Failed to generate mnemonic for new wallet''))
             | None \<Rightarrow>
                 and_then (Wallet_createRandom lib rnd) (\<lambda>wallet. Inr
                   \<lparr>address = wallet_address wallet,
                    privateKey = Some (wallet_privateKey wallet),
                    publicKey = Some (signingKey_publicKey wallet),
                    mnemonic = mnemonic_phrase wallet, seed = None, keyPair = None,
                    derivationPath = None, network = ''Arbitrum'', index = None\<rparr>)))
       (rethrow nt ''createWallet'')"

definition AvalancheService_createWallet ::
  "string \<Rightarrow> ('m, 'r) EthersLib \<Rightarrow> 'ix NumberOps \<Rightarrow> process_env \<Rightarrow> 'r \<Rightarrow> 'ix CreateWalletOptions option
     \<Rightarrow> exn + ('kp, 'ix) WalletCreationResponse" where
  "AvalancheService_createWallet nt lib num env rnd options =
     try_catch
       (case nonempty (or_else (opt options CreateWalletOptions.mnemonic) (env ''AVALANCHE_SEED'')) of
          Some targetMnemonic \<Rightarrow>
            and_then (Mnemonic_fromPhrase lib targetMnemonic) (\<lambda>mnemonicObj.
              case opt options CreateWalletOptions.index of
                Some i \<Rightarrow>
                  (let usedDerivationPath =
                         or_string (opt options CreateWalletOptions.derivationPath) (bip44_path ''9000'' (number_toString num i))
                   in and_then (HDNodeWallet_fromMnemonic lib mnemonicObj (Some usedDerivationPath))
                        (\<lambda>wallet. Inr
                          \<lparr>address = wallet_address wallet,
                           privateKey = Some (wallet_privateKey wallet),
                           publicKey = Some (wallet_publicKey wallet),
                           mnemonic = Some targetMnemonic, seed = None, keyPair = None,
                           derivationPath = Some usedDerivationPath,
                           network = ''avalanche'', index = Some i\<rparr>))
              | None \<Rightarrow>
                  and_then (HDNodeWallet_fromMnemonic lib mnemonicObj None)
                    (\<lambda>wallet. Inr
                      \<lparr>address = wallet_address wallet,
                       privateKey = Some (wallet_privateKey wallet),
                       publicKey = Some (wallet_publicKey wallet),
                       mnemonic = Some targetMnemonic, seed = None, keyPair = None,
                       derivationPath = None, network = ''avalanche'', index = None\<rparr>))
        | None \<Rightarrow>
            (case opt options CreateWalletOptions.index of
               Some i \<Rightarrow>
                 and_then (Wallet_createRandom lib rnd) (\<lambda>randomWallet.
                   case nonempty (mnemonic_phrase randomWallet) of
                     Some phrase \<Rightarrow>
                       (let usedDerivationPath =
                              or_string (opt options CreateWalletOptions.derivationPath)
                                (bip44_path ''9000'' (number_toString num i))
                        in and_then (Mnemonic_fromPhrase lib phrase) (\<lambda>mnemonicObj.
                             and_then (HDNodeWallet_fromMnemonic lib mnemonicObj (Some usedDerivationPath))
                               (\<lambda>wallet. Inr
                                 \<lparr>address = wallet_address wallet,
                                  privateKey = Some (wallet_privateKey wallet),
                                  publicKey = Some (wallet_publicKey wallet),
                                  mnemonic = Some phrase, seed = None, keyPair = None,
                                  derivationPath = Some usedDerivationPath,
                                  network = ''avalanche'', index = Some i\<rparr>)))
                   | None \<Rightarrow> Inl (Error ''Failed to generate mnemonic for new wallet''))
             | None \<Rightarrow>
                 and_then (Wallet_createRandom lib rnd) (\<lambda>wallet. Inr
                   \<lparr>address = wallet_address wallet,
                    privateKey = Some (wallet_privateKey wallet),
                    publicKey = Some (signingKey_publicKey wallet),
                    mnemonic = mnemonic_phrase wallet, seed = None, keyPair = None,
                    derivationPath = None, network = ''avalanche'', index = None\<rparr>)))
       (rethrow nt ''createWallet'')"

subsection \<open>CardanoService\<close>

text \<open>The calls into \<open>bip39\<close> and the Cardano serialization library. \<open>address_bech32\<close>
  stands for the base address built from the public key's hash, printed as bech32;
  \<open>private_hex\<close> and \<open>public_hex\<close> for \<open>Buffer.from(key.as_bytes()).toString('hex')\<close>.\<close>

record ('ent, 'k, 'sk, 'pk, 'r) CardanoLib =
  mnemonicToEntropy :: "string \<Rightarrow> exn + 'ent"
  from_bip39_entropy :: "'ent \<Rightarrow> exn + 'k"
  derive :: "'k \<Rightarrow> nat \<Rightarrow> exn + 'k"
  to_raw_key :: "'k \<Rightarrow> exn + 'sk"
  to_public :: "'sk \<Rightarrow> exn + 'pk"
  address_bech32 :: "'pk \<Rightarrow> exn + string"
  private_hex :: "'sk \<Rightarrow> string"
  public_hex :: "'pk \<Rightarrow> string"
  cardano_generateMnemonic :: "nat \<Rightarrow> 'r \<Rightarrow> string"

definition harden :: "nat \<Rightarrow> nat" where
  "harden num = 0x80000000 + num"

definition createWalletFromMnemonic ::
  "('ent, 'k, 'sk, 'pk, 'r) CardanoLib \<Rightarrow> string \<Rightarrow> exn + ('sk \<times> 'pk \<times> string)" where
  "createWalletFromMnemonic lib phrase =
     try_catch
       (and_then (mnemonicToEntropy lib phrase) (\<lambda>entropy.
        and_then (from_bip39_entropy lib entropy) (\<lambda>rootKey.
        and_then (derive lib rootKey (harden 1852)) (\<lambda>k1.
        and_then (derive lib k1 (harden 1815)) (\<lambda>k2.
        and_then (derive lib k2 (harden 0)) (\<lambda>accountKey.
        and_then (derive lib accountKey 0) (\<lambda>k3.
        and_then (derive lib k3 0) (\<lambda>spendingKey.
        and_then (to_raw_key lib spendingKey) (\<lambda>sk.
        and_then (to_public lib sk) (\<lambda>pk.
        and_then (address_bech32 lib pk) (\<lambda>a. Inr (sk, pk, a))))))))))))
       (\<lambda>e. Inl (Error (''Failed to create wallet from mnemonic: '' @ message_or_unknown e)))"

definition CardanoService_createWallet ::
  "string \<Rightarrow> ('ent, 'k, 'sk, 'pk, 'r) CardanoLib \<Rightarrow> 'r \<Rightarrow> 'ix CreateWalletOptions option
     \<Rightarrow> exn + ('kp, 'ix) WalletCreationResponse" where
  "CardanoService_createWallet nt lib rnd options =
     try_catch
       (let phrase = (case nonempty (opt options CreateWalletOptions.mnemonic) of
                        Some m \<Rightarrow> m
                      | None \<Rightarrow> cardano_generateMnemonic lib 256 rnd)
        in and_then (createWalletFromMnemonic lib phrase) (\<lambda>(sk, pk, a). Inr
             \<lparr>address = a, privateKey = Some (private_hex lib sk),
              publicKey = Some (public_hex lib pk), mnemonic = Some phrase, seed = None,
              keyPair = None, derivationPath = None, network = ''cardano'', index = None\<rparr>))
       (rethrow nt ''createWallet'')"

subsection \<open>RippleService\<close>

record XrplWallet =
  xrpl_address :: string
  xrpl_seed :: "string option"
  xrpl_publicKey :: string
  xrpl_privateKey :: string

text \<open>\<open>xrpl_derivePath path seed\<close> stands for the hex of
  \<open>derivePath(path, seed.toString('hex')).key\<close>.\<close>

record 'r XrplLib =
  xrpl_mnemonicToSeedSync :: "string \<Rightarrow> exn + string"
  xrpl_derivePath :: "string \<Rightarrow> string \<Rightarrow> exn + string"
  Wallet_fromSeed :: "string \<Rightarrow> exn + XrplWallet"
  Wallet_generate :: "'r \<Rightarrow> exn + XrplWallet"
  xrpl_generateMnemonic :: "'r \<Rightarrow> string"

definition RippleService_createWallet ::
  "string \<Rightarrow> 'r XrplLib \<Rightarrow> 'ix NumberOps \<Rightarrow> 'r \<Rightarrow> 'ix CreateWalletOptions option
     \<Rightarrow> exn + ('kp, 'ix) WalletCreationResponse" where
  "RippleService_createWallet nt lib num rnd options =
     try_catch
       (case nonempty (opt options CreateWalletOptions.mnemonic) of
          Some m \<Rightarrow>
            (case opt options CreateWalletOptions.index of
               Some i \<Rightarrow>
                 (let usedDerivationPath =
                        or_string (opt options CreateWalletOptions.derivationPath) (bip44_path ''144'' (number_toString num i))
                  in and_then (xrpl_mnemonicToSeedSync lib m) (\<lambda>sd.
                     and_then (xrpl_derivePath lib usedDerivationPath sd) (\<lambda>derivedSeed.
                     and_then (Wallet_fromSeed lib derivedSeed) (\<lambda>wallet. Inr
                       \<lparr>address = xrpl_address wallet, privateKey = Some (xrpl_privateKey wallet),
                        publicKey = Some (xrpl_publicKey wallet), mnemonic = Some m,
                        seed = xrpl_seed wallet, keyPair = None,
                        derivationPath = Some usedDerivationPath,
                        network = ''ripple'', index = Some i\<rparr>))))
             | None \<Rightarrow>
                 and_then (Wallet_fromSeed lib m) (\<lambda>wallet. Inr
                   \<lparr>address = xrpl_address wallet, privateKey = Some (xrpl_privateKey wallet),
                    publicKey = Some (xrpl_publicKey wallet), mnemonic = Some m,
                    seed = xrpl_seed wallet, keyPair = None, derivationPath = None,
                    network = ''ripple'', index = None\<rparr>))
        | None \<Rightarrow>
            (case opt options CreateWalletOptions.index of
               Some i \<Rightarrow>
                 (let m = xrpl_generateMnemonic lib rnd;
                      usedDerivationPath =
                        or_string (opt options CreateWalletOptions.derivationPath) (bip44_path ''144'' (number_toString num i))
                  in and_then (xrpl_mnemonicToSeedSync lib m) (\<lambda>sd.
                     and_then (xrpl_derivePath lib usedDerivationPath sd) (\<lambda>derivedSeed.
                     and_then (Wallet_fromSeed lib derivedSeed) (\<lambda>wallet. Inr
                       \<lparr>address = xrpl_address wallet, privateKey = Some (xrpl_privateKey wallet),
                        publicKey = Some (xrpl_publicKey wallet), mnemonic = Some m,
                        seed = xrpl_seed wallet, keyPair = None,
                        derivationPath = Some usedDerivationPath,
                        network = ''ripple'', index = Some i\<rparr>))))
             | None \<Rightarrow>
                 and_then (Wallet_generate lib rnd) (\<lambda>wallet. Inr
                   \<lparr>address = xrpl_address wallet, privateKey = Some (xrpl_privateKey wallet),
                    publicKey = Some (xrpl_publicKey wallet), mnemonic = None,
                    seed = xrpl_seed wallet, keyPair = None, derivationPath = None,
                    network = ''ripple'', index = None\<rparr>)))
       (rethrow nt ''createWallet'')"

subsection \<open>SolanaService\<close>

text \<open>\<open>sol_derivePath path seed\<close> stands for \<open>derivePath(path, seed.toString('hex')).key\<close>,
  \<open>seed_slice32\<close> for \<open>seed.slice(0, 32)\<close>, \<open>keypair_address\<close> for
  \<open>keypair.publicKey.toString()\<close>, \<open>keypair_secret_json\<close> for
  \<open>JSON.stringify(Array.from(keypair.secretKey))\<close>.\<close>

record ('sd, 'kp, 'r) SolanaLib =
  sol_mnemonicToSeedSync :: "string \<Rightarrow> exn + 'sd"
  sol_derivePath :: "string \<Rightarrow> 'sd \<Rightarrow> exn + 'sd"
  seed_slice32 :: "'sd \<Rightarrow> 'sd"
  Keypair_fromSeed :: "'sd \<Rightarrow> exn + 'kp"
  keypair_address :: "'kp \<Rightarrow> string"
  keypair_secret_json :: "'kp \<Rightarrow> string"
  sol_generateMnemonic :: "'r \<Rightarrow> string"

text \<open>\<open>`m/44'/501'/${index}'/0'`\<close>, \<open>i\<close> being the printed index.\<close>

definition solana_path :: "string \<Rightarrow> string" where
  "solana_path i = ''m/44'/501'/'' @ i @ '''/0'' @ [CHR 0x27]"

definition SolanaService_createWallet ::
  "string \<Rightarrow> ('sd, 'kp, 'r) SolanaLib \<Rightarrow> 'ix NumberOps \<Rightarrow> process_env \<Rightarrow> 'r \<Rightarrow> 'ix CreateWalletOptions option
     \<Rightarrow> exn + ('kp, 'ix) WalletCreationResponse" where
  "SolanaService_createWallet nt lib num env rnd options =
     try_catch
       (let m = (case nonempty (opt options CreateWalletOptions.mnemonic) of
                   Some om \<Rightarrow> om
                 | None \<Rightarrow> (case nonempty (env ''SOLANA_SEED'') of
                              Some sm \<Rightarrow> sm
                            | None \<Rightarrow> sol_generateMnemonic lib rnd))
        in and_then (sol_mnemonicToSeedSync lib m) (\<lambda>sd.
             case opt options CreateWalletOptions.index of
               Some i \<Rightarrow>
                 (let usedDerivationPath =
                        or_string (opt options CreateWalletOptions.derivationPath) (solana_path (number_toString num i))
                  in and_then (sol_derivePath lib usedDerivationPath sd) (\<lambda>derivedSeed.
                     and_then (Keypair_fromSeed lib derivedSeed) (\<lambda>keypair. Inr
                       \<lparr>address = keypair_address lib keypair,
                        privateKey = Some (keypair_secret_json lib keypair),
                        publicKey = Some (keypair_address lib keypair), mnemonic = Some m,
                        seed = None, keyPair = Some keypair,
                        derivationPath = Some usedDerivationPath,
                        network = ''solana'', index = Some i\<rparr>)))
             | None \<Rightarrow>
                 and_then (Keypair_fromSeed lib (seed_slice32 lib sd)) (\<lambda>keypair. Inr
                   \<lparr>address = keypair_address lib keypair,
                    privateKey = Some (keypair_secret_json lib keypair),
                    publicKey = Some (keypair_address lib keypair), mnemonic = Some m,
                    seed = None, keyPair = Some keypair, derivationPath = None,
                    network = ''solana'', index = None\<rparr>)))
       (rethrow nt ''createWallet'')"

subsection \<open>TONService\<close>

text \<open>\<open>s.split(' ')\<close> and \<open>words.join(' ')\<close>\<close>

fun split_space :: "string \<Rightarrow> string list" where
  "split_space [] = [[]]"
| "split_space (c # cs) =
     (if c = CHR '' '' then [] # split_space cs
      else (case split_space cs of w # ws \<Rightarrow> (c # w) # ws | [] \<Rightarrow> [[c]]))"

fun join_space :: "string list \<Rightarrow> string" where
  "join_space [] = []"
| "join_space [w] = w"
| "join_space (w # ws) = w @ '' '' @ join_space ws"

text \<open>\<open>wallet_address_of keyPair workchain\<close> stands for
  \<open>WalletContractV4.create({ publicKey, workchain }).address.toString()\<close>.\<close>

record ('kp, 'ix, 'r) TonLib =
  mnemonicNew :: "'r \<Rightarrow> exn + string list"
  mnemonicToWalletKey :: "string list \<Rightarrow> exn + 'kp"
  wallet_address_of :: "'kp \<Rightarrow> 'ix \<Rightarrow> exn + string"
  ton_public_hex :: "'kp \<Rightarrow> string"
  ton_secret_hex :: "'kp \<Rightarrow> string"

definition TONService_createWallet ::
  "string \<Rightarrow> ('kp, 'ix::zero, 'r) TonLib \<Rightarrow> process_env \<Rightarrow> 'r \<Rightarrow> 'ix CreateWalletOptions option
     \<Rightarrow> exn + ('kp, 'ix) WalletCreationResponse" where
  "TONService_createWallet nt lib env rnd options =
     try_catch
       (and_then
          (case nonempty (opt options CreateWalletOptions.mnemonic) of
             Some om \<Rightarrow> Inr (split_space om)
           | None \<Rightarrow> (case nonempty (env ''TON_SEED'') of
                        Some sm \<Rightarrow> Inr (split_space sm)
                      | None \<Rightarrow> mnemonicNew lib rnd))
          (\<lambda>ws.
             and_then (mnemonicToWalletKey lib ws) (\<lambda>kp.
               (let workchain = (case opt options CreateWalletOptions.index of
                                   Some i \<Rightarrow> i | None \<Rightarrow> 0)
                in and_then (wallet_address_of lib kp workchain) (\<lambda>a. Inr
                     \<lparr>address = a, privateKey = Some (ton_secret_hex lib kp),
                      publicKey = Some (ton_public_hex lib kp),
                      mnemonic = Some (join_space ws), seed = None, keyPair = Some kp,
                      derivationPath = None, network = ''ton'',
                      index = opt options CreateWalletOptions.index\<rparr>)))))
       (rethrow nt ''createWallet'')"


subsection \<open>TRC20Service\<close>

text \<open>The calls into \<open>bip39\<close>, \<open>bip32\<close> and TronWeb. \<open>node_privateKey_hex\<close> stands for
  \<open>child.privateKey.toString('hex')\<close>. \<open>tronWeb.address.fromPrivateKey\<close> returns the
  address as a string (\<open>fromPrivateKey(privateKey: string): string\<close> in the repository's
  \<open>tronweb.d.ts\<close>); \<open>tronWeb.createAccount\<close> resolves to an account object, of which
  \<open>account_base58\<close> is \<open>account.address.base58\<close>.\<close>

record ('sd, 'nd, 'tw, 'acct, 'r) TronLib =
  validateMnemonic :: "string \<Rightarrow> exn + bool"
  tron_mnemonicToSeedSync :: "string \<Rightarrow> exn + 'sd"
  bip32_fromSeed :: "'sd \<Rightarrow> exn + 'nd"
  node_derivePath :: "'nd \<Rightarrow> string \<Rightarrow> exn + 'nd"
  node_privateKey_hex :: "'nd \<Rightarrow> exn + string"
  address_fromPrivateKey :: "'tw \<Rightarrow> string \<Rightarrow> exn + string"
  createAccount :: "'tw \<Rightarrow> 'r \<Rightarrow> exn + 'acct"
  account_base58 :: "'acct \<Rightarrow> exn + string"
  account_privateKey :: "'acct \<Rightarrow> string option"
  account_publicKey :: "'acct \<Rightarrow> string option"
  tron_generateMnemonic :: "'r \<Rightarrow> string"

text \<open>What the variable \<open>account\<close> holds: the string of \<open>fromPrivateKey\<close> or the object of
  \<open>createAccount\<close>.\<close>

datatype 'acct TronAccount = AddressString string | AccountObject 'acct

text \<open>\<open>account.address.base58\<close>, \<open>account.privateKey\<close> and \<open>account.publicKey\<close>: a string
  has none of these properties, so the first reads \<open>base58\<close> of \<open>undefined\<close>.\<close>

definition TronAccount_base58 ::
  "('sd, 'nd, 'tw, 'acct, 'r) TronLib \<Rightarrow> 'acct TronAccount \<Rightarrow> exn + string" where
  "TronAccount_base58 lib account =
     (case account of
        AddressString s \<Rightarrow> Inl (undefined_property ''base58'')
      | AccountObject ob \<Rightarrow> account_base58 lib ob)"

definition TronAccount_privateKey ::
  "('sd, 'nd, 'tw, 'acct, 'r) TronLib \<Rightarrow> 'acct TronAccount \<Rightarrow> string option" where
  "TronAccount_privateKey lib account =
     (case account of AddressString s \<Rightarrow> None | AccountObject ob \<Rightarrow> account_privateKey lib ob)"

definition TronAccount_publicKey ::
  "('sd, 'nd, 'tw, 'acct, 'r) TronLib \<Rightarrow> 'acct TronAccount \<Rightarrow> string option" where
  "TronAccount_publicKey lib account =
     (case account of AddressString s \<Rightarrow> None | AccountObject ob \<Rightarrow> account_publicKey lib ob)"

text \<open>\<open>`${options.index || 0}`\<close>\<close>

definition index_or_zero :: "'ix NumberOps \<Rightarrow> 'ix option \<Rightarrow> string" where
  "index_or_zero num i =
     (case i of
        None \<Rightarrow> ''0''
      | Some v \<Rightarrow> if number_truthy num v then number_toString num v else ''0'')"

definition TRC20Service_createWallet ::
  "string \<Rightarrow> ('sd, 'nd, 'tw, 'acct, 'r) TronLib \<Rightarrow> 'ix NumberOps \<Rightarrow> 'tw option \<Rightarrow> 'r
     \<Rightarrow> 'ix CreateWalletOptions option \<Rightarrow> exn + ('kp, 'ix) WalletCreationResponse" where
  "TRC20Service_createWallet nt lib num tronWeb rnd options =
     try_catch
       (and_then
          (case nonempty (opt options CreateWalletOptions.mnemonic) of
             Some m \<Rightarrow>
               and_then (validateMnemonic lib m) (\<lambda>valid.
                 if \<not> valid then Inl (Error ''Invalid mnemonic phrase'')
                 else
                   and_then (tron_mnemonicToSeedSync lib m) (\<lambda>sd.
                   and_then (bip32_fromSeed lib sd) (\<lambda>root.
                     (let path = or_string (opt options CreateWalletOptions.derivationPath)
                                   (bip44_path ''195''
                                      (index_or_zero num (opt options CreateWalletOptions.index)))
                      in and_then (node_derivePath lib root path) (\<lambda>child.
                         and_then (node_privateKey_hex lib child) (\<lambda>pk.
                         and_then (case tronWeb of
                                     None \<Rightarrow> Inl (undefined_property ''address'')
                                   | Some tw \<Rightarrow> address_fromPrivateKey lib tw pk) (\<lambda>s.
                           Inr (AddressString s, Some m, Some path))))))))
           | None \<Rightarrow>
               and_then (case tronWeb of
                           None \<Rightarrow> Inl (undefined_property ''createAccount'')
                         | Some tw \<Rightarrow> createAccount lib tw rnd) (\<lambda>ob.
                 case opt options CreateWalletOptions.index of
                   Some i \<Rightarrow> Inr (AccountObject ob, Some (tron_generateMnemonic lib rnd),
                                 Some (or_string (opt options CreateWalletOptions.derivationPath)
                                         (bip44_path ''195'' (number_toString num i))))
                 | None \<Rightarrow> Inr (AccountObject ob, None, None)))
          (\<lambda>(account, m, path).
             and_then (TronAccount_base58 lib account) (\<lambda>a. Inr
               \<lparr>address = a, privateKey = TronAccount_privateKey lib account,
                publicKey = TronAccount_publicKey lib account, mnemonic = m, seed = None,
                keyPair = None, derivationPath = path, network = ''tron'',
                index = opt options CreateWalletOptions.index\<rparr>)))
       (rethrow nt ''createWallet'')"

section \<open>Notions the statements about \<open>createWallet\<close> use\<close>

text \<open>Two option arguments that agree on what the derivation reads: the mnemonic, the
  index and the derivation path.\<close>

definition same_derivation ::
  "'ix CreateWalletOptions option \<Rightarrow> 'ix CreateWalletOptions option \<Rightarrow> bool" where
  "same_derivation o1 o2 =
     (opt o1 CreateWalletOptions.mnemonic = opt o2 CreateWalletOptions.mnemonic
      \<and> opt o1 CreateWalletOptions.index = opt o2 CreateWalletOptions.index
      \<and> opt o1 CreateWalletOptions.derivationPath = opt o2 CreateWalletOptions.derivationPath)"

text \<open>The keys of a returned wallet: its address, public key and private key.\<close>

definition wallet_keys ::
  "('kp, 'ix) WalletCreationResponse \<Rightarrow> string \<times> string option \<times> string option" where
  "wallet_keys w =
     (WalletCreationResponse.address w, WalletCreationResponse.publicKey w,
      WalletCreationResponse.privateKey w)"

text \<open>The path a derivation follows for the options of a call: the \<open>derivationPath\<close>
  option when it is a non-empty string, else the chain's path for the index.\<close>

definition path_for :: "'ix CreateWalletOptions option \<Rightarrow> string \<Rightarrow> string" where
  "path_for options chain_path =
     or_string (opt options CreateWalletOptions.derivationPath) chain_path"

text \<open>What each SDK derives from a mnemonic phrase for the options of a call, as the key
  triple of the derived wallet. With an index the wallet is the one at the path of the
  index; without, the ethers adapters take the wallet at the library's default path and
  Solana the key pair of the first 32 bytes of the seed. Cardano follows its fixed path
  \<open>1852'/1815'/0'/0/0\<close>; TON takes the key of the words, in the workchain the index
  names.\<close>

definition ethers_derivation ::
  "('m, 'r) EthersLib \<Rightarrow> 'ix NumberOps \<Rightarrow> string \<Rightarrow> 'ix CreateWalletOptions option \<Rightarrow> string
     \<Rightarrow> exn + string \<times> string option \<times> string option" where
  "ethers_derivation lib num coin options phrase =
     and_then (Mnemonic_fromPhrase lib phrase) (\<lambda>mnemonicObj.
     and_then (HDNodeWallet_fromMnemonic lib mnemonicObj
                 (map_option (\<lambda>i. path_for options (bip44_path coin (number_toString num i)))
                    (opt options CreateWalletOptions.index)))
       (\<lambda>w. Inr (wallet_address w, Some (wallet_publicKey w), Some (wallet_privateKey w))))"

definition cardano_derivation ::
  "('ent, 'k, 'sk, 'pk, 'r) CardanoLib \<Rightarrow> string \<Rightarrow> exn + string \<times> string option \<times> string option" where
  "cardano_derivation lib phrase =
     and_then (createWalletFromMnemonic lib phrase)
       (\<lambda>(sk, pk, a). Inr (a, Some (public_hex lib pk), Some (private_hex lib sk)))"

definition solana_derivation ::
  "('sd, 'kp, 'r) SolanaLib \<Rightarrow> 'ix NumberOps \<Rightarrow> 'ix CreateWalletOptions option \<Rightarrow> string
     \<Rightarrow> exn + string \<times> string option \<times> string option" where
  "solana_derivation lib num options phrase =
     and_then (sol_mnemonicToSeedSync lib phrase) (\<lambda>sd.
     and_then (case opt options CreateWalletOptions.index of
                 Some i \<Rightarrow> sol_derivePath lib (path_for options (solana_path (number_toString num i))) sd
               | None \<Rightarrow> Inr (seed_slice32 lib sd)) (\<lambda>keySeed.
     and_then (Keypair_fromSeed lib keySeed)
       (\<lambda>kp. Inr (keypair_address lib kp, Some (keypair_address lib kp),
                   Some (keypair_secret_json lib kp)))))"

definition ton_derivation ::
  "('kp, 'ix::zero, 'r) TonLib \<Rightarrow> 'ix CreateWalletOptions option \<Rightarrow> string list
     \<Rightarrow> exn + string \<times> string option \<times> string option" where
  "ton_derivation lib options ws =
     and_then (mnemonicToWalletKey lib ws) (\<lambda>kp.
     and_then (wallet_address_of lib kp
                 (case opt options CreateWalletOptions.index of Some i \<Rightarrow> i | None \<Rightarrow> 0))
       (\<lambda>a. Inr (a, Some (ton_public_hex lib kp), Some (ton_secret_hex lib kp))))"

text \<open>The key triples of the wallets the SDKs make from fresh entropy alone.\<close>

definition ethers_random ::
  "('m, 'r) EthersLib \<Rightarrow> 'r \<Rightarrow> exn + string \<times> string option \<times> string option" where
  "ethers_random lib rnd =
     and_then (Wallet_createRandom lib rnd)
       (\<lambda>w. Inr (wallet_address w, Some (signingKey_publicKey w), Some (wallet_privateKey w)))"

definition ripple_random :: "'r XrplLib \<Rightarrow> 'r \<Rightarrow> exn + string \<times> string option \<times> string option" where
  "ripple_random lib rnd =
     and_then (Wallet_generate lib rnd)
       (\<lambda>w. Inr (xrpl_address w, Some (xrpl_publicKey w), Some (xrpl_privateKey w)))"

definition tron_random ::
  "('sd, 'nd, 'tw, 'acct, 'r) TronLib \<Rightarrow> 'tw \<Rightarrow> 'r
     \<Rightarrow> exn + string \<times> string option \<times> string option" where
  "tron_random lib tw rnd =
     and_then (createAccount lib tw rnd) (\<lambda>ob.
     and_then (account_base58 lib ob)
       (\<lambda>a. Inr (a, account_publicKey lib ob, account_privateKey lib ob)))"
section \<open>The adapter operations the controller calls\<close>

record 'n WalletInfo =
  address :: string
  balance :: 'n
  nativeToken :: string
  transactionCount :: "nat option"
  energy :: "'n option"
  frozenAmount :: "'n option"
  bandwidth :: "'n option"

text \<open>
  The abstract methods of \<open>BaseBlockchainService\<close> that \<open>BlockchainController\<close> calls,
  as the behaviour of the adapter objects in one run: each call returns or throws
  (awaiting a rejected promise throws). \<open>'n\<close> is the type of JavaScript numbers that
  carry a balance.
\<close>

record 'n adapters =
  validateAddress :: "BaseBlockchainService \<Rightarrow> string \<Rightarrow> exn + bool"
  getBalance :: "BaseBlockchainService \<Rightarrow> string \<Rightarrow> exn + 'n"
  getWalletInfo :: "BaseBlockchainService \<Rightarrow> string \<Rightarrow> exn + 'n WalletInfo"

section \<open>BlockchainController.getBalance\<close>

text \<open>What the handler sends: \<open>res.json(...)\<close> with the balance, \<open>res.status(400)\<close> or
  \<open>res.status(500)\<close> with an error object.\<close>

datatype 'n GetBalanceResponse =
  BalanceJson string string 'n string string
  | InvalidAddressFormat
  | FailedToGetBalance string string

fun http_status :: "'n GetBalanceResponse \<Rightarrow> nat" where
  "http_status (BalanceJson nw a b tok ts) = 200"
| "http_status InvalidAddressFormat = 400"
| "http_status (FailedToGetBalance nw a) = 500"

definition BlockchainController_getBalance ::
  "world \<Rightarrow> 'n adapters \<Rightarrow> string \<Rightarrow> Factory \<Rightarrow> string \<Rightarrow> string
     \<Rightarrow> 'n GetBalanceResponse \<times> Factory" where
  "BlockchainController_getBalance W A now st nw addr =
     (case createService W st nw of
        (Inl e, st') \<Rightarrow> (FailedToGetBalance nw addr, st')
      | (Inr service, st') \<Rightarrow>
          (case validateAddress A service addr of
             Inl e \<Rightarrow> (FailedToGetBalance nw addr, st')
           | Inr False \<Rightarrow> (InvalidAddressFormat, st')
           | Inr True \<Rightarrow>
              (case getBalance A service addr of
                 Inl e \<Rightarrow> (FailedToGetBalance nw addr, st')
               | Inr b \<Rightarrow>
                  (case getWalletInfo A service addr of
                     Inl e \<Rightarrow> (FailedToGetBalance nw addr, st')
                   | Inr walletInfo \<Rightarrow>
                      (BalanceJson nw addr b (nativeToken walletInfo) now, st')))))"

section \<open>BlockchainController.getMultiNetworkBalance\<close>

text \<open>
  The object one adapter's query produces; a property the object literal lacks is
  \<open>None\<close>. The last shape, \<open>{ error, status: 'rejected' }\<close>, is what a rejected promise
  is turned into.
\<close>

record 'n NetworkBalance =
  network :: "string option"
  networkName :: "string option"
  address :: "string option"
  balance :: "'n option"
  nativeToken :: "string option"
  status :: string
  error :: "string option"

datatype 'a PromiseSettledResult = fulfilled 'a | rejected exn

text \<open>
  The \<open>async (service) => { try { ... } catch (error) { ... } }\<close> callback of
  \<open>services.map\<close>, as \<open>Promise.allSettled\<close> settles it. Everything the callback calls
  that can throw stands inside its \<open>try\<close>.
\<close>

definition queryBalance ::
  "'n adapters \<Rightarrow> string \<Rightarrow> BaseBlockchainService \<Rightarrow> 'n NetworkBalance PromiseSettledResult" where
  "queryBalance A addr service =
     (let caught = (\<lambda>e. fulfilled
            \<lparr>network = Some (getNetworkType service),
             networkName = getNetworkConfig_name service,
             address = None, balance = None, nativeToken = None,
             status = ''error'', error = Some (message_or_unknown e)\<rparr>)
      in case validateAddress A service addr of
           Inl e \<Rightarrow> caught e
         | Inr True \<Rightarrow>
            (case getWalletInfo A service addr of
               Inl e \<Rightarrow> caught e
             | Inr walletInfo \<Rightarrow> fulfilled
                 \<lparr>network = Some (getNetworkType service),
                  networkName = getNetworkConfig_name service,
                  address = Some (WalletInfo.address walletInfo),
                  balance = Some (WalletInfo.balance walletInfo),
                  nativeToken = Some (WalletInfo.nativeToken walletInfo),
                  status = ''success'', error = None\<rparr>)
         | Inr False \<Rightarrow> fulfilled
             \<lparr>network = Some (getNetworkType service),
              networkName = getNetworkConfig_name service,
              address = None, balance = None, nativeToken = None,
              status = ''invalid_address'',
              error = Some ''Address format not supported on this network''\<rparr>)"

text \<open>\<open>balances.filter(fulfilled and value.status === 'success').map(result => result.value)\<close>\<close>

definition successful_of :: "'n NetworkBalance PromiseSettledResult list \<Rightarrow> 'n NetworkBalance list" where
  "successful_of balances =
     List.map_filter
       (\<lambda>result. case result of
            fulfilled v \<Rightarrow> if status v = ''success'' then Some v else None
          | rejected reason \<Rightarrow> None)
       balances"

text \<open>\<open>balances.filter(rejected, or fulfilled and value.status !== 'success')\<close>, a rejected
  result mapped to \<open>{ error: result.reason.message, status: 'rejected' }\<close>.\<close>

definition failed_of :: "'n NetworkBalance PromiseSettledResult list \<Rightarrow> 'n NetworkBalance list" where
  "failed_of balances =
     List.map_filter
       (\<lambda>result. case result of
            rejected reason \<Rightarrow> Some
              \<lparr>network = None, networkName = None, address = None, balance = None,
               nativeToken = None, status = ''rejected'', error = message reason\<rparr>
          | fulfilled v \<Rightarrow> if status v \<noteq> ''success'' then Some v else None)
       balances"

text \<open>JavaScript's \<open>sum + item.balance\<close> on numbers: \<open>None\<close> stands for \<open>NaN\<close>, which an
  absent \<open>balance\<close> (\<open>undefined\<close>) gives and which absorbs every later addition.\<close>

definition plus_number :: "'n::plus option \<Rightarrow> 'n option \<Rightarrow> 'n option" where
  "plus_number a b = (case (a, b) of (Some x, Some y) \<Rightarrow> Some (x + y) | _ \<Rightarrow> None)"

text \<open>\<open>successful.reduce((sum, item) => sum + item.balance, 0)\<close>\<close>

definition totalBalance_of :: "('n::{zero,plus}) NetworkBalance list \<Rightarrow> 'n option" where
  "totalBalance_of successful = foldl (\<lambda>sum item. plus_number sum (balance item)) (Some 0) successful"

record 'n MultiNetworkBalanceResponse =
  address :: string
  networks :: "'n NetworkBalance list"
  totalNetworks :: nat
  totalBalance :: "'n option"
  failedNetworks :: "'n NetworkBalance list"
  successfulQueries :: nat
  failedQueries :: nat
  totalNetworksChecked :: nat
  timestamp :: string

text \<open>The part of the handler after \<open>getAllServices\<close>: the fan-out and the summary.\<close>

definition aggregateBalances ::
  "('n::{zero,plus}) adapters \<Rightarrow> string \<Rightarrow> string \<Rightarrow> BaseBlockchainService list
     \<Rightarrow> 'n MultiNetworkBalanceResponse" where
  "aggregateBalances A now addr svcs =
     (let balances = map (queryBalance A addr) svcs;
          successful = successful_of balances;
          failed = failed_of balances
      in \<lparr>address = addr,
          networks = successful,
          totalNetworks = length successful,
          totalBalance = totalBalance_of successful,
          failedNetworks = failed,
          successfulQueries = length successful,
          failedQueries = length failed,
          totalNetworksChecked = length balances,
          timestamp = now\<rparr>)"

text \<open>The handler. Nothing inside its outer \<open>try\<close> can throw (\<open>getAllServices\<close> catches
  per network, the callback catches per adapter), so it always answers with
  \<open>res.json\<close>.\<close>

definition BlockchainController_getMultiNetworkBalance ::
  "world \<Rightarrow> ('n::{zero,plus}) adapters \<Rightarrow> string \<Rightarrow> Factory \<Rightarrow> string
     \<Rightarrow> 'n MultiNetworkBalanceResponse \<times> Factory" where
  "BlockchainController_getMultiNetworkBalance W A now st addr =
     (case getAllServices W st of
        (svcs, st') \<Rightarrow> (aggregateBalances A now addr svcs, st'))"

section \<open>Notions the statements about the aggregation use\<close>

text \<open>An adapter's query succeeds when the address is valid for it and
  \<open>getWalletInfo\<close> returns.\<close>

definition query_succeeds :: "'n adapters \<Rightarrow> string \<Rightarrow> BaseBlockchainService \<Rightarrow> bool" where
  "query_succeeds A addr s =
     (case validateAddress A s addr of
        Inr True \<Rightarrow> (case getWalletInfo A s addr of Inr walletInfo \<Rightarrow> True | Inl e \<Rightarrow> False)
      | Inr False \<Rightarrow> False
      | Inl e \<Rightarrow> False)"

text \<open>The balances of the wallets whose query succeeds, in the order of the adapters.\<close>

definition successful_balances :: "'n adapters \<Rightarrow> string \<Rightarrow> BaseBlockchainService list \<Rightarrow> 'n list" where
  "successful_balances A addr svcs =
     List.map_filter
       (\<lambda>s. case validateAddress A s addr of
               Inr True \<Rightarrow> (case getWalletInfo A s addr of
                               Inr walletInfo \<Rightarrow> Some (WalletInfo.balance walletInfo)
                             | Inl e \<Rightarrow> None)
             | Inr False \<Rightarrow> None
             | Inl e \<Rightarrow> None)
       svcs"

text \<open>The entries of a list that carry a given network id.\<close>

definition entries_of :: "string \<Rightarrow> 'n NetworkBalance list \<Rightarrow> 'n NetworkBalance list" where
  "entries_of nt es = filter (\<lambda>e. network e = Some nt) es"

section \<open>Concrete worlds\<close>

text \<open>The repository's own configuration (only \<open>trc20\<close> enabled), no environment
  variable set, every handshake succeeding.\<close>

definition W_repo :: world where
  "W_repo = \<lparr>configs = NETWORK_CONFIGS Map.empty, connect = (\<lambda>_ _. None)\<rparr>"

text \<open>The same configuration during an outage that ends after the first adapter object:
  the handshake of object 0 fails, later ones succeed.\<close>

definition W_outage :: world where
  "W_outage = \<lparr>configs = NETWORK_CONFIGS Map.empty,
                connect = (\<lambda>nt r. if r = 0 then Some ''ECONNREFUSED'' else None)\<rparr>"

text \<open>Every network enabled but \<open>arbitrum\<close>, every handshake succeeding.\<close>

definition W_one_disabled :: world where
  "W_one_disabled =
     \<lparr>configs = (\<lambda>nt. map_option (\<lambda>cf. cf\<lparr>enable := (nt \<noteq> ''arbitrum'')\<rparr>)
                         (NETWORK_CONFIGS Map.empty nt)),
      connect = (\<lambda>_ _. None)\<rparr>"

text \<open>The same configuration, with the handshake of \<open>ton\<close> failing.\<close>

definition W_ton_down :: world where
  "W_ton_down =
     \<lparr>configs = (\<lambda>nt. map_option (\<lambda>cf. cf\<lparr>enable := (nt \<noteq> ''arbitrum'')\<rparr>)
                         (NETWORK_CONFIGS Map.empty nt)),
      connect = (\<lambda>nt r. if nt = ''ton'' then Some ''ECONNREFUSED'' else None)\<rparr>"

definition four_networks :: "string list" where
  "four_networks = [''arbitrum'', ''ton'', ''solana'', ''ripple'']"

text \<open>Adapters with integer balances: \<open>ton\<close> rejects every address, \<open>solana\<close>'s
  \<open>getWalletInfo\<close> throws, every other adapter reports a wallet. In the second
  behaviour \<open>solana\<close>'s \<open>validateAddress\<close> throws instead.\<close>

definition A_demo :: "int adapters" where
  "A_demo =
     \<lparr>validateAddress = (\<lambda>s a. Inr (networkType s \<noteq> ''ton'')),
      getBalance = (\<lambda>s a. Inr 5),
      getWalletInfo = (\<lambda>s a.
        if networkType s = ''solana'' then Inl (Error ''solana getWalletInfo failed: timeout'')
        else Inr \<lparr>WalletInfo.address = a, WalletInfo.balance = int (length (networkType s)),
                  WalletInfo.nativeToken = ''TOK'', transactionCount = None, energy = None,
                  frozenAmount = None, bandwidth = None\<rparr>)\<rparr>"

definition A_demo' :: "int adapters" where
  "A_demo' = A_demo\<lparr>validateAddress := (\<lambda>s a. if networkType s = ''solana'' then Inl NonError
                                             else Inr (networkType s \<noteq> ''ton''))\<rparr>"

definition demo_services :: "BaseBlockchainService list" where
  "demo_services =
     [new_service ArbitrumService (NETWORK_CONFIGS Map.empty ''arbitrum'') ''arbitrum'' 0,
      new_service TONService (NETWORK_CONFIGS Map.empty ''ton'') ''ton'' 1,
      new_service SolanaService (NETWORK_CONFIGS Map.empty ''solana'') ''solana'' 2,
      new_service RippleService (NETWORK_CONFIGS Map.empty ''ripple'') ''ripple'' 3]"

text \<open>Indices that are non-negative integers, printed in decimal as \<open>`${index}`\<close> prints
  them (below \<open>1e21\<close>).\<close>

definition digit_char :: "nat \<Rightarrow> char" where
  "digit_char d =
     (if d = 0 then CHR ''0'' else if d = 1 then CHR ''1'' else if d = 2 then CHR ''2''
      else if d = 3 then CHR ''3'' else if d = 4 then CHR ''4'' else if d = 5 then CHR ''5''
      else if d = 6 then CHR ''6'' else if d = 7 then CHR ''7'' else if d = 8 then CHR ''8''
      else CHR ''9'')"

fun string_of_nat :: "nat \<Rightarrow> string" where
  "string_of_nat n =
     (if n < 10 then [digit_char n] else string_of_nat (n div 10) @ [digit_char (n mod 10)])"

declare string_of_nat.simps [simp del]

definition demo_numbers :: "nat NumberOps" where
  "demo_numbers = \<lparr>number_toString = string_of_nat, number_truthy = (\<lambda>n. n \<noteq> 0)\<rparr>"

text \<open>A stand-in for ethers that shows what each call read: a wallet derived from a
  phrase names the phrase and the path, a random wallet names the entropy drawn.\<close>

definition demo_ethers :: "(string, nat) EthersLib" where
  "demo_ethers =
     \<lparr>Mnemonic_fromPhrase = (\<lambda>p. Inr p),
      HDNodeWallet_fromMnemonic = (\<lambda>m path. Inr
        \<lparr>wallet_address = ''addr('' @ m @ '','' @ or_string path ''default'' @ '')'',
         wallet_privateKey = ''priv('' @ m @ '','' @ or_string path ''default'' @ '')'',
         wallet_publicKey = ''pub('' @ m @ '','' @ or_string path ''default'' @ '')'',
         signingKey_publicKey = ''pub('' @ m @ '','' @ or_string path ''default'' @ '')'',
         mnemonic_phrase = Some m\<rparr>),
      Wallet_createRandom = (\<lambda>r. Inr
        \<lparr>wallet_address = ''addr(random '' @ string_of_nat r @ '')'',
         wallet_privateKey = ''priv(random '' @ string_of_nat r @ '')'',
         wallet_publicKey = ''pub(random '' @ string_of_nat r @ '')'',
         signingKey_publicKey = ''pub(random '' @ string_of_nat r @ '')'',
         mnemonic_phrase = Some (''random '' @ string_of_nat r)\<rparr>)\<rparr>"

definition demo_phrase :: string where
  "demo_phrase = ''test test test test test test test test test test test junk''"

definition demo_options :: "nat CreateWalletOptions" where
  "demo_options =
     \<lparr>CreateWalletOptions.mnemonic = Some demo_phrase, password = None,
      CreateWalletOptions.derivationPath = None, keySize = None,
      CreateWalletOptions.index = Some 0\<rparr>"

definition demo_index_only :: "nat CreateWalletOptions" where
  "demo_index_only =
     \<lparr>CreateWalletOptions.mnemonic = None, password = None,
      CreateWalletOptions.derivationPath = None, keySize = None,
      CreateWalletOptions.index = Some 3\<rparr>"

section \<open>Properties of the factory\<close>

lemma subseq_set_mono: "subseq xs ys \<Longrightarrow> set xs \<subseteq> set ys"
  by (induction rule: list_emb.induct) auto

lemma subseq_keeps_distinct: "subseq xs ys \<Longrightarrow> distinct ys \<Longrightarrow> distinct xs"
proof (induction rule: list_emb.induct)
  case (list_emb_Cons2 x y xs ys)
  then show ?case using subseq_set_mono [of xs ys] by auto
qed auto

lemma adapterClass_of_registered:
  "(adapterClass_of nt \<noteq> None) = (nt \<in> set NetworkType_values)"
  by (auto simp: adapterClass_of_def NetworkType_values_def)

lemma cache_ok_init: "cache_ok Factory_init"
  by (simp add: cache_ok_def Factory_init_def)

lemma createService_cache_ok:
  assumes "cache_ok st"
  shows "cache_ok (snd (createService W st nt))"
proof (cases "services st nt")
  case (Some cached)
  then show ?thesis using assms by (simp add: createService_def)
next
  case None
  show ?thesis
  proof (cases "adapterClass_of nt")
    case None
    then show ?thesis using assms \<open>services st nt = None\<close> by (simp add: createService_def)
  next
    case (Some c)
    then have reg: "nt \<in> set NetworkType_values"
      using adapterClass_of_registered [of nt] by simp
    show ?thesis
      using assms \<open>services st nt = None\<close> Some reg
      by (auto simp: createService_def cache_ok_def Let_def initialize_def new_service_def
               split: option.splits sum.splits if_splits)
  qed
qed

lemma reachable_cache_ok: "reachable W st \<Longrightarrow> cache_ok st"
  by (induction rule: reachable.induct) (simp_all add: cache_ok_init createService_cache_ok)

lemma createService_default_branch:
  assumes "reachable W st" and "nt \<notin> set NetworkType_values"
  shows "createService W st nt = (Inl (Error (''Unsupported network type: '' @ nt)), st)"
proof -
  have "cache_ok st" using assms(1) by (rule reachable_cache_ok)
  then have "services st nt = None"
    using assms(2) by (cases "services st nt") (auto simp: cache_ok_def)
  moreover have "adapterClass_of nt = None"
    using assms(2) adapterClass_of_registered [of nt] by simp
  ultimately show ?thesis by (simp add: createService_def)
qed

text \<open>
  Claim C5, as amended. When a call of \<open>createService\<close> returns an adapter for a
  network type that is already cached or whose configuration has \<open>enable = true\<close>, the
  next call for the same network type returns the identical adapter object (the same
  record, hence the same \<open>ref\<close>) and leaves the factory's state untouched: no object is
  allocated, nothing is constructed or initialised, the cache is the same.
\<close>

theorem createService_cached_identity:
  assumes "createService W st nt = (Inr s, st1)"
    and "services st nt \<noteq> None \<or> (\<exists>cf. configs W nt = Some cf \<and> enable cf)"
  shows "createService W st1 nt = (Inr s, st1)"
proof (cases "services st nt")
  case (Some cached)
  then show ?thesis using assms(1) by (auto simp: createService_def)
next
  case None
  then obtain cf where cf: "configs W nt = Some cf" "enable cf" using assms(2) by auto
  from assms(1) None cf have "services st1 nt = Some s"
    by (auto simp: createService_def Let_def split: option.splits sum.splits)
  then show ?thesis by (simp add: createService_def)
qed

lemma createService_repo_arbitrum:
  "createService W_repo Factory_init ''arbitrum'' =
    (Inr (new_service ArbitrumService (configs W_repo ''arbitrum'') ''arbitrum'' 0),
     Factory_init\<lparr>allocated := 1, calls := [Constructed 0 ''arbitrum'']\<rparr>)"
  by (simp add: createService_def W_repo_def Factory_init_def adapterClass_of_def NETWORK_CONFIGS_def)

text \<open>
  Claim C5 as stated (for all network ids) fails on a disabled network: with the
  repository's configuration, two calls for \<open>arbitrum\<close> starting from the empty factory
  return two different objects (allocation numbers 0 and 1), and the second call
  constructs again.
\<close>

theorem createService_twice_counterexample:
  "map_sum id ref (fst (createService W_repo Factory_init ''arbitrum'')) = Inr 0
   \<and> map_sum id ref (fst (createService W_repo
         (snd (createService W_repo Factory_init ''arbitrum'')) ''arbitrum'')) = Inr 1
   \<and> allocated (snd (createService W_repo
         (snd (createService W_repo Factory_init ''arbitrum'')) ''arbitrum'')) = 2"
  unfolding createService_repo_arbitrum
  by (simp add: createService_def W_repo_def Factory_init_def adapterClass_of_def NETWORK_CONFIGS_def new_service_def)

lemma createService_repo_trc20:
  "createService W_repo Factory_init ''trc20'' =
    (Inr ((new_service TRC20Service (configs W_repo ''trc20'') ''trc20'' 0)\<lparr>initialized := True\<rparr>),
     \<lparr>services = [''trc20'' \<mapsto> (new_service TRC20Service (configs W_repo ''trc20'') ''trc20'' 0)\<lparr>initialized := True\<rparr>],
      allocated = 1, calls = [Constructed 0 ''trc20'', InitializeCalled 0]\<rparr>)"
  by (simp add: createService_def W_repo_def Factory_init_def adapterClass_of_def NETWORK_CONFIGS_def
       initialize_def new_service_def Let_def)

theorem createService_cached_identity_witness:
  "createService W_repo (snd (createService W_repo Factory_init ''trc20'')) ''trc20''
     = createService W_repo Factory_init ''trc20''"
proof -
  have en: "services Factory_init ''trc20'' \<noteq> None \<or> (\<exists>cf. configs W_repo ''trc20'' = Some cf \<and> enable cf)"
    by (simp add: W_repo_def NETWORK_CONFIGS_def)
  show ?thesis
    using createService_cached_identity [OF createService_repo_trc20 en]
    by (simp add: createService_repo_trc20)
qed

text \<open>
  Claim C6. (1) For a network type whose configuration has \<open>enable = false\<close>,
  \<open>createService\<close> leaves the cache as it was and adds no call of \<open>initialize\<close> to the
  log. (2) For an uncached, registered, enabled network type whose handshake fails with
  message \<open>msg\<close>, \<open>createService\<close> throws the error that \<open>handleError\<close> builds, leaves
  the cache as it was, and the next call for the same network type constructs a new
  object and calls its \<open>initialize\<close>; when that handshake succeeds, the new object is
  returned and cached.
\<close>

theorem createService_non_caching:
  "(configs W nt = Some cf \<and> \<not> enable cf \<longrightarrow>
      services (snd (createService W st nt)) = services st
      \<and> filter is_InitializeCalled (calls (snd (createService W st nt)))
          = filter is_InitializeCalled (calls st))
   \<and> (services st nt = None \<and> adapterClass_of nt = Some c \<and> configs W nt = Some cf
        \<and> enable cf \<and> connect W nt (allocated st) = Some msg \<longrightarrow>
      fst (createService W st nt) = Inl (handleError nt msg ''initialization'')
      \<and> services (snd (createService W st nt)) = services st
      \<and> allocated (snd (createService W st nt)) = Suc (allocated st)
      \<and> calls (snd (createService W (snd (createService W st nt)) nt))
          = calls (snd (createService W st nt))
            @ [Constructed (Suc (allocated st)) nt, InitializeCalled (Suc (allocated st))]
      \<and> (connect W nt (Suc (allocated st)) = None \<longrightarrow>
           fst (createService W (snd (createService W st nt)) nt)
             = Inr ((new_service c (Some cf) nt (Suc (allocated st)))\<lparr>initialized := True\<rparr>)
           \<and> services (snd (createService W (snd (createService W st nt)) nt)) nt
             = Some ((new_service c (Some cf) nt (Suc (allocated st)))\<lparr>initialized := True\<rparr>)))"
proof (intro conjI impI)
  assume a: "configs W nt = Some cf \<and> \<not> enable cf"
  show "services (snd (createService W st nt)) = services st"
    using a by (auto simp: createService_def Let_def split: option.splits)
  show "filter is_InitializeCalled (calls (snd (createService W st nt)))
          = filter is_InitializeCalled (calls st)"
    using a by (auto simp: createService_def Let_def split: option.splits)
next
  assume b: "services st nt = None \<and> adapterClass_of nt = Some c \<and> configs W nt = Some cf
        \<and> enable cf \<and> connect W nt (allocated st) = Some msg"
  have first: "createService W st nt =
      (Inl (handleError nt msg ''initialization''),
       st\<lparr>allocated := Suc (allocated st),
          calls := calls st @ [Constructed (allocated st) nt, InitializeCalled (allocated st)]\<rparr>)"
    using b by (simp add: createService_def Let_def initialize_def new_service_def)
  show "fst (createService W st nt) = Inl (handleError nt msg ''initialization'')"
    by (simp add: first)
  show "services (snd (createService W st nt)) = services st" by (simp add: first)
  show "allocated (snd (createService W st nt)) = Suc (allocated st)" by (simp add: first)
  show "calls (snd (createService W (snd (createService W st nt)) nt))
          = calls (snd (createService W st nt))
            @ [Constructed (Suc (allocated st)) nt, InitializeCalled (Suc (allocated st))]"
    using b unfolding first
    by (simp add: createService_def Let_def initialize_def new_service_def split: option.splits)
  {
    assume c: "connect W nt (Suc (allocated st)) = None"
    show "fst (createService W (snd (createService W st nt)) nt)
             = Inr ((new_service c (Some cf) nt (Suc (allocated st)))\<lparr>initialized := True\<rparr>)"
      using b c unfolding first
      by (simp add: createService_def Let_def initialize_def new_service_def)
    show "services (snd (createService W (snd (createService W st nt)) nt)) nt
             = Some ((new_service c (Some cf) nt (Suc (allocated st)))\<lparr>initialized := True\<rparr>)"
      using b c unfolding first
      by (simp add: createService_def Let_def initialize_def new_service_def)
  }
qed

theorem createService_non_caching_witness:
  "services (snd (createService W_repo Factory_init ''arbitrum'')) = Map.empty
   \<and> filter is_InitializeCalled (calls (snd (createService W_repo Factory_init ''arbitrum''))) = []
   \<and> fst (createService W_outage Factory_init ''trc20'')
        = Inl (Error ''trc20 initialization failed: ECONNREFUSED'')
   \<and> services (snd (createService W_outage Factory_init ''trc20'')) = Map.empty
   \<and> map_sum id ref (fst (createService W_outage
          (snd (createService W_outage Factory_init ''trc20'')) ''trc20'')) = Inr 1"
proof -
  have dis: "configs W_repo ''arbitrum'' = Some (the (configs W_repo ''arbitrum''))
             \<and> \<not> enable (the (configs W_repo ''arbitrum''))"
    by (simp add: W_repo_def NETWORK_CONFIGS_def)
  have out: "services Factory_init ''trc20'' = None \<and> adapterClass_of ''trc20'' = Some TRC20Service
      \<and> configs W_outage ''trc20'' = Some (the (configs W_outage ''trc20''))
      \<and> enable (the (configs W_outage ''trc20''))
      \<and> connect W_outage ''trc20'' (allocated Factory_init) = Some ''ECONNREFUSED''"
    by (simp add: W_outage_def NETWORK_CONFIGS_def Factory_init_def adapterClass_of_def)
  have again: "connect W_outage ''trc20'' (Suc (allocated Factory_init)) = None"
    by (simp add: W_outage_def)
  show ?thesis
    using createService_non_caching [of W_repo "''arbitrum''" "the (configs W_repo ''arbitrum'')"
        Factory_init TRC20Service "''x''"] dis
      createService_non_caching [of W_outage "''trc20''" "the (configs W_outage ''trc20'')"
        Factory_init TRC20Service "''ECONNREFUSED''"] out again
    by (simp add: Factory_init_def handleError_def new_service_def)
qed

lemma createService_networkType:
  assumes "cache_ok st" and "createService W st nt = (Inr s, st')"
  shows "networkType s = nt"
  using assms
  by (auto simp: createService_def cache_ok_def Let_def initialize_def new_service_def
           split: option.splits sum.splits if_splits)

lemma getAllServices_loop_subseq:
  "cache_ok st \<Longrightarrow>
   \<exists>ns. subseq ns nts \<and>
        map networkType (fst (getAllServices_loop W nts st acc)) = map networkType acc @ ns"
proof (induction nts arbitrary: st acc)
  case Nil
  then show ?case by simp
next
  case (Cons nt nts)
  obtain r st' where step: "createService W st nt = (r, st')" by (cases "createService W st nt")
  have ok': "cache_ok st'" using createService_cache_ok [OF Cons.prems, of W nt] step by simp
  show ?case
  proof (cases r)
    case (Inl e)
    from Cons.IH [OF ok', of acc] obtain ns where
      ns: "subseq ns nts"
          "map networkType (fst (getAllServices_loop W nts st' acc)) = map networkType acc @ ns"
      by blast
    have "subseq ns (nt # nts)" using ns(1) by (rule list_emb_Cons)
    then show ?thesis using ns(2) step Inl by auto
  next
    case (Inr s)
    have nt: "networkType s = nt" using createService_networkType [OF Cons.prems] step Inr by simp
    from Cons.IH [OF ok', of "acc @ [s]"] obtain ns where
      ns: "subseq ns nts"
          "map networkType (fst (getAllServices_loop W nts st' (acc @ [s])))
             = map networkType (acc @ [s]) @ ns"
      by blast
    have "subseq (nt # ns) (nt # nts)" using ns(1) by simp
    then show ?thesis using ns(2) step Inr nt by auto
  qed
qed

lemma getAllServices_loop_acc:
  "set acc \<subseteq> set (fst (getAllServices_loop W nts st acc))"
proof (induction nts arbitrary: st acc)
  case Nil
  then show ?case by simp
next
  case (Cons nt nts)
  obtain r st' where step: "createService W st nt = (r, st')" by (cases "createService W st nt")
  show ?case
  proof (cases r)
    case (Inl e)
    then show ?thesis using Cons.IH [of acc st'] step by simp
  next
    case (Inr s)
    then show ?thesis using Cons.IH [of "acc @ [s]" st'] step by auto
  qed
qed

lemma createService_disabled_returns:
  assumes "cache_ok st" and "nt \<in> set NetworkType_values"
    and "configs W nt = Some cf" and "\<not> enable cf"
  shows "\<exists>s st'. createService W st nt = (Inr s, st') \<and> networkType s = nt"
proof (cases "services st nt")
  case (Some cached)
  then show ?thesis using assms(1) by (auto simp: createService_def cache_ok_def)
next
  case None
  obtain c where "adapterClass_of nt = Some c"
    using assms(2) adapterClass_of_registered [of nt] by auto
  then show ?thesis using None assms(3,4)
    by (simp add: createService_def Let_def new_service_def)
qed

lemma getAllServices_loop_disabled:
  "cache_ok st \<Longrightarrow> nt \<in> set nts \<Longrightarrow> nt \<in> set NetworkType_values \<Longrightarrow>
   configs W nt = Some cf \<Longrightarrow> \<not> enable cf \<Longrightarrow>
   nt \<in> networkType ` set (fst (getAllServices_loop W nts st acc))"
proof (induction nts arbitrary: st acc)
  case Nil
  then show ?case by simp
next
  case (Cons n nts)
  obtain r st' where step: "createService W st n = (r, st')" by (cases "createService W st n")
  have ok': "cache_ok st'" using createService_cache_ok [OF Cons.prems(1), of W n] step by simp
  show ?case
  proof (cases "n = nt")
    case True
    obtain s where s: "r = Inr s" "networkType s = nt"
      using createService_disabled_returns [OF Cons.prems(1) Cons.prems(3) Cons.prems(4) Cons.prems(5)]
        step True by auto
    have "s \<in> set (fst (getAllServices_loop W nts st' (acc @ [s])))"
      using getAllServices_loop_acc [of "acc @ [s]" W nts st'] by auto
    then show ?thesis using step s by (auto simp: image_iff)
  next
    case False
    then have mem: "nt \<in> set nts" using Cons.prems(2) by simp
    show ?thesis
    proof (cases r)
      case (Inl e)
      then show ?thesis
        using Cons.IH [OF ok' mem Cons.prems(3) Cons.prems(4) Cons.prems(5), of acc] step by simp
    next
      case (Inr s)
      then show ?thesis
        using Cons.IH [OF ok' mem Cons.prems(3) Cons.prems(4) Cons.prems(5), of "acc @ [s]"] step
        by simp
    qed
  qed
qed

lemma createService_succeeds:
  assumes "cache_ok st" and "nt \<in> set NetworkType_values"
    and "configs W nt = Some cf" and "enable cf \<longrightarrow> (\<forall>r. connect W nt r = None)"
  shows "\<exists>s st'. createService W st nt = (Inr s, st') \<and> networkType s = nt"
proof (cases "services st nt")
  case (Some cached)
  then show ?thesis using assms(1) by (auto simp: createService_def cache_ok_def)
next
  case None
  obtain c where "adapterClass_of nt = Some c"
    using assms(2) adapterClass_of_registered [of nt] by auto
  then show ?thesis using None assms(3,4)
    by (simp add: createService_def Let_def new_service_def initialize_def)
qed

lemma getAllServices_loop_all:
  "cache_ok st \<Longrightarrow> set nts \<subseteq> set NetworkType_values \<Longrightarrow>
   (\<forall>nt\<in>set nts. \<exists>cf. configs W nt = Some cf \<and> (enable cf \<longrightarrow> (\<forall>r. connect W nt r = None))) \<Longrightarrow>
   map networkType (fst (getAllServices_loop W nts st acc)) = map networkType acc @ nts"
proof (induction nts arbitrary: st acc)
  case Nil
  then show ?case by simp
next
  case (Cons n nts)
  obtain cf where cf: "configs W n = Some cf" "enable cf \<longrightarrow> (\<forall>r. connect W n r = None)"
    using Cons.prems(3) by auto
  have reg: "n \<in> set NetworkType_values" using Cons.prems(2) by simp
  obtain s st' where step: "createService W st n = (Inr s, st')" "networkType s = n"
    using createService_succeeds [OF Cons.prems(1) reg cf] by blast
  have ok': "cache_ok st'" using createService_cache_ok [OF Cons.prems(1), of W n] step by simp
  have "map networkType (fst (getAllServices_loop W nts st' (acc @ [s])))
          = map networkType (acc @ [s]) @ nts"
    using Cons.IH [OF ok', of "acc @ [s]"] Cons.prems(2,3) by simp
  then show ?case using step by simp
qed

lemma cache_enabled_init: "cache_enabled W Factory_init"
  by (simp add: cache_enabled_def Factory_init_def)

lemma createService_cache_enabled:
  assumes "cache_enabled W st"
  shows "cache_enabled W (snd (createService W st nt))"
  using assms
  by (auto simp: createService_def cache_enabled_def Let_def initialize_def new_service_def
           split: option.splits sum.splits if_splits)

lemma reachable_cache_enabled: "reachable W st \<Longrightarrow> cache_enabled W st"
  by (induction rule: reachable.induct) (simp_all add: cache_enabled_init createService_cache_enabled)

lemma getAllServices_loop_reachable:
  "reachable W st \<Longrightarrow> reachable W (snd (getAllServices_loop W nts st acc))"
proof (induction nts arbitrary: st acc)
  case Nil
  then show ?case by simp
next
  case (Cons nt nts)
  have r: "reachable W (snd (createService W st nt))" using Cons.prems by (rule reachable_step)
  obtain res st' where step: "createService W st nt = (res, st')" by (cases "createService W st nt")
  show ?case using Cons.IH [of st'] r step by (cases res) auto
qed

lemma getAllServices_loop_append:
  "getAllServices_loop W (xs @ ys) st acc =
     getAllServices_loop W ys (snd (getAllServices_loop W xs st acc))
       (fst (getAllServices_loop W xs st acc))"
proof (induction xs arbitrary: st acc)
  case Nil
  then show ?case by simp
next
  case (Cons x xs)
  obtain res st' where step: "createService W st x = (res, st')" by (cases "createService W st x")
  show ?case using Cons step by (cases res) auto
qed

lemma getAllServices_loop_types:
  assumes "cache_ok st"
  shows "set (map networkType (fst (getAllServices_loop W nts st acc)))
           \<subseteq> set (map networkType acc) \<union> set nts"
proof -
  obtain ns where ns: "subseq ns nts"
      "map networkType (fst (getAllServices_loop W nts st acc)) = map networkType acc @ ns"
    using getAllServices_loop_subseq [OF assms] by blast
  have "set ns \<subseteq> set nts" using ns(1) by (rule subseq_set_mono)
  then show ?thesis using ns(2) by auto
qed

lemma getAllServices_loop_turn:
  assumes "reachable W st" and "distinct nts" and "k < length nts"
  shows "(nts ! k \<in> set (map networkType (fst (getAllServices_loop W nts st []))))
          = (\<not> isl (fst (createService W (snd (getAllServices_loop W (take k nts) st [])) (nts ! k))))"
proof -
  let ?pre = "getAllServices_loop W (take k nts) st []"
  let ?rest = "drop (Suc k) nts"
  have split: "nts = take k nts @ (nts ! k) # ?rest" using assms(3) by (simp add: id_take_nth_drop)
  have rp: "reachable W (snd ?pre)" using assms(1) by (rule getAllServices_loop_reachable)
  have okp: "cache_ok (snd ?pre)" using rp by (rule reachable_cache_ok)
  have ok: "cache_ok st" using assms(1) by (rule reachable_cache_ok)
  have d: "nts ! k \<notin> set (take k nts)" "nts ! k \<notin> set ?rest"
    using assms(2) split by (metis distinct_append distinct.simps(2) disjoint_iff list.set_intros(1) not_distinct_conv_prefix)+
  have pre_types: "nts ! k \<notin> set (map networkType (fst ?pre))"
    using getAllServices_loop_types [OF ok, of W "take k nts" "[]"] d(1) by auto
  obtain res st' where step: "createService W (snd ?pre) (nts ! k) = (res, st')"
    by (cases "createService W (snd ?pre) (nts ! k)")
  have ok': "cache_ok st'" using createService_cache_ok [OF okp, of W "nts ! k"] step by simp
  have whole: "getAllServices_loop W nts st [] =
      getAllServices_loop W ((nts ! k) # ?rest) (snd ?pre) (fst ?pre)"
    using getAllServices_loop_append [of W "take k nts" "(nts ! k) # ?rest" st "[]"] split by simp
  show ?thesis
  proof (cases res)
    case (Inl e)
    have "getAllServices_loop W nts st [] = getAllServices_loop W ?rest st' (fst ?pre)"
      using whole step Inl by simp
    moreover have "nts ! k \<notin> set (map networkType (fst (getAllServices_loop W ?rest st' (fst ?pre))))"
      using getAllServices_loop_types [OF ok', of W ?rest "fst ?pre"] pre_types d(2) by auto
    ultimately show ?thesis using step Inl by simp
  next
    case (Inr s)
    have nt: "networkType s = nts ! k" using createService_networkType [OF okp] step Inr by simp
    have "getAllServices_loop W nts st [] = getAllServices_loop W ?rest st' (fst ?pre @ [s])"
      using whole step Inr by simp
    moreover have "s \<in> set (fst (getAllServices_loop W ?rest st' (fst ?pre @ [s])))"
      using getAllServices_loop_acc [of "fst ?pre @ [s]" W ?rest st'] by auto
    then have "nts ! k \<in> networkType ` set (fst (getAllServices_loop W ?rest st' (fst ?pre @ [s])))"
      using nt by (metis imageI)
    ultimately show ?thesis using step Inr by simp
  qed
qed

lemma createService_untouched:
  assumes "untouched st s"
  shows "untouched (snd (createService W st n)) s"
  using assms
  by (auto simp: createService_def untouched_def Let_def initialize_def new_service_def
           split: option.splits sum.splits if_splits)

lemma createService_calls_allocated:
  assumes "calls_allocated st"
  shows "calls_allocated (snd (createService W st nt))"
  using assms
  by (auto simp: createService_def calls_allocated_def Let_def initialize_def new_service_def
           less_Suc_eq split: option.splits sum.splits if_splits)

lemma reachable_calls_allocated: "reachable W st \<Longrightarrow> calls_allocated st"
  by (induction rule: reachable.induct)
     (simp_all add: calls_allocated_def Factory_init_def createService_calls_allocated
        [unfolded calls_allocated_def])

lemma cache_enabled_disabled:
  assumes "cache_enabled W st" and "configs W nt = Some cf" and "\<not> enable cf"
  shows "services st nt = None"
proof (rule ccontr)
  assume "services st nt \<noteq> None"
  then obtain s where "services st nt = Some s" by auto
  then have "\<exists>cf'. configs W nt = Some cf' \<and> enable cf'"
    using assms(1) unfolding cache_enabled_def by blast
  then show False using assms(2,3) by auto
qed

lemma createService_disabled_new:
  assumes "reachable W st" and "nt \<in> set NetworkType_values"
    and "configs W nt = Some cf" and "\<not> enable cf"
  shows "\<exists>s st'. createService W st nt = (Inr s, st') \<and> networkType s = nt \<and> untouched st' s"
proof -
  have none: "services st nt = None"
    using reachable_cache_enabled [OF assms(1)] assms(3,4) by (rule cache_enabled_disabled)
  have fresh: "InitializeCalled (allocated st) \<notin> set (calls st)"
    using reachable_calls_allocated [OF assms(1)] by (auto simp: calls_allocated_def)
  obtain c where "adapterClass_of nt = Some c"
    using assms(2) adapterClass_of_registered [of nt] by auto
  then show ?thesis using none fresh assms(3,4)
    by (simp add: createService_def Let_def new_service_def untouched_def)
qed

lemma getAllServices_loop_untouched:
  "reachable W st \<Longrightarrow> set nts \<subseteq> set NetworkType_values \<Longrightarrow>
   configs W nt = Some cf \<Longrightarrow> \<not> enable cf \<Longrightarrow>
   (\<forall>s\<in>set acc. networkType s = nt \<longrightarrow> untouched st s) \<Longrightarrow>
   (\<forall>s\<in>set (fst (getAllServices_loop W nts st acc)). networkType s = nt \<longrightarrow>
       untouched (snd (getAllServices_loop W nts st acc)) s)"
proof (induction nts arbitrary: st acc)
  case Nil
  then show ?case by simp
next
  case (Cons n nts)
  obtain res st' where step: "createService W st n = (res, st')" by (cases "createService W st n")
  have r': "reachable W st'" using reachable_step [OF Cons.prems(1), of n] step by simp
  have sub: "set nts \<subseteq> set NetworkType_values" using Cons.prems(2) by simp
  have keep: "\<forall>s\<in>set acc. networkType s = nt \<longrightarrow> untouched st' s"
    using Cons.prems(5) createService_untouched [of st _ W n] step by auto
  show ?case
  proof (cases res)
    case (Inl e)
    then show ?thesis
      using Cons.IH [OF r' sub Cons.prems(3) Cons.prems(4) keep] step by simp
  next
    case (Inr s)
    have ty: "networkType s = n"
      using createService_networkType [OF reachable_cache_ok [OF Cons.prems(1)]] step Inr by simp
    have new: "networkType s = nt \<longrightarrow> untouched st' s"
    proof
      assume "networkType s = nt"
      then have "n = nt" using ty by simp
      then show "untouched st' s"
        using createService_disabled_new [OF Cons.prems(1) _ Cons.prems(3) Cons.prems(4)]
          Cons.prems(2) step Inr by auto
    qed
    have keep': "\<forall>x\<in>set (acc @ [s]). networkType x = nt \<longrightarrow> untouched st' x"
      using keep new by auto
    show ?thesis
      using Cons.IH [OF r' sub Cons.prems(3) Cons.prems(4) keep'] step Inr by simp
  qed
qed

lemma getAllServices_loop_uncached:
  assumes "reachable W st" and "configs W nt = Some cf" and "\<not> enable cf"
  shows "services (snd (getAllServices_loop W nts st acc)) nt = None"
proof -
  have "cache_enabled W (snd (getAllServices_loop W nts st acc))"
    using getAllServices_loop_reachable [OF assms(1)] by (rule reachable_cache_enabled)
  then show ?thesis using assms(2,3) by (rule cache_enabled_disabled)
qed

text \<open>
  Claim C4, as amended. \<open>getAllServices\<close> is the loop over \<open>getAvailableNetworks\<close>. Over
  any list \<open>nts\<close> of registered network types, from any state the factory can reach:
  the network types of the returned adapters are a subsequence of \<open>nts\<close>. A network whose
  configuration has \<open>enable = false\<close> is never omitted: its adapter is returned, it is not
  initialised, no call of \<open>initialize\<close> on it is on record, and the cache holds nothing
  under its network type afterwards. The networks omitted are exactly those whose
  \<open>createService\<close> throws when the loop reaches them (a failed handshake of
  \<open>initialize\<close>, a network without configuration): when \<open>nts\<close> has no duplicates, the
  \<open>k\<close>-th network is among the returned ones if and only if \<open>createService\<close> returns
  for it in the state the loop has reached after the first \<open>k\<close> networks. When every
  network of \<open>nts\<close> is configured and the handshake of every enabled one succeeds, the
  loop returns one adapter per network of \<open>nts\<close>, the disabled ones included.
  \<open>getAvailableNetworks\<close> is the constant list of all eight network types.
\<close>

theorem getAllServices_keeps_disabled:
  assumes "reachable W st" and "set nts \<subseteq> set getAvailableNetworks"
  shows "getAllServices W st = getAllServices_loop W getAvailableNetworks st []
    \<and> subseq (map networkType (fst (getAllServices_loop W nts st []))) nts
    \<and> (\<forall>nt cf. nt \<in> set nts \<and> configs W nt = Some cf \<and> \<not> enable cf \<longrightarrow>
          nt \<in> set (map networkType (fst (getAllServices_loop W nts st [])))
          \<and> (\<forall>s\<in>set (fst (getAllServices_loop W nts st [])). networkType s = nt \<longrightarrow>
                \<not> initialized s
                \<and> InitializeCalled (ref s) \<notin> set (calls (snd (getAllServices_loop W nts st []))))
          \<and> services (snd (getAllServices_loop W nts st [])) nt = None)
    \<and> (\<forall>k. distinct nts \<and> k < length nts \<longrightarrow>
          (nts ! k \<in> set (map networkType (fst (getAllServices_loop W nts st []))))
            = (\<not> isl (fst (createService W (snd (getAllServices_loop W (take k nts) st [])) (nts ! k)))))
    \<and> ((\<forall>nt\<in>set nts. \<exists>cf. configs W nt = Some cf \<and> (enable cf \<longrightarrow> (\<forall>r. connect W nt r = None))) \<longrightarrow>
          map networkType (fst (getAllServices_loop W nts st [])) = nts)
    \<and> getAvailableNetworks =
         [''arbitrum'', ''ton'', ''solana'', ''ripple'', ''polygon'', ''avalanche'', ''cardano'', ''trc20'']"
proof -
  have ok: "cache_ok st" using assms(1) by (rule reachable_cache_ok)
  have reg: "set nts \<subseteq> set NetworkType_values" using assms(2) by (simp add: getAvailableNetworks_def)
  have c1: "getAllServices W st = getAllServices_loop W getAvailableNetworks st []"
    by (simp add: getAllServices_def getAvailableNetworks_def)
  have c2: "subseq (map networkType (fst (getAllServices_loop W nts st []))) nts"
    using getAllServices_loop_subseq [OF ok, of nts W "[]"] by auto
  have c3: "\<forall>nt cf. nt \<in> set nts \<and> configs W nt = Some cf \<and> \<not> enable cf \<longrightarrow>
          nt \<in> set (map networkType (fst (getAllServices_loop W nts st [])))
          \<and> (\<forall>s\<in>set (fst (getAllServices_loop W nts st [])). networkType s = nt \<longrightarrow>
                \<not> initialized s
                \<and> InitializeCalled (ref s) \<notin> set (calls (snd (getAllServices_loop W nts st []))))
          \<and> services (snd (getAllServices_loop W nts st [])) nt = None"
  proof (intro allI impI)
    fix nt cf
    assume h: "nt \<in> set nts \<and> configs W nt = Some cf \<and> \<not> enable cf"
    then have r: "nt \<in> set NetworkType_values" using reg by auto
    have a: "nt \<in> set (map networkType (fst (getAllServices_loop W nts st [])))"
      using getAllServices_loop_disabled [OF ok, of nt nts W cf "[]"] h r by simp
    have b: "\<forall>s\<in>set (fst (getAllServices_loop W nts st [])). networkType s = nt \<longrightarrow>
                \<not> initialized s
                \<and> InitializeCalled (ref s) \<notin> set (calls (snd (getAllServices_loop W nts st [])))"
      using getAllServices_loop_untouched [OF assms(1) reg, of nt cf "[]"] h
      by (simp add: untouched_def)
    have c: "services (snd (getAllServices_loop W nts st [])) nt = None"
      using getAllServices_loop_uncached [OF assms(1), of nt cf] h by simp
    show "nt \<in> set (map networkType (fst (getAllServices_loop W nts st [])))
          \<and> (\<forall>s\<in>set (fst (getAllServices_loop W nts st [])). networkType s = nt \<longrightarrow>
                \<not> initialized s
                \<and> InitializeCalled (ref s) \<notin> set (calls (snd (getAllServices_loop W nts st []))))
          \<and> services (snd (getAllServices_loop W nts st [])) nt = None"
      using a b c by blast
  qed
  have c4: "\<forall>k. distinct nts \<and> k < length nts \<longrightarrow>
          (nts ! k \<in> set (map networkType (fst (getAllServices_loop W nts st []))))
            = (\<not> isl (fst (createService W (snd (getAllServices_loop W (take k nts) st [])) (nts ! k))))"
    using getAllServices_loop_turn [OF assms(1)] by blast
  have c5: "(\<forall>nt\<in>set nts. \<exists>cf. configs W nt = Some cf \<and> (enable cf \<longrightarrow> (\<forall>r. connect W nt r = None))) \<longrightarrow>
          map networkType (fst (getAllServices_loop W nts st [])) = nts"
    using getAllServices_loop_all [OF ok reg, of W "[]"] by simp
  have c6: "getAvailableNetworks =
         [''arbitrum'', ''ton'', ''solana'', ''ripple'', ''polygon'', ''avalanche'', ''cardano'', ''trc20'']"
    by (simp add: getAvailableNetworks_def NetworkType_values_def)
  show ?thesis using c1 c2 c3 c4 c5 c6 by blast
qed

lemma W_one_disabled_configs:
  "nt \<in> set NetworkType_values \<Longrightarrow>
   \<exists>cf. configs W_one_disabled nt = Some cf \<and> (enable cf \<longrightarrow> (\<forall>r. connect W_one_disabled nt r = None))"
  by (auto simp: W_one_disabled_def NetworkType_values_def NETWORK_CONFIGS_def)

lemma W_ton_down_turn:
  "isl (fst (createService W_ton_down
        (snd (getAllServices_loop W_ton_down (take 1 four_networks) Factory_init [])) ''ton''))"
  by (simp add: four_networks_def createService_def W_ton_down_def Factory_init_def
      adapterClass_of_def NETWORK_CONFIGS_def Let_def initialize_def new_service_def)

theorem getAllServices_keeps_disabled_witness:
  "map networkType (fst (getAllServices_loop W_one_disabled four_networks Factory_init []))
     = four_networks
   \<and> services (snd (getAllServices_loop W_one_disabled four_networks Factory_init [])) ''arbitrum''
     = None
   \<and> \<not> initialized (hd (fst (getAllServices_loop W_one_disabled four_networks Factory_init [])))
   \<and> ''ton'' \<notin> set (map networkType (fst (getAllServices_loop W_ton_down four_networks Factory_init [])))
   \<and> ''arbitrum'' \<in> set (map networkType (fst (getAllServices_loop W_ton_down four_networks Factory_init [])))"
proof -
  let ?res = "fst (getAllServices_loop W_one_disabled four_networks Factory_init [])"
  let ?fin = "snd (getAllServices_loop W_one_disabled four_networks Factory_init [])"
  have sub: "set four_networks \<subseteq> set getAvailableNetworks"
    by (simp add: four_networks_def getAvailableNetworks_def NetworkType_values_def)
  have all: "\<forall>nt\<in>set four_networks. \<exists>cf. configs W_one_disabled nt = Some cf
       \<and> (enable cf \<longrightarrow> (\<forall>r. connect W_one_disabled nt r = None))"
    using W_one_disabled_configs sub by (auto simp: getAvailableNetworks_def)
  note inst = getAllServices_keeps_disabled [OF reachable_init sub, of W_one_disabled]
  have eq: "map networkType ?res = four_networks" using inst all by blast
  obtain cf where cf: "configs W_one_disabled ''arbitrum'' = Some cf" "\<not> enable cf"
    by (simp add: W_one_disabled_def NETWORK_CONFIGS_def)
  have mem: "''arbitrum'' \<in> set four_networks" by (simp add: four_networks_def)
  have dis: "(\<forall>s\<in>set ?res. networkType s = ''arbitrum'' \<longrightarrow> \<not> initialized s)
      \<and> services ?fin ''arbitrum'' = None"
    using inst cf mem by blast
  have ne: "?res \<noteq> []" using eq by (auto simp: four_networks_def)
  have "networkType (hd ?res) = ''arbitrum''"
    using arg_cong [OF eq, of hd] ne by (simp add: hd_map four_networks_def)
  then have uninit: "\<not> initialized (hd ?res)" using dis ne by auto
  note inst2 = getAllServices_keeps_disabled [OF reachable_init sub, of W_ton_down]
  have d4: "distinct four_networks \<and> 1 < length four_networks" by (simp add: four_networks_def)
  have turn: "(four_networks ! 1 \<in> set (map networkType
        (fst (getAllServices_loop W_ton_down four_networks Factory_init []))))
      = (\<not> isl (fst (createService W_ton_down
            (snd (getAllServices_loop W_ton_down (take 1 four_networks) Factory_init []))
            (four_networks ! 1))))"
    using inst2 d4 by blast
  have k1: "four_networks ! 1 = ''ton''" by (simp add: four_networks_def)
  have ton: "''ton'' \<notin> set (map networkType
        (fst (getAllServices_loop W_ton_down four_networks Factory_init [])))"
    using turn W_ton_down_turn unfolding k1 by simp
  obtain cf2 where cf2: "configs W_ton_down ''arbitrum'' = Some cf2" "\<not> enable cf2"
    by (simp add: W_ton_down_def NETWORK_CONFIGS_def)
  have arb: "''arbitrum'' \<in> set (map networkType
        (fst (getAllServices_loop W_ton_down four_networks Factory_init [])))"
    using inst2 cf2 mem by blast
  show ?thesis using eq dis uninit ton arb by blast
qed

lemma loop_four:
  "map networkType (fst (getAllServices_loop W_one_disabled four_networks Factory_init []))
     = four_networks"
  using getAllServices_loop_all [OF cache_ok_init, of four_networks W_one_disabled "[]"]
    W_one_disabled_configs
  by (auto simp: four_networks_def NetworkType_values_def)

lemma loop_eight:
  "map networkType (fst (getAllServices W_one_disabled Factory_init)) = NetworkType_values"
  unfolding getAllServices_def
  using getAllServices_loop_all [OF cache_ok_init, of NetworkType_values W_one_disabled "[]"]
    W_one_disabled_configs
  by auto

text \<open>
  Claim C4 as stated fails: with four networks of which exactly \<open>arbitrum\<close> is
  disabled and all handshakes succeeding, the loop of \<open>getAllServices\<close> returns four
  adapters, not at most three; over the eight registered networks with exactly one
  disabled, \<open>getAllServices\<close> returns eight.
\<close>

theorem getAllServices_at_most_three_counterexample:
  "length four_networks = 4
   \<and> map_option enable (configs W_one_disabled ''arbitrum'') = Some False
   \<and> map_option enable (configs W_one_disabled ''ton'') = Some True
   \<and> map_option enable (configs W_one_disabled ''solana'') = Some True
   \<and> map_option enable (configs W_one_disabled ''ripple'') = Some True
   \<and> length (fst (getAllServices_loop W_one_disabled four_networks Factory_init [])) = 4
   \<and> length (fst (getAllServices W_one_disabled Factory_init)) = 8
   \<and> length getAvailableNetworks = 8"
proof -
  have a: "length (fst (getAllServices_loop W_one_disabled four_networks Factory_init [])) = 4"
    using arg_cong [OF loop_four, of length] by (simp add: four_networks_def)
  have b: "length (fst (getAllServices W_one_disabled Factory_init)) = 8"
    using arg_cong [OF loop_eight, of length] by (simp add: NetworkType_values_def)
  show ?thesis using a b
    by (simp add: four_networks_def W_one_disabled_def NETWORK_CONFIGS_def
        getAvailableNetworks_def NetworkType_values_def)
qed

section \<open>Properties of the controller\<close>

text \<open>
  Claim C10. In every state the factory can reach, \<open>createService\<close> called with a string
  that is not a registered network type throws \<open>Unsupported network type: ...\<close> and
  returns the factory's state as it was: nothing is allocated, constructed, initialised
  or cached. The \<open>getBalance\<close> handler then answers 500 with the same state.
\<close>

theorem createService_unregistered:
  assumes "reachable W st" and "nt \<notin> set getAvailableNetworks"
  shows "createService W st nt = (Inl (Error (''Unsupported network type: '' @ nt)), st)
    \<and> BlockchainController_getBalance W A now st nt addr = (FailedToGetBalance nt addr, st)
    \<and> http_status (fst (BlockchainController_getBalance W A now st nt addr)) = 500"
proof -
  have "nt \<notin> set NetworkType_values" using assms(2) by (simp add: getAvailableNetworks_def)
  then have "createService W st nt = (Inl (Error (''Unsupported network type: '' @ nt)), st)"
    using assms(1) by (rule createService_default_branch [rotated])
  then show ?thesis by (simp add: BlockchainController_getBalance_def)
qed

lemma partition_length:
  "length (successful_of bs) + length (failed_of bs) = length bs"
  by (induction bs) (auto simp: successful_of_def failed_of_def split: PromiseSettledResult.splits)

lemma successful_of_Cons:
  "successful_of (b # bs) =
    (case b of fulfilled v \<Rightarrow> if status v = ''success'' then v # successful_of bs else successful_of bs
     | rejected e \<Rightarrow> successful_of bs)"
  by (simp add: successful_of_def split: PromiseSettledResult.splits)

lemma failed_of_Cons:
  "failed_of (b # bs) =
    (case b of fulfilled v \<Rightarrow> if status v \<noteq> ''success'' then v # failed_of bs else failed_of bs
     | rejected reason \<Rightarrow> \<lparr>network = None, networkName = None, address = None, balance = None,
               nativeToken = None, status = ''rejected'', error = message reason\<rparr> # failed_of bs)"
  by (simp add: failed_of_def split: PromiseSettledResult.splits)

lemma queryBalance_fulfilled:
  "\<exists>v. queryBalance A addr s = fulfilled v \<and> network v = Some (networkType s)"
  by (auto simp: queryBalance_def Let_def getNetworkType_def split: sum.splits bool.splits)

lemma partition_networks:
  "mset (map network (successful_of (map (queryBalance A addr) svcs)))
     + mset (map network (failed_of (map (queryBalance A addr) svcs)))
   = mset (map (\<lambda>s. Some (networkType s)) svcs)"
proof (induction svcs)
  case Nil
  then show ?case by (simp add: successful_of_def failed_of_def)
next
  case (Cons s svcs)
  obtain v where v: "queryBalance A addr s = fulfilled v" "network v = Some (networkType s)"
    using queryBalance_fulfilled by blast
  show ?case using Cons v by (simp add: successful_of_Cons failed_of_Cons)
qed

lemma getAllServices_distinct:
  assumes "reachable W st"
  shows "distinct (map networkType (fst (getAllServices W st)))"
proof -
  have ok: "cache_ok st" using assms by (rule reachable_cache_ok)
  obtain ns where ns: "subseq ns NetworkType_values"
      "map networkType (fst (getAllServices W st)) = ns"
    using getAllServices_loop_subseq [OF ok, of NetworkType_values W "[]"]
    by (auto simp: getAllServices_def)
  have "distinct NetworkType_values" by (simp add: NetworkType_values_def)
  then show ?thesis using ns subseq_keeps_distinct by auto
qed

lemma aggregate_lengths:
  "length (networks (aggregateBalances A now addr svcs))
     + length (failedNetworks (aggregateBalances A now addr svcs)) = length svcs"
  using partition_length [of "map (queryBalance A addr) svcs"]
  by (simp add: aggregateBalances_def Let_def)

lemma aggregate_networks:
  "mset (map network (networks (aggregateBalances A now addr svcs)
                      @ failedNetworks (aggregateBalances A now addr svcs)))
   = mset (map (\<lambda>s. Some (networkType s)) svcs)"
  using partition_networks [of A addr svcs]
  by (simp add: aggregateBalances_def Let_def)

lemma distinct_of_mset_eq: "mset xs = mset ys \<Longrightarrow> distinct ys \<Longrightarrow> distinct xs"
  by (metis mset_eq_imp_distinct_iff)

text \<open>
  Claim C1. From every state the factory can reach, for every address and every
  behaviour of the adapters, the response of \<open>getMultiNetworkBalance\<close> splits the
  queried adapters in two: the lengths of \<open>networks\<close> and \<open>failedNetworks\<close> add up to the
  number of adapters \<open>getAllServices\<close> returned (and so do the summary's counters); the
  network ids of the entries of both lists together are, as a multiset, the network
  types of the queried adapters, each once; no network id occurs twice across the two
  lists, so none is in both.
\<close>

theorem getMultiNetworkBalance_partition:
  assumes "reachable W st"
  shows "length (networks (fst (BlockchainController_getMultiNetworkBalance W A now st addr)))
       + length (failedNetworks (fst (BlockchainController_getMultiNetworkBalance W A now st addr)))
       = length (fst (getAllServices W st))
   \<and> successfulQueries (fst (BlockchainController_getMultiNetworkBalance W A now st addr))
       + failedQueries (fst (BlockchainController_getMultiNetworkBalance W A now st addr))
       = totalNetworksChecked (fst (BlockchainController_getMultiNetworkBalance W A now st addr))
   \<and> totalNetworksChecked (fst (BlockchainController_getMultiNetworkBalance W A now st addr))
       = length (fst (getAllServices W st))
   \<and> mset (map network
         (networks (fst (BlockchainController_getMultiNetworkBalance W A now st addr))
          @ failedNetworks (fst (BlockchainController_getMultiNetworkBalance W A now st addr))))
       = mset (map (\<lambda>s. Some (getNetworkType s)) (fst (getAllServices W st)))
   \<and> distinct (map network
         (networks (fst (BlockchainController_getMultiNetworkBalance W A now st addr))
          @ failedNetworks (fst (BlockchainController_getMultiNetworkBalance W A now st addr))))
   \<and> set (map network (networks (fst (BlockchainController_getMultiNetworkBalance W A now st addr))))
       \<inter> set (map network (failedNetworks (fst (BlockchainController_getMultiNetworkBalance W A now st addr))))
       = {}"
proof -
  obtain svcs st' where g: "getAllServices W st = (svcs, st')" by (cases "getAllServices W st")
  define r where "r = aggregateBalances A now addr svcs"
  have r: "fst (BlockchainController_getMultiNetworkBalance W A now st addr) = r"
    by (simp add: BlockchainController_getMultiNetworkBalance_def g r_def)
  have d: "distinct (map (\<lambda>s. Some (networkType s)) svcs)"
    using getAllServices_distinct [OF assms] g by (simp add: distinct_map inj_on_def)
  have len: "length (networks r) + length (failedNetworks r) = length svcs"
    unfolding r_def by (rule aggregate_lengths)
  have q: "successfulQueries r = length (networks r)" "failedQueries r = length (failedNetworks r)"
      "totalNetworksChecked r = length svcs"
    by (simp_all add: r_def aggregateBalances_def Let_def)
  have ms: "mset (map network (networks r @ failedNetworks r))
      = mset (map (\<lambda>s. Some (networkType s)) svcs)"
    unfolding r_def by (rule aggregate_networks)
  have dis: "distinct (map network (networks r @ failedNetworks r))"
    using distinct_of_mset_eq [OF ms d] .
  then have disj: "set (map network (networks r)) \<inter> set (map network (failedNetworks r)) = {}"
    by simp
  show ?thesis unfolding r using len q ms dis disj g by (simp add: getNetworkType_def)
qed

lemma entries_of_absent:
  "nt \<notin> networkType ` set svcs \<Longrightarrow>
   entries_of nt (successful_of (map (queryBalance A addr) svcs)) = []
   \<and> entries_of nt (failed_of (map (queryBalance A addr) svcs)) = []"
proof (induction svcs)
  case Nil
  then show ?case by (simp add: entries_of_def successful_of_def failed_of_def)
next
  case (Cons s svcs)
  obtain v where v: "queryBalance A addr s = fulfilled v" "network v = Some (networkType s)"
    using queryBalance_fulfilled by blast
  show ?case using Cons v by (auto simp: successful_of_Cons failed_of_Cons entries_of_def)
qed

lemma entries_of_present:
  "distinct (map networkType svcs) \<Longrightarrow> s \<in> set svcs \<Longrightarrow> queryBalance A addr s = fulfilled v \<Longrightarrow>
   entries_of (networkType s) (successful_of (map (queryBalance A addr) svcs))
     = (if status v = ''success'' then [v] else [])
   \<and> entries_of (networkType s) (failed_of (map (queryBalance A addr) svcs))
     = (if status v = ''success'' then [] else [v])"
proof (induction svcs)
  case Nil
  then show ?case by simp
next
  case (Cons t svcs)
  obtain w where w: "queryBalance A addr t = fulfilled w" "network w = Some (networkType t)"
    using queryBalance_fulfilled by blast
  show ?case
  proof (cases "t = s")
    case True
    have "networkType s \<notin> networkType ` set svcs" using Cons.prems(1) True by auto
    then have rest: "entries_of (networkType s) (successful_of (map (queryBalance A addr) svcs)) = []"
       "entries_of (networkType s) (failed_of (map (queryBalance A addr) svcs)) = []"
      using entries_of_absent [of "networkType s" svcs A addr] by auto
    have nv: "network v = Some (networkType s)" using w True Cons.prems(3) by simp
    show ?thesis using True Cons.prems(3) rest nv
      by (simp add: successful_of_Cons failed_of_Cons) (simp add: entries_of_def)
  next
    case False
    then have mem: "s \<in> set svcs" using Cons.prems(2) by auto
    then have ne: "networkType t \<noteq> networkType s" using Cons.prems(1) by auto
    have d: "distinct (map networkType svcs)" using Cons.prems(1) by simp
    have nw: "network w \<noteq> Some (networkType s)" using w ne by simp
    have cons: "\<And>es. entries_of (networkType s) (w # es) = entries_of (networkType s) es"
      using nw by (simp add: entries_of_def)
    show ?thesis using Cons.IH [OF d mem Cons.prems(3)] w cons
      by (simp add: successful_of_Cons failed_of_Cons)
  qed
qed

text \<open>
  Claim C2. For every adapter \<open>s\<close> that \<open>getAllServices\<close> returned, whatever the
  other adapters do: if its \<open>validateAddress\<close> returns false, its one entry is in
  \<open>failedNetworks\<close> with status \<open>invalid_address\<close>; if its \<open>getWalletInfo\<close> (or its
  \<open>validateAddress\<close>) throws, its one entry is in \<open>failedNetworks\<close> with status \<open>error\<close>
  and the thrown message; if both succeed, its one entry is in \<open>networks\<close> with status
  \<open>success\<close> and the wallet's balance. In each case the other list has no entry of
  that network.
\<close>

theorem getMultiNetworkBalance_isolation:
  assumes "reachable W st" and "s \<in> set (fst (getAllServices W st))"
  shows
   "(validateAddress A s addr = Inr False \<longrightarrow>
       (\<exists>e. entries_of (getNetworkType s)
               (failedNetworks (fst (BlockchainController_getMultiNetworkBalance W A now st addr))) = [e]
            \<and> status e = ''invalid_address'')
       \<and> entries_of (getNetworkType s)
               (networks (fst (BlockchainController_getMultiNetworkBalance W A now st addr))) = [])
    \<and> (\<forall>x. validateAddress A s addr = Inr True \<and> getWalletInfo A s addr = Inl x \<longrightarrow>
       (\<exists>e. entries_of (getNetworkType s)
               (failedNetworks (fst (BlockchainController_getMultiNetworkBalance W A now st addr))) = [e]
            \<and> status e = ''error'' \<and> error e = Some (message_or_unknown x))
       \<and> entries_of (getNetworkType s)
               (networks (fst (BlockchainController_getMultiNetworkBalance W A now st addr))) = [])
    \<and> (\<forall>x. validateAddress A s addr = Inl x \<longrightarrow>
       (\<exists>e. entries_of (getNetworkType s)
               (failedNetworks (fst (BlockchainController_getMultiNetworkBalance W A now st addr))) = [e]
            \<and> status e = ''error'' \<and> error e = Some (message_or_unknown x))
       \<and> entries_of (getNetworkType s)
               (networks (fst (BlockchainController_getMultiNetworkBalance W A now st addr))) = [])
    \<and> (\<forall>wi. validateAddress A s addr = Inr True \<and> getWalletInfo A s addr = Inr wi \<longrightarrow>
       (\<exists>e. entries_of (getNetworkType s)
               (networks (fst (BlockchainController_getMultiNetworkBalance W A now st addr))) = [e]
            \<and> status e = ''success'' \<and> balance e = Some (WalletInfo.balance wi)
            \<and> NetworkBalance.address e = Some (WalletInfo.address wi))
       \<and> entries_of (getNetworkType s)
               (failedNetworks (fst (BlockchainController_getMultiNetworkBalance W A now st addr))) = [])"
proof -
  obtain svcs st' where g: "getAllServices W st = (svcs, st')" by (cases "getAllServices W st")
  have d: "distinct (map networkType svcs)" using getAllServices_distinct [OF assms(1)] g by simp
  have mem: "s \<in> set svcs" using assms(2) g by simp
  obtain v where v: "queryBalance A addr s = fulfilled v" using queryBalance_fulfilled by blast
  note ent = entries_of_present [OF d mem v]
  have nets: "networks (fst (BlockchainController_getMultiNetworkBalance W A now st addr))
      = successful_of (map (queryBalance A addr) svcs)"
    and fails: "failedNetworks (fst (BlockchainController_getMultiNetworkBalance W A now st addr))
      = failed_of (map (queryBalance A addr) svcs)"
    by (simp_all add: BlockchainController_getMultiNetworkBalance_def g aggregateBalances_def Let_def)
  show ?thesis
    unfolding nets fails getNetworkType_def
    using ent v
    by (auto simp: queryBalance_def Let_def)
qed

lemma foldl_plus_number_foldl:
  fixes a :: "'n::plus"
  shows "map balance es = map Some bs \<Longrightarrow>
   foldl (\<lambda>sum item. plus_number sum (balance item)) (Some a) es = Some (foldl (+) a bs)"
proof (induction es arbitrary: a bs)
  case Nil
  then show ?case by simp
next
  case (Cons e es)
  then obtain b bs' where bs: "bs = b # bs'" "balance e = Some b" "map balance es = map Some bs'"
    by (cases bs) auto
  show ?case using Cons.IH [OF bs(3), of "a + b"] bs
    by (simp add: plus_number_def)
qed

lemma successful_balances_Cons:
  "successful_balances A addr (s # svcs) =
     (case validateAddress A s addr of
        Inr True \<Rightarrow> (case getWalletInfo A s addr of
                       Inr walletInfo \<Rightarrow> WalletInfo.balance walletInfo # successful_balances A addr svcs
                     | Inl e \<Rightarrow> successful_balances A addr svcs)
      | Inr False \<Rightarrow> successful_balances A addr svcs
      | Inl e \<Rightarrow> successful_balances A addr svcs)"
  by (simp add: successful_balances_def split: sum.splits bool.splits)

lemma successful_balance_fields:
  "map balance (successful_of (map (queryBalance A addr) svcs))
     = map Some (successful_balances A addr svcs)"
proof (induction svcs)
  case Nil
  then show ?case by (simp add: successful_of_def successful_balances_def)
next
  case (Cons s svcs)
  then show ?case
    by (simp add: successful_of_Cons successful_balances_Cons queryBalance_def Let_def
             split: sum.splits bool.splits)
qed

lemma queryBalance_status:
  "\<exists>v. queryBalance A addr s = fulfilled v \<and> (status v = ''success'') = query_succeeds A addr s"
  by (auto simp: queryBalance_def query_succeeds_def Let_def split: sum.splits bool.splits)

lemma successful_of_filter:
  "successful_of (map (queryBalance A addr) (filter (query_succeeds A addr) svcs))
     = successful_of (map (queryBalance A addr) svcs)"
proof (induction svcs)
  case Nil
  then show ?case by simp
next
  case (Cons s svcs)
  obtain v where v: "queryBalance A addr s = fulfilled v"
      "(status v = ''success'') = query_succeeds A addr s"
    using queryBalance_status by blast
  show ?case
  proof (cases "query_succeeds A addr s")
    case True
    then show ?thesis using Cons v by (simp add: successful_of_Cons)
  next
    case False
    then show ?thesis using Cons v by (simp add: successful_of_Cons)
  qed
qed

lemma successful_of_cong:
  "(\<forall>s\<in>set svcs. query_succeeds A addr s \<or> query_succeeds A' addr s \<longrightarrow>
        validateAddress A s addr = validateAddress A' s addr
        \<and> getWalletInfo A s addr = getWalletInfo A' s addr) \<Longrightarrow>
   successful_of (map (queryBalance A addr) svcs) = successful_of (map (queryBalance A' addr) svcs)"
proof (induction svcs)
  case Nil
  then show ?case by simp
next
  case (Cons s svcs)
  have rest: "successful_of (map (queryBalance A addr) svcs)
      = successful_of (map (queryBalance A' addr) svcs)"
    using Cons by simp
  have hd: "query_succeeds A addr s \<or> query_succeeds A' addr s \<longrightarrow>
        validateAddress A s addr = validateAddress A' s addr
        \<and> getWalletInfo A s addr = getWalletInfo A' s addr"
    using Cons.prems by simp
  show ?case
  proof (cases "query_succeeds A addr s \<or> query_succeeds A' addr s")
    case True
    then have e1: "validateAddress A s addr = validateAddress A' s addr"
      and e2: "getWalletInfo A s addr = getWalletInfo A' s addr"
      using hd by auto
    have "queryBalance A addr s = queryBalance A' addr s"
      unfolding queryBalance_def e1 e2 ..
    then show ?thesis using rest
      by (simp add: successful_of_Cons split: PromiseSettledResult.splits)
  next
    case False
    obtain v where v: "queryBalance A addr s = fulfilled v"
        "(status v = ''success'') = query_succeeds A addr s"
      using queryBalance_status by blast
    obtain v' where v': "queryBalance A' addr s = fulfilled v'"
        "(status v' = ''success'') = query_succeeds A' addr s"
      using queryBalance_status by blast
    show ?thesis using rest False v v' by (simp add: successful_of_Cons)
  qed
qed

lemma aggregate_totalBalance:
  fixes A :: "('n::{zero,plus}) adapters"
  shows "totalBalance (aggregateBalances A now addr xs)
      = Some (foldl (+) 0 (successful_balances A addr xs))"
proof -
  have "totalBalance (aggregateBalances A now addr xs)
      = totalBalance_of (successful_of (map (queryBalance A addr) xs))"
    by (simp add: aggregateBalances_def Let_def)
  also have "\<dots> = Some (foldl (+) 0 (successful_balances A addr xs))"
    unfolding totalBalance_of_def
    by (rule foldl_plus_number_foldl) (rule successful_balance_fields)
  finally show ?thesis .
qed


text \<open>
  Claim C3. The \<open>balance\<close> fields of the entries of \<open>networks\<close> are the balances of the
  wallets whose query succeeded, and \<open>totalBalance\<close> is what \<open>reduce\<close> computes from them:
  starting from 0, each is added in turn, in the order of the adapters, with the addition
  of the number type (never \<open>NaN\<close> from a missing balance). Nothing is assumed of that
  addition: it need not be associative, as the addition of doubles is not. Removing the
  adapters whose query fails leaves \<open>totalBalance\<close> as it is (and so does adding them
  back), and so does changing how the failing adapters fail: two behaviours of the
  adapters that agree on every adapter that succeeds under either give the same
  \<open>totalBalance\<close>.
\<close>

theorem totalBalance_sums_successful_only:
  fixes A :: "('n::{zero,plus}) adapters"
  shows
   "map balance (networks (aggregateBalances A now addr svcs))
      = map Some (successful_balances A addr svcs)
    \<and> totalBalance (aggregateBalances A now addr svcs)
      = Some (foldl (+) 0 (successful_balances A addr svcs))
    \<and> totalBalance (aggregateBalances A now addr (filter (query_succeeds A addr) svcs))
      = totalBalance (aggregateBalances A now addr svcs)
    \<and> ((\<forall>s\<in>set svcs. query_succeeds A addr s \<or> query_succeeds A' addr s \<longrightarrow>
            validateAddress A s addr = validateAddress A' s addr
            \<and> getWalletInfo A s addr = getWalletInfo A' s addr) \<longrightarrow>
         totalBalance (aggregateBalances A' now addr svcs)
           = totalBalance (aggregateBalances A now addr svcs))
    \<and> totalBalance (fst (BlockchainController_getMultiNetworkBalance W A now st addr))
      = Some (foldl (+) 0 (successful_balances A addr (fst (getAllServices W st))))"
proof -
  have f: "map balance (networks (aggregateBalances A now addr svcs))
      = map Some (successful_balances A addr svcs)"
    by (simp add: aggregateBalances_def Let_def successful_balance_fields)
  have t: "totalBalance (aggregateBalances A now addr svcs)
      = Some (foldl (+) 0 (successful_balances A addr svcs))"
    by (rule aggregate_totalBalance)
  have rm: "totalBalance (aggregateBalances A now addr (filter (query_succeeds A addr) svcs))
      = totalBalance (aggregateBalances A now addr svcs)"
    by (simp add: aggregateBalances_def Let_def successful_of_filter)
  have ch: "(\<forall>s\<in>set svcs. query_succeeds A addr s \<or> query_succeeds A' addr s \<longrightarrow>
            validateAddress A s addr = validateAddress A' s addr
            \<and> getWalletInfo A s addr = getWalletInfo A' s addr) \<longrightarrow>
         totalBalance (aggregateBalances A' now addr svcs)
           = totalBalance (aggregateBalances A now addr svcs)"
    using successful_of_cong [of svcs A addr A']
    by (simp add: aggregateBalances_def Let_def)
  have ctl: "totalBalance (fst (BlockchainController_getMultiNetworkBalance W A now st addr))
      = Some (foldl (+) 0 (successful_balances A addr (fst (getAllServices W st))))"
    using aggregate_totalBalance [of A now addr "fst (getAllServices W st)"]
    by (cases "getAllServices W st") (simp add: BlockchainController_getMultiNetworkBalance_def)
  show ?thesis using f t rm ch ctl by blast
qed

theorem createService_unregistered_witness:
  "createService W_repo Factory_init ''bitcoin'' =
     (Inl (Error ''Unsupported network type: bitcoin''), Factory_init)
   \<and> BlockchainController_getBalance W_repo A_demo ''now'' Factory_init ''bitcoin'' ''1A1zP1''
       = (FailedToGetBalance ''bitcoin'' ''1A1zP1'', Factory_init)"
  using createService_unregistered [of W_repo Factory_init "''bitcoin''" A_demo "''now''" "''1A1zP1''"]
  by (simp add: reachable_init getAvailableNetworks_def NetworkType_values_def)

lemma getAllServices_repo:
  "fst (getAllServices W_repo Factory_init) =
     [new_service ArbitrumService (NETWORK_CONFIGS Map.empty ''arbitrum'') ''arbitrum'' 0,
      new_service TONService (NETWORK_CONFIGS Map.empty ''ton'') ''ton'' 1,
      new_service SolanaService (NETWORK_CONFIGS Map.empty ''solana'') ''solana'' 2,
      new_service RippleService (NETWORK_CONFIGS Map.empty ''ripple'') ''ripple'' 3,
      new_service PolygonService (NETWORK_CONFIGS Map.empty ''polygon'') ''polygon'' 4,
      new_service AvalancheService (NETWORK_CONFIGS Map.empty ''avalanche'') ''avalanche'' 5,
      new_service CardanoService (NETWORK_CONFIGS Map.empty ''cardano'') ''cardano'' 6,
      (new_service TRC20Service (NETWORK_CONFIGS Map.empty ''trc20'') ''trc20'' 7)\<lparr>initialized := True\<rparr>]"
  by (simp add: getAllServices_def NetworkType_values_def createService_def W_repo_def
      Factory_init_def adapterClass_of_def NETWORK_CONFIGS_def Let_def initialize_def new_service_def)

theorem getMultiNetworkBalance_partition_witness:
  "successfulQueries (fst (BlockchainController_getMultiNetworkBalance W_repo A_demo ''now'' Factory_init ''0xabc''))
     + failedQueries (fst (BlockchainController_getMultiNetworkBalance W_repo A_demo ''now'' Factory_init ''0xabc''))
     = 8
   \<and> distinct (map network
         (networks (fst (BlockchainController_getMultiNetworkBalance W_repo A_demo ''now'' Factory_init ''0xabc''))
          @ failedNetworks (fst (BlockchainController_getMultiNetworkBalance W_repo A_demo ''now'' Factory_init ''0xabc''))))"
  using getMultiNetworkBalance_partition [OF reachable_init, of W_repo A_demo "''now''" "''0xabc''"]
  by (simp add: getAllServices_repo)

theorem getMultiNetworkBalance_isolation_witness:
  "(\<exists>e. entries_of ''ton''
        (failedNetworks (fst (BlockchainController_getMultiNetworkBalance W_repo A_demo ''now'' Factory_init ''0xabc''))) = [e]
      \<and> status e = ''invalid_address'')
   \<and> (\<exists>e. entries_of ''solana''
        (failedNetworks (fst (BlockchainController_getMultiNetworkBalance W_repo A_demo ''now'' Factory_init ''0xabc''))) = [e]
      \<and> status e = ''error'' \<and> error e = Some ''solana getWalletInfo failed: timeout'')
   \<and> (\<exists>e. entries_of ''ripple''
        (networks (fst (BlockchainController_getMultiNetworkBalance W_repo A_demo ''now'' Factory_init ''0xabc''))) = [e]
      \<and> status e = ''success'' \<and> balance e = Some 6)
   \<and> (\<exists>e. entries_of ''solana''
        (failedNetworks (fst (BlockchainController_getMultiNetworkBalance W_repo A_demo' ''now'' Factory_init ''0xabc''))) = [e]
      \<and> status e = ''error'' \<and> error e = Some ''Unknown error'')"
proof -
  let ?ton = "new_service TONService (NETWORK_CONFIGS Map.empty ''ton'') ''ton'' 1"
  let ?sol = "new_service SolanaService (NETWORK_CONFIGS Map.empty ''solana'') ''solana'' 2"
  let ?xrp = "new_service RippleService (NETWORK_CONFIGS Map.empty ''ripple'') ''ripple'' 3"
  have m1: "?ton \<in> set (fst (getAllServices W_repo Factory_init))"
   and m2: "?sol \<in> set (fst (getAllServices W_repo Factory_init))"
   and m3: "?xrp \<in> set (fst (getAllServices W_repo Factory_init))"
    by (simp_all add: getAllServices_repo)
  let ?wi = "\<lparr>WalletInfo.address = ''0xabc'', WalletInfo.balance = 6::int,
              WalletInfo.nativeToken = ''TOK'', transactionCount = None, energy = None,
              frozenAmount = None, bandwidth = None\<rparr>"
  have v1: "validateAddress A_demo ?ton ''0xabc'' = Inr False"
   and v2: "validateAddress A_demo ?sol ''0xabc'' = Inr True"
   and w2: "getWalletInfo A_demo ?sol ''0xabc'' = Inl (Error ''solana getWalletInfo failed: timeout'')"
   and v3: "validateAddress A_demo ?xrp ''0xabc'' = Inr True"
   and w3: "getWalletInfo A_demo ?xrp ''0xabc'' = Inr ?wi"
    by (simp_all add: A_demo_def new_service_def)
  have n: "getNetworkType ?ton = ''ton''" "getNetworkType ?sol = ''solana''"
      "getNetworkType ?xrp = ''ripple''"
    by (simp_all add: getNetworkType_def new_service_def)
  have a: "\<exists>e. entries_of ''ton''
        (failedNetworks (fst (BlockchainController_getMultiNetworkBalance W_repo A_demo ''now'' Factory_init ''0xabc''))) = [e]
      \<and> status e = ''invalid_address''"
    using getMultiNetworkBalance_isolation [OF reachable_init m1, of A_demo "''0xabc''" "''now''"] v1
    unfolding n by blast
  have b: "\<exists>e. entries_of ''solana''
        (failedNetworks (fst (BlockchainController_getMultiNetworkBalance W_repo A_demo ''now'' Factory_init ''0xabc''))) = [e]
      \<and> status e = ''error'' \<and> error e = Some ''solana getWalletInfo failed: timeout''"
    using getMultiNetworkBalance_isolation [OF reachable_init m2, of A_demo "''0xabc''" "''now''"] v2 w2
    unfolding n by fastforce
  have c: "\<exists>e. entries_of ''ripple''
        (networks (fst (BlockchainController_getMultiNetworkBalance W_repo A_demo ''now'' Factory_init ''0xabc''))) = [e]
      \<and> status e = ''success'' \<and> balance e = Some 6"
    using getMultiNetworkBalance_isolation [OF reachable_init m3, of A_demo "''0xabc''" "''now''"] v3 w3
    unfolding n by fastforce
  have v4: "validateAddress A_demo' ?sol ''0xabc'' = Inl NonError"
    by (simp add: A_demo'_def new_service_def)
  have d: "\<exists>e. entries_of ''solana''
        (failedNetworks (fst (BlockchainController_getMultiNetworkBalance W_repo A_demo' ''now'' Factory_init ''0xabc''))) = [e]
      \<and> status e = ''error'' \<and> error e = Some ''Unknown error''"
    using getMultiNetworkBalance_isolation [OF reachable_init m2, of A_demo' "''0xabc''" "''now''"] v4
    unfolding n by fastforce
  show ?thesis using a b c d by blast
qed

lemma demo_successful_balances: "successful_balances A_demo ''0xabc'' demo_services = [8, 6]"
  by (simp add: successful_balances_def demo_services_def A_demo_def new_service_def)

theorem totalBalance_sums_successful_only_witness:
  "totalBalance (aggregateBalances A_demo ''now'' ''0xabc'' demo_services) = Some 14
   \<and> totalBalance (aggregateBalances A_demo' ''now'' ''0xabc'' demo_services) = Some 14
   \<and> totalBalance (aggregateBalances A_demo ''now'' ''0xabc''
        (filter (query_succeeds A_demo ''0xabc'') demo_services)) = Some 14"
proof -
  have same: "\<forall>s\<in>set demo_services.
      query_succeeds A_demo ''0xabc'' s \<or> query_succeeds A_demo' ''0xabc'' s \<longrightarrow>
        validateAddress A_demo s ''0xabc'' = validateAddress A_demo' s ''0xabc''
        \<and> getWalletInfo A_demo s ''0xabc'' = getWalletInfo A_demo' s ''0xabc''"
    by (simp add: demo_services_def A_demo'_def A_demo_def new_service_def query_succeeds_def)
  show ?thesis
    using totalBalance_sums_successful_only
      [of A_demo "''now''" "''0xabc''" demo_services A_demo' W_repo Factory_init] same
    by (simp add: demo_successful_balances)
qed

section \<open>Properties of the adapters\<close>

text \<open>
  Claim C8. For each adapter under \<open>services\<close> (Arbitrum, Avalanche, Solana, TON, TRC20,
  Cardano, Ripple), for every address string and every behaviour of the SDK's check,
  throwing included, \<open>validateAddress\<close> returns a boolean and does not throw: the
  SDK's answer when it returns one, \<open>false\<close> when it throws (for Ripple, the answer
  of the fallback pattern), and \<open>false\<close> for a TRC20 adapter whose \<open>tronWeb\<close> was never
  set. The result is a function of the address, the SDK's answer and, for TRC20, the
  adapter's \<open>tronWeb\<close> field; no field is written.
\<close>

theorem validateAddress_never_throws:
  "ArbitrumService_validateAddress ethers_isAddress addr
     = Inr (case ethers_isAddress addr of Inl e \<Rightarrow> False | Inr b \<Rightarrow> b)
   \<and> AvalancheService_validateAddress ethers_isAddress addr
     = Inr (case ethers_isAddress addr of Inl e \<Rightarrow> False | Inr b \<Rightarrow> b)
   \<and> SolanaService_validateAddress new_PublicKey isOnCurve addr
     = Inr (case new_PublicKey addr of
              Inl e \<Rightarrow> False
            | Inr pk \<Rightarrow> (case isOnCurve pk of Inl e \<Rightarrow> False | Inr b \<Rightarrow> b))
   \<and> TONService_validateAddress Address_parse addr
     = Inr (case Address_parse addr of Inl e \<Rightarrow> False | Inr a \<Rightarrow> True)
   \<and> TRC20Service_validateAddress tronWeb isAddress addr
     = Inr (case tronWeb of
              None \<Rightarrow> False
            | Some tw \<Rightarrow> (case isAddress tw addr of Inl e \<Rightarrow> False | Inr b \<Rightarrow> b))
   \<and> CardanoService_validateAddress from_bech32 addr
     = Inr (case from_bech32 addr of Inl e \<Rightarrow> False | Inr a \<Rightarrow> True)
   \<and> RippleService_validateAddress isValidAddress addr
     = Inr (case isValidAddress addr of
              Inl e \<Rightarrow> ripple_address_pattern addr
            | Inr b \<Rightarrow> b)"
proof (intro conjI)
  show "ArbitrumService_validateAddress ethers_isAddress addr
     = Inr (case ethers_isAddress addr of Inl e \<Rightarrow> False | Inr b \<Rightarrow> b)"
    by (simp add: ArbitrumService_validateAddress_def try_catch_def split: sum.splits)
  show "AvalancheService_validateAddress ethers_isAddress addr
     = Inr (case ethers_isAddress addr of Inl e \<Rightarrow> False | Inr b \<Rightarrow> b)"
    by (simp add: AvalancheService_validateAddress_def try_catch_def split: sum.splits)
  show "SolanaService_validateAddress new_PublicKey isOnCurve addr
     = Inr (case new_PublicKey addr of
              Inl e \<Rightarrow> False
            | Inr pk \<Rightarrow> (case isOnCurve pk of Inl e \<Rightarrow> False | Inr b \<Rightarrow> b))"
    by (simp add: SolanaService_validateAddress_def try_catch_def and_then_def split: sum.splits)
  show "TONService_validateAddress Address_parse addr
     = Inr (case Address_parse addr of Inl e \<Rightarrow> False | Inr a \<Rightarrow> True)"
    by (simp add: TONService_validateAddress_def try_catch_def and_then_def split: sum.splits)
  show "TRC20Service_validateAddress tronWeb isAddress addr
     = Inr (case tronWeb of
              None \<Rightarrow> False
            | Some tw \<Rightarrow> (case isAddress tw addr of Inl e \<Rightarrow> False | Inr b \<Rightarrow> b))"
    by (simp add: TRC20Service_validateAddress_def try_catch_def split: sum.splits option.splits)
  show "CardanoService_validateAddress from_bech32 addr
     = Inr (case from_bech32 addr of Inl e \<Rightarrow> False | Inr a \<Rightarrow> True)"
    by (simp add: CardanoService_validateAddress_def try_catch_def and_then_def split: sum.splits)
  show "RippleService_validateAddress isValidAddress addr
     = Inr (case isValidAddress addr of
              Inl e \<Rightarrow> ripple_address_pattern addr
            | Inr b \<Rightarrow> b)"
    by (simp add: RippleService_validateAddress_def try_catch_def split: sum.splits)
qed

lemma ripple_genesis: "ripple_address_pattern ''rHb9CJAWyB4rj91VRWn96DkukG4bwdtyTh''"
  by (simp add: ripple_address_pattern_def ripple_class_def char_in_def)

theorem validateAddress_never_throws_witness:
  "RippleService_validateAddress (\<lambda>a. Inl (Error ''checksum''))
      ''rHb9CJAWyB4rj91VRWn96DkukG4bwdtyTh'' = Inr True
   \<and> RippleService_validateAddress (\<lambda>a. Inl NonError) ''not an address'' = Inr False
   \<and> TRC20Service_validateAddress (None :: unit option) (\<lambda>tw a. Inr True)
        ''not an address'' = Inr False
   \<and> ArbitrumService_validateAddress (\<lambda>a. Inl (TypeError ''invalid value''))
        ''not an address'' = Inr False"
proof -
  have p: "\<not> ripple_address_pattern ''not an address''"
    by (simp add: ripple_address_pattern_def)
  have a: "RippleService_validateAddress (\<lambda>a. Inl (Error ''checksum''))
      ''rHb9CJAWyB4rj91VRWn96DkukG4bwdtyTh'' = Inr True"
    using validateAddress_never_throws
      [of "\<lambda>a. Inl NonError" "''rHb9CJAWyB4rj91VRWn96DkukG4bwdtyTh''" "\<lambda>a. Inl NonError"
        "\<lambda>a. Inl NonError" "\<lambda>a. Inl NonError" "None :: unit option" "\<lambda>tw a. Inr True"
        "\<lambda>a. Inl NonError" "\<lambda>a. Inl (Error ''checksum'')"]
    by (auto simp: ripple_genesis)
  have b: "RippleService_validateAddress (\<lambda>a. Inl NonError) ''not an address'' = Inr False
      \<and> TRC20Service_validateAddress (None :: unit option) (\<lambda>tw a. Inr True)
           ''not an address'' = Inr False
      \<and> ArbitrumService_validateAddress (\<lambda>a. Inl (TypeError ''invalid value''))
           ''not an address'' = Inr False"
    using validateAddress_never_throws
      [of "\<lambda>a. Inl (TypeError ''invalid value'')" "''not an address''" "\<lambda>a. Inl NonError"
        "\<lambda>a. Inl NonError" "\<lambda>a. Inl NonError" "None :: unit option" "\<lambda>tw a. Inr True"
        "\<lambda>a. Inl NonError" "\<lambda>a. Inl NonError"] p
    by auto
  show ?thesis using a b by blast
qed

lemma RippleService_status_cases:
  "map_sum id TransactionResponse.status (RippleService_getTransactionStatus nt client now h) \<noteq> Inr failed"
  by (auto simp: RippleService_getTransactionStatus_def try_catch_def and_then_def rethrow_def
           split: option.splits sum.splits if_splits)

text \<open>
  Claim C7 at the input where the code departs from it. When the XRPL client rejects the
  \<open>tx\<close> request for a hash the ledger does not know, \<open>RippleService\<close>'s
  \<open>getTransactionStatus\<close> throws \<open>ripple getTransactionStatus failed: ...\<close>; whatever the
  client answers, it never returns a receipt with status \<open>failed\<close>. The sibling adapters
  \<open>ArbitrumService\<close> and \<open>TRC20Service\<close> return a receipt with status \<open>failed\<close> when their
  SDK reports no transaction for the hash.
\<close>

theorem RippleService_getTransactionStatus_unknown:
  "RippleService_getTransactionStatus ''ripple''
      (Some \<lparr>request_tx = (\<lambda>x. Inl (Error ''Transaction not found.'')), dropsToXrp = d\<rparr>) now h
     = Inl (Error ''ripple getTransactionStatus failed: Transaction not found.'')
   \<and> map_sum id TransactionResponse.status (RippleService_getTransactionStatus nt client now h) \<noteq> Inr failed
   \<and> ArbitrumService_getTransactionStatus nt (Some (p\<lparr>getTransaction := (\<lambda>x. Inr None)\<rparr>)) now h
     = Inr \<lparr>hash = h, TransactionResponse.status = failed, blockNumber = None, gasUsed = None, fee = None,
            TransactionResponse.timestamp = Some (now div 1000)\<rparr>
   \<and> TRC20Service_getTransactionStatus nt (Some (tw\<lparr>trx_getTransaction := (\<lambda>x. Inr None)\<rparr>)) now h
     = Inr \<lparr>hash = h, TransactionResponse.status = failed, blockNumber = None, gasUsed = None, fee = None,
            TransactionResponse.timestamp = Some (now div 1000)\<rparr>"
proof (intro conjI)
  show "RippleService_getTransactionStatus ''ripple''
      (Some \<lparr>request_tx = (\<lambda>x. Inl (Error ''Transaction not found.'')), dropsToXrp = d\<rparr>) now h
     = Inl (Error ''ripple getTransactionStatus failed: Transaction not found.'')"
    by (simp add: RippleService_getTransactionStatus_def try_catch_def and_then_def rethrow_def
        handleError_def)
  show "map_sum id TransactionResponse.status (RippleService_getTransactionStatus nt client now h) \<noteq> Inr failed"
    by (rule RippleService_status_cases)
  show "ArbitrumService_getTransactionStatus nt (Some (p\<lparr>getTransaction := (\<lambda>x. Inr None)\<rparr>)) now h
     = Inr \<lparr>hash = h, TransactionResponse.status = failed, blockNumber = None, gasUsed = None, fee = None,
            TransactionResponse.timestamp = Some (now div 1000)\<rparr>"
    by (simp add: ArbitrumService_getTransactionStatus_def try_catch_def and_then_def now_seconds_def)
  show "TRC20Service_getTransactionStatus nt (Some (tw\<lparr>trx_getTransaction := (\<lambda>x. Inr None)\<rparr>)) now h
     = Inr \<lparr>hash = h, TransactionResponse.status = failed, blockNumber = None, gasUsed = None, fee = None,
            TransactionResponse.timestamp = Some (now div 1000)\<rparr>"
    by (simp add: TRC20Service_getTransactionStatus_def try_catch_def and_then_def now_seconds_def)
qed

section \<open>Properties of \<open>createWallet\<close>\<close>

lemma same_derivation_fields:
  assumes "same_derivation o1 o2"
  shows "opt o2 CreateWalletOptions.mnemonic = opt o1 CreateWalletOptions.mnemonic"
    and "opt o2 CreateWalletOptions.index = opt o1 CreateWalletOptions.index"
    and "opt o2 CreateWalletOptions.derivationPath = opt o1 CreateWalletOptions.derivationPath"
  using assms by (simp_all add: same_derivation_def)

lemma nonempty_or_else:
  "nonempty a = Some m \<Longrightarrow> nonempty (or_else a b) = Some m"
  "nonempty a = None \<Longrightarrow> nonempty (or_else a b) = nonempty b"
  by (auto simp: truthy_def nonempty_def or_else_def split: option.splits if_splits)

lemma Arbitrum_deterministic:
  assumes "same_derivation o1 o2"
    and "nonempty (opt o1 CreateWalletOptions.mnemonic) = Some m"
  shows "ArbitrumService_createWallet nt lib num env1 r1 o1 = ArbitrumService_createWallet nt lib num env2 r2 o2"
  unfolding ArbitrumService_createWallet_def same_derivation_fields [OF assms(1)]
  using assms(2-) by (simp add: nonempty_or_else)

lemma Avalanche_deterministic:
  assumes "same_derivation o1 o2"
    and "nonempty (opt o1 CreateWalletOptions.mnemonic) = Some m"
  shows "AvalancheService_createWallet nt lib num env1 r1 o1 = AvalancheService_createWallet nt lib num env2 r2 o2"
  unfolding AvalancheService_createWallet_def same_derivation_fields [OF assms(1)]
  using assms(2-) by (simp add: nonempty_or_else)

lemma Cardano_deterministic:
  assumes "same_derivation o1 o2"
    and "nonempty (opt o1 CreateWalletOptions.mnemonic) = Some m"
  shows "CardanoService_createWallet nt lib r1 o1 = CardanoService_createWallet nt lib r2 o2"
  unfolding CardanoService_createWallet_def same_derivation_fields [OF assms(1)]
  using assms(2-) by (simp add: nonempty_or_else)

lemma Solana_deterministic:
  assumes "same_derivation o1 o2"
    and "nonempty (opt o1 CreateWalletOptions.mnemonic) = Some m"
  shows "SolanaService_createWallet nt lib num env1 r1 o1 = SolanaService_createWallet nt lib num env2 r2 o2"
  unfolding SolanaService_createWallet_def same_derivation_fields [OF assms(1)]
  using assms(2-) by (simp add: nonempty_or_else)

lemma TON_deterministic:
  assumes "same_derivation o1 o2"
    and "nonempty (opt o1 CreateWalletOptions.mnemonic) = Some m"
  shows "TONService_createWallet nt lib env1 r1 o1 = TONService_createWallet nt lib env2 r2 o2"
  unfolding TONService_createWallet_def same_derivation_fields [OF assms(1)]
  using assms(2-) by (simp add: nonempty_or_else)

lemma Arbitrum_env_seed:
  assumes "same_derivation o1 o2"
    and "nonempty (opt o1 CreateWalletOptions.mnemonic) = None"
    and "nonempty (env ''ARBITRUM_SEED'') = Some sd"
  shows "ArbitrumService_createWallet nt lib num env r1 o1 = ArbitrumService_createWallet nt lib num env r2 o2"
  unfolding ArbitrumService_createWallet_def same_derivation_fields [OF assms(1)]
  using assms(2-) by (simp add: nonempty_or_else)

lemma Avalanche_env_seed:
  assumes "same_derivation o1 o2"
    and "nonempty (opt o1 CreateWalletOptions.mnemonic) = None"
    and "nonempty (env ''AVALANCHE_SEED'') = Some sd"
  shows "AvalancheService_createWallet nt lib num env r1 o1 = AvalancheService_createWallet nt lib num env r2 o2"
  unfolding AvalancheService_createWallet_def same_derivation_fields [OF assms(1)]
  using assms(2-) by (simp add: nonempty_or_else)

lemma Solana_env_seed:
  assumes "same_derivation o1 o2"
    and "nonempty (opt o1 CreateWalletOptions.mnemonic) = None"
    and "nonempty (env ''SOLANA_SEED'') = Some sd"
  shows "SolanaService_createWallet nt lib num env r1 o1 = SolanaService_createWallet nt lib num env r2 o2"
  unfolding SolanaService_createWallet_def same_derivation_fields [OF assms(1)]
  using assms(2-) by (simp add: nonempty_or_else)

lemma TON_env_seed:
  assumes "same_derivation o1 o2"
    and "nonempty (opt o1 CreateWalletOptions.mnemonic) = None"
    and "nonempty (env ''TON_SEED'') = Some sd"
  shows "TONService_createWallet nt lib env r1 o1 = TONService_createWallet nt lib env r2 o2"
  unfolding TONService_createWallet_def same_derivation_fields [OF assms(1)]
  using assms(2-) by (simp add: nonempty_or_else)

text \<open>Reading the keys of the outcome commutes with the steps of \<open>createWallet\<close>.\<close>

lemma map_sum_try_catch:
  "map_sum id f (try_catch body (rethrow nt c)) = try_catch (map_sum id f body) (rethrow nt c)"
  by (cases body) (simp_all add: try_catch_def rethrow_def)

lemma map_sum_and_then:
  "map_sum id f (and_then m g) = and_then m (\<lambda>v. map_sum id f (g v))"
  by (cases m) (simp_all add: and_then_def)

lemma and_then_assoc:
  "and_then (and_then m f) g = and_then m (\<lambda>v. and_then (f v) g)"
  by (cases m) (simp_all add: and_then_def)

lemma and_then_Inr: "and_then (Inr v) f = f v"
  by (simp add: and_then_def)

lemmas keys_simps = map_sum_try_catch map_sum_and_then and_then_assoc and_then_Inr wallet_keys_def
  path_for_def Let_def

lemma Arbitrum_keys_derived:
  assumes "nonempty (or_else (opt ops CreateWalletOptions.mnemonic) (env ''ARBITRUM_SEED'')) = Some ph"
  shows "map_sum id wallet_keys (ArbitrumService_createWallet nt lib num env r ops)
           = try_catch (ethers_derivation lib num ''60'' ops ph) (rethrow nt ''createWallet'')"
  using assms
  by (cases "opt ops CreateWalletOptions.index")
     (simp_all add: ArbitrumService_createWallet_def ethers_derivation_def keys_simps)

lemma Arbitrum_keys_random:
  assumes "nonempty (or_else (opt ops CreateWalletOptions.mnemonic) (env ''ARBITRUM_SEED'')) = None"
    and "opt ops CreateWalletOptions.index = None"
  shows "map_sum id wallet_keys (ArbitrumService_createWallet nt lib num env r ops)
           = try_catch (ethers_random lib r) (rethrow nt ''createWallet'')"
  using assms
  by (simp add: ArbitrumService_createWallet_def ethers_random_def keys_simps)

lemma Arbitrum_keys_random_index:
  assumes "nonempty (or_else (opt ops CreateWalletOptions.mnemonic) (env ''ARBITRUM_SEED'')) = None"
    and "opt ops CreateWalletOptions.index \<noteq> None"
    and "Wallet_createRandom lib r = Inr w" and "nonempty (mnemonic_phrase w) = Some ph"
  shows "map_sum id wallet_keys (ArbitrumService_createWallet nt lib num env r ops)
           = try_catch (ethers_derivation lib num ''60'' ops ph) (rethrow nt ''createWallet'')"
  using assms
  by (cases "opt ops CreateWalletOptions.index")
     (simp_all add: ArbitrumService_createWallet_def ethers_derivation_def keys_simps)

lemma Avalanche_keys_derived:
  assumes "nonempty (or_else (opt ops CreateWalletOptions.mnemonic) (env ''AVALANCHE_SEED'')) = Some ph"
  shows "map_sum id wallet_keys (AvalancheService_createWallet nt lib num env r ops)
           = try_catch (ethers_derivation lib num ''9000'' ops ph) (rethrow nt ''createWallet'')"
  using assms
  by (cases "opt ops CreateWalletOptions.index")
     (simp_all add: AvalancheService_createWallet_def ethers_derivation_def keys_simps)

lemma Avalanche_keys_random:
  assumes "nonempty (or_else (opt ops CreateWalletOptions.mnemonic) (env ''AVALANCHE_SEED'')) = None"
    and "opt ops CreateWalletOptions.index = None"
  shows "map_sum id wallet_keys (AvalancheService_createWallet nt lib num env r ops)
           = try_catch (ethers_random lib r) (rethrow nt ''createWallet'')"
  using assms
  by (simp add: AvalancheService_createWallet_def ethers_random_def keys_simps)

lemma Avalanche_keys_random_index:
  assumes "nonempty (or_else (opt ops CreateWalletOptions.mnemonic) (env ''AVALANCHE_SEED'')) = None"
    and "opt ops CreateWalletOptions.index \<noteq> None"
    and "Wallet_createRandom lib r = Inr w" and "nonempty (mnemonic_phrase w) = Some ph"
  shows "map_sum id wallet_keys (AvalancheService_createWallet nt lib num env r ops)
           = try_catch (ethers_derivation lib num ''9000'' ops ph) (rethrow nt ''createWallet'')"
  using assms
  by (cases "opt ops CreateWalletOptions.index")
     (simp_all add: AvalancheService_createWallet_def ethers_derivation_def keys_simps)

lemma Cardano_keys_derived:
  assumes "nonempty (opt ops CreateWalletOptions.mnemonic) = Some m"
  shows "map_sum id wallet_keys (CardanoService_createWallet nt lib r ops)
     = try_catch (cardano_derivation lib m) (rethrow nt ''createWallet'')"
  using assms
  by (simp add: CardanoService_createWallet_def cardano_derivation_def keys_simps split_def)

lemma Cardano_keys_random:
  assumes "nonempty (opt ops CreateWalletOptions.mnemonic) = None"
  shows "map_sum id wallet_keys (CardanoService_createWallet nt lib r ops)
     = try_catch (cardano_derivation lib (cardano_generateMnemonic lib 256 r))
         (rethrow nt ''createWallet'')"
  using assms
  by (simp add: CardanoService_createWallet_def cardano_derivation_def keys_simps split_def)

lemma Ripple_keys_random:
  assumes "nonempty (opt ops CreateWalletOptions.mnemonic) = None"
    and "opt ops CreateWalletOptions.index = None"
  shows "map_sum id wallet_keys (RippleService_createWallet nt lib num r ops)
     = try_catch (ripple_random lib r) (rethrow nt ''createWallet'')"
  using assms
  by (simp add: RippleService_createWallet_def ripple_random_def keys_simps)

lemma Solana_keys:
  "map_sum id wallet_keys (SolanaService_createWallet nt lib num env r ops)
     = try_catch
         (solana_derivation lib num ops
            (case nonempty (opt ops CreateWalletOptions.mnemonic) of
               Some m \<Rightarrow> m
             | None \<Rightarrow> (case nonempty (env ''SOLANA_SEED'') of
                          Some sd \<Rightarrow> sd | None \<Rightarrow> sol_generateMnemonic lib r)))
         (rethrow nt ''createWallet'')"
  by (cases "opt ops CreateWalletOptions.index")
     (simp_all add: SolanaService_createWallet_def solana_derivation_def keys_simps)

lemma Solana_keys_derived:
  assumes "nonempty (opt ops CreateWalletOptions.mnemonic) = Some m"
  shows "map_sum id wallet_keys (SolanaService_createWallet nt lib num env r ops)
     = try_catch (solana_derivation lib num ops m) (rethrow nt ''createWallet'')"
  using assms by (simp add: Solana_keys)

lemma Solana_keys_env_seed:
  assumes "nonempty (opt ops CreateWalletOptions.mnemonic) = None"
    and "nonempty (env ''SOLANA_SEED'') = Some sd"
  shows "map_sum id wallet_keys (SolanaService_createWallet nt lib num env r ops)
     = try_catch (solana_derivation lib num ops sd) (rethrow nt ''createWallet'')"
  using assms by (simp add: Solana_keys)

lemma Solana_keys_random:
  assumes "nonempty (opt ops CreateWalletOptions.mnemonic) = None"
    and "nonempty (env ''SOLANA_SEED'') = None"
  shows "map_sum id wallet_keys (SolanaService_createWallet nt lib num env r ops)
     = try_catch (solana_derivation lib num ops (sol_generateMnemonic lib r))
         (rethrow nt ''createWallet'')"
  using assms by (simp add: Solana_keys)

lemma TON_keys:
  assumes "(case nonempty (opt ops CreateWalletOptions.mnemonic) of
               Some m \<Rightarrow> Inr (split_space m)
             | None \<Rightarrow> (case nonempty (env ''TON_SEED'') of
                          Some sd \<Rightarrow> Inr (split_space sd) | None \<Rightarrow> mnemonicNew lib r)) = Inr ws"
  shows "map_sum id wallet_keys (TONService_createWallet nt lib env r ops)
     = try_catch (ton_derivation lib ops ws) (rethrow nt ''createWallet'')"
  using assms
  by (simp add: TONService_createWallet_def ton_derivation_def keys_simps)

lemma TON_keys_derived:
  assumes "nonempty (opt ops CreateWalletOptions.mnemonic) = Some m"
  shows "map_sum id wallet_keys (TONService_createWallet nt lib env r ops)
     = try_catch (ton_derivation lib ops (split_space m)) (rethrow nt ''createWallet'')"
  using assms by (intro TON_keys) simp

lemma TON_keys_env_seed:
  assumes "nonempty (opt ops CreateWalletOptions.mnemonic) = None"
    and "nonempty (env ''TON_SEED'') = Some sd"
  shows "map_sum id wallet_keys (TONService_createWallet nt lib env r ops)
     = try_catch (ton_derivation lib ops (split_space sd)) (rethrow nt ''createWallet'')"
  using assms by (intro TON_keys) simp

lemma TON_keys_random:
  assumes "nonempty (opt ops CreateWalletOptions.mnemonic) = None"
    and "nonempty (env ''TON_SEED'') = None" and "mnemonicNew lib r = Inr ws"
  shows "map_sum id wallet_keys (TONService_createWallet nt lib env r ops)
     = try_catch (ton_derivation lib ops ws) (rethrow nt ''createWallet'')"
  using assms by (intro TON_keys) simp

lemma TRC20_keys_random:
  assumes "nonempty (opt ops CreateWalletOptions.mnemonic) = None"
  shows "map_sum id wallet_keys (TRC20Service_createWallet nt lib num (Some tw) r ops)
     = try_catch (tron_random lib tw r) (rethrow nt ''createWallet'')"
  using assms
  by (cases "opt ops CreateWalletOptions.index")
     (simp_all add: TRC20Service_createWallet_def tron_random_def keys_simps
        TronAccount_base58_def TronAccount_privateKey_def TronAccount_publicKey_def)

text \<open>Given a mnemonic, \<open>TRC20Service\<close>'s \<open>createWallet\<close> never returns a wallet: \<open>account\<close>
  is then the string of \<open>fromPrivateKey\<close>, and reading \<open>account.address.base58\<close> throws.\<close>

lemma TRC20Service_createWallet_mnemonic_throws:
  assumes "nonempty (opt ops CreateWalletOptions.mnemonic) = Some m"
  shows "isl (TRC20Service_createWallet nt lib num tronWeb r ops)"
  using assms
  by (simp add: TRC20Service_createWallet_def try_catch_def and_then_def rethrow_def
      TronAccount_base58_def Let_def split: sum.splits option.splits)

lemma Arbitrum_keys_given:
  assumes "nonempty (opt ops CreateWalletOptions.mnemonic) = Some m"
  shows "map_sum id wallet_keys (ArbitrumService_createWallet nt lib num env r ops)
           = try_catch (ethers_derivation lib num ''60'' ops m) (rethrow nt ''createWallet'')"
  by (rule Arbitrum_keys_derived) (simp add: nonempty_or_else assms)

lemma Arbitrum_keys_env_seed:
  assumes "nonempty (opt ops CreateWalletOptions.mnemonic) = None"
    and "nonempty (env ''ARBITRUM_SEED'') = Some sd"
  shows "map_sum id wallet_keys (ArbitrumService_createWallet nt lib num env r ops)
           = try_catch (ethers_derivation lib num ''60'' ops sd) (rethrow nt ''createWallet'')"
  by (rule Arbitrum_keys_derived) (simp add: nonempty_or_else assms)

lemma Arbitrum_keys_fresh:
  assumes "nonempty (opt ops CreateWalletOptions.mnemonic) = None"
    and "nonempty (env ''ARBITRUM_SEED'') = None"
    and "opt ops CreateWalletOptions.index = None"
  shows "map_sum id wallet_keys (ArbitrumService_createWallet nt lib num env r ops)
           = try_catch (ethers_random lib r) (rethrow nt ''createWallet'')"
  by (rule Arbitrum_keys_random) (simp_all add: nonempty_or_else assms)

lemma Arbitrum_keys_fresh_index:
  assumes "nonempty (opt ops CreateWalletOptions.mnemonic) = None"
    and "nonempty (env ''ARBITRUM_SEED'') = None"
    and "opt ops CreateWalletOptions.index \<noteq> None"
    and "Wallet_createRandom lib r = Inr w" and "nonempty (mnemonic_phrase w) = Some ph"
  shows "map_sum id wallet_keys (ArbitrumService_createWallet nt lib num env r ops)
           = try_catch (ethers_derivation lib num ''60'' ops ph) (rethrow nt ''createWallet'')"
  by (rule Arbitrum_keys_random_index [OF _ assms(3-5)]) (simp add: nonempty_or_else assms)

lemma Avalanche_keys_given:
  assumes "nonempty (opt ops CreateWalletOptions.mnemonic) = Some m"
  shows "map_sum id wallet_keys (AvalancheService_createWallet nt lib num env r ops)
           = try_catch (ethers_derivation lib num ''9000'' ops m) (rethrow nt ''createWallet'')"
  by (rule Avalanche_keys_derived) (simp add: nonempty_or_else assms)

lemma Avalanche_keys_env_seed:
  assumes "nonempty (opt ops CreateWalletOptions.mnemonic) = None"
    and "nonempty (env ''AVALANCHE_SEED'') = Some sd"
  shows "map_sum id wallet_keys (AvalancheService_createWallet nt lib num env r ops)
           = try_catch (ethers_derivation lib num ''9000'' ops sd) (rethrow nt ''createWallet'')"
  by (rule Avalanche_keys_derived) (simp add: nonempty_or_else assms)

lemma Avalanche_keys_fresh:
  assumes "nonempty (opt ops CreateWalletOptions.mnemonic) = None"
    and "nonempty (env ''AVALANCHE_SEED'') = None"
    and "opt ops CreateWalletOptions.index = None"
  shows "map_sum id wallet_keys (AvalancheService_createWallet nt lib num env r ops)
           = try_catch (ethers_random lib r) (rethrow nt ''createWallet'')"
  by (rule Avalanche_keys_random) (simp_all add: nonempty_or_else assms)

lemma Avalanche_keys_fresh_index:
  assumes "nonempty (opt ops CreateWalletOptions.mnemonic) = None"
    and "nonempty (env ''AVALANCHE_SEED'') = None"
    and "opt ops CreateWalletOptions.index \<noteq> None"
    and "Wallet_createRandom lib r = Inr w" and "nonempty (mnemonic_phrase w) = Some ph"
  shows "map_sum id wallet_keys (AvalancheService_createWallet nt lib num env r ops)
           = try_catch (ethers_derivation lib num ''9000'' ops ph) (rethrow nt ''createWallet'')"
  by (rule Avalanche_keys_random_index [OF _ assms(3-5)]) (simp add: nonempty_or_else assms)

text \<open>
  Claim C9, as amended. \<open>wallet_keys\<close> reads the address, public key and private key of
  a returned wallet; \<open>try_catch d (rethrow nt ''createWallet'')\<close> is the outcome \<open>d\<close> of an
  SDK derivation with its error, if any, wrapped by \<open>handleError\<close>.

  (1) Given a non-empty mnemonic: for the Arbitrum, Avalanche, Cardano, Solana and TON
  adapters, two calls of \<open>createWallet\<close> whose options carry the same mnemonic, the same
  index and the same derivation path have the same outcome, whatever entropy each call
  draws and whatever the environment holds; and the keys returned are those the SDK
  derives from that mnemonic along the path of the index (the chain's default when no
  index is given).

  (2) With no mnemonic supplied, the Arbitrum, Avalanche, Solana and TON adapters fall
  back to their \<open>*_SEED\<close> environment variable: when it is set, two such calls have the
  same outcome whatever entropy each draws, and the keys returned are those the SDK
  derives from the seed.

  (3) With no mnemonic and no such variable set (Cardano, Ripple and TRC20 read none),
  the keys returned are those of the wallet the SDK makes from the entropy drawn for
  the call: the random wallet itself when no index is given, and, when an index is
  given, the wallet derived along the path of the index from the mnemonic just drawn
  (for TRC20 the random account in either case; for Ripple the case without index
  only). Whether two draws give different wallets is the SDK's matter.
\<close>

theorem createWallet_deterministic:
  "(same_derivation o1 o2 \<and> nonempty (opt o1 CreateWalletOptions.mnemonic) = Some m \<longrightarrow>
       ArbitrumService_createWallet nt elib num env1 r1 o1
         = ArbitrumService_createWallet nt elib num env2 r2 o2
     \<and> map_sum id wallet_keys (ArbitrumService_createWallet nt elib num env1 r1 o1)
         = try_catch (ethers_derivation elib num ''60'' o1 m) (rethrow nt ''createWallet'')
     \<and> AvalancheService_createWallet nt elib num env1 r1 o1
         = AvalancheService_createWallet nt elib num env2 r2 o2
     \<and> map_sum id wallet_keys (AvalancheService_createWallet nt elib num env1 r1 o1)
         = try_catch (ethers_derivation elib num ''9000'' o1 m) (rethrow nt ''createWallet'')
     \<and> CardanoService_createWallet nt clib r1 o1 = CardanoService_createWallet nt clib r2 o2
     \<and> map_sum id wallet_keys (CardanoService_createWallet nt clib r1 o1)
         = try_catch (cardano_derivation clib m) (rethrow nt ''createWallet'')
     \<and> SolanaService_createWallet nt slib num env1 r1 o1
         = SolanaService_createWallet nt slib num env2 r2 o2
     \<and> map_sum id wallet_keys (SolanaService_createWallet nt slib num env1 r1 o1)
         = try_catch (solana_derivation slib num o1 m) (rethrow nt ''createWallet'')
     \<and> TONService_createWallet nt tlib env1 r1 o1 = TONService_createWallet nt tlib env2 r2 o2
     \<and> map_sum id wallet_keys (TONService_createWallet nt tlib env1 r1 o1)
         = try_catch (ton_derivation tlib o1 (split_space m)) (rethrow nt ''createWallet''))
   \<and> (same_derivation o1 o2 \<and> nonempty (opt o1 CreateWalletOptions.mnemonic) = None \<longrightarrow>
       (\<forall>sd. nonempty (env1 ''ARBITRUM_SEED'') = Some sd \<longrightarrow>
          ArbitrumService_createWallet nt elib num env1 r1 o1
            = ArbitrumService_createWallet nt elib num env1 r2 o2
        \<and> map_sum id wallet_keys (ArbitrumService_createWallet nt elib num env1 r1 o1)
            = try_catch (ethers_derivation elib num ''60'' o1 sd) (rethrow nt ''createWallet''))
     \<and> (\<forall>sd. nonempty (env1 ''AVALANCHE_SEED'') = Some sd \<longrightarrow>
          AvalancheService_createWallet nt elib num env1 r1 o1
            = AvalancheService_createWallet nt elib num env1 r2 o2
        \<and> map_sum id wallet_keys (AvalancheService_createWallet nt elib num env1 r1 o1)
            = try_catch (ethers_derivation elib num ''9000'' o1 sd) (rethrow nt ''createWallet''))
     \<and> (\<forall>sd. nonempty (env1 ''SOLANA_SEED'') = Some sd \<longrightarrow>
          SolanaService_createWallet nt slib num env1 r1 o1
            = SolanaService_createWallet nt slib num env1 r2 o2
        \<and> map_sum id wallet_keys (SolanaService_createWallet nt slib num env1 r1 o1)
            = try_catch (solana_derivation slib num o1 sd) (rethrow nt ''createWallet''))
     \<and> (\<forall>sd. nonempty (env1 ''TON_SEED'') = Some sd \<longrightarrow>
          TONService_createWallet nt tlib env1 r1 o1 = TONService_createWallet nt tlib env1 r2 o2
        \<and> map_sum id wallet_keys (TONService_createWallet nt tlib env1 r1 o1)
            = try_catch (ton_derivation tlib o1 (split_space sd)) (rethrow nt ''createWallet'')))
   \<and> (nonempty (opt o1 CreateWalletOptions.mnemonic) = None \<longrightarrow>
       (nonempty (env1 ''ARBITRUM_SEED'') = None \<and> opt o1 CreateWalletOptions.index = None \<longrightarrow>
          map_sum id wallet_keys (ArbitrumService_createWallet nt elib num env1 r1 o1)
            = try_catch (ethers_random elib r1) (rethrow nt ''createWallet''))
     \<and> (\<forall>w ph. nonempty (env1 ''ARBITRUM_SEED'') = None \<and> opt o1 CreateWalletOptions.index \<noteq> None
            \<and> Wallet_createRandom elib r1 = Inr w \<and> nonempty (mnemonic_phrase w) = Some ph \<longrightarrow>
          map_sum id wallet_keys (ArbitrumService_createWallet nt elib num env1 r1 o1)
            = try_catch (ethers_derivation elib num ''60'' o1 ph) (rethrow nt ''createWallet''))
     \<and> (nonempty (env1 ''AVALANCHE_SEED'') = None \<and> opt o1 CreateWalletOptions.index = None \<longrightarrow>
          map_sum id wallet_keys (AvalancheService_createWallet nt elib num env1 r1 o1)
            = try_catch (ethers_random elib r1) (rethrow nt ''createWallet''))
     \<and> (\<forall>w ph. nonempty (env1 ''AVALANCHE_SEED'') = None \<and> opt o1 CreateWalletOptions.index \<noteq> None
            \<and> Wallet_createRandom elib r1 = Inr w \<and> nonempty (mnemonic_phrase w) = Some ph \<longrightarrow>
          map_sum id wallet_keys (AvalancheService_createWallet nt elib num env1 r1 o1)
            = try_catch (ethers_derivation elib num ''9000'' o1 ph) (rethrow nt ''createWallet''))
     \<and> map_sum id wallet_keys (CardanoService_createWallet nt clib r1 o1)
         = try_catch (cardano_derivation clib (cardano_generateMnemonic clib 256 r1)) (rethrow nt ''createWallet'')
     \<and> (opt o1 CreateWalletOptions.index = None \<longrightarrow>
          map_sum id wallet_keys (RippleService_createWallet nt xlib num r1 o1)
            = try_catch (ripple_random xlib r1) (rethrow nt ''createWallet''))
     \<and> (nonempty (env1 ''SOLANA_SEED'') = None \<longrightarrow>
          map_sum id wallet_keys (SolanaService_createWallet nt slib num env1 r1 o1)
            = try_catch (solana_derivation slib num o1 (sol_generateMnemonic slib r1)) (rethrow nt ''createWallet''))
     \<and> (\<forall>ws. nonempty (env1 ''TON_SEED'') = None \<and> mnemonicNew tlib r1 = Inr ws \<longrightarrow>
          map_sum id wallet_keys (TONService_createWallet nt tlib env1 r1 o1)
            = try_catch (ton_derivation tlib o1 ws) (rethrow nt ''createWallet''))
     \<and> map_sum id wallet_keys (TRC20Service_createWallet nt trlib num (Some tw) r1 o1)
         = try_catch (tron_random trlib tw r1) (rethrow nt ''createWallet''))"
  by (intro conjI impI allI; (elim conjE)?;
      (rule Arbitrum_deterministic Avalanche_deterministic Cardano_deterministic
         Solana_deterministic TON_deterministic
         Arbitrum_env_seed Avalanche_env_seed Solana_env_seed TON_env_seed
         Arbitrum_keys_given Avalanche_keys_given Cardano_keys_derived
         Solana_keys_derived TON_keys_derived
         Arbitrum_keys_env_seed Avalanche_keys_env_seed Solana_keys_env_seed TON_keys_env_seed
         Arbitrum_keys_fresh Avalanche_keys_fresh Arbitrum_keys_fresh_index
         Avalanche_keys_fresh_index Cardano_keys_random Ripple_keys_random
         Solana_keys_random TON_keys_random TRC20_keys_random;
       assumption))

lemma string_of_nat_digits:
  "string_of_nat 0 = ''0''" "string_of_nat 3 = ''3''" "string_of_nat 7 = ''7''"
  "string_of_nat 8 = ''8''"
  by (simp_all add: string_of_nat.simps digit_char_def)

lemmas demo_wallet_defs = demo_ethers_def demo_numbers_def demo_options_def demo_index_only_def
  demo_phrase_def try_catch_def and_then_def opt_def nonempty_def or_else_def truthy_def
  or_string_def path_for_def bip44_path_def ethers_derivation_def ethers_random_def
  string_of_nat_digits

text \<open>
  Claim C9 as stated fails where it promises different addresses for calls without a
  mnemonic: with \<open>ARBITRUM_SEED\<close> set, two calls of \<open>ArbitrumService\<close>'s
  \<open>createWallet\<close> without a mnemonic return the same address although they draw
  different entropy (7 and 8); with the variable unset, the same SDK gives them
  different addresses.
\<close>

theorem createWallet_env_seed_counterexample:
  "map_sum id WalletCreationResponse.address
      (ArbitrumService_createWallet ''arbitrum'' demo_ethers demo_numbers
         [''ARBITRUM_SEED'' \<mapsto> demo_phrase] 7 None
         :: exn + (unit, nat) WalletCreationResponse)
     = Inr (''addr('' @ demo_phrase @ '',default)'')
   \<and> map_sum id WalletCreationResponse.address
      (ArbitrumService_createWallet ''arbitrum'' demo_ethers demo_numbers
         [''ARBITRUM_SEED'' \<mapsto> demo_phrase] 8 None
         :: exn + (unit, nat) WalletCreationResponse)
     = Inr (''addr('' @ demo_phrase @ '',default)'')
   \<and> map_sum id WalletCreationResponse.address
      (ArbitrumService_createWallet ''arbitrum'' demo_ethers demo_numbers Map.empty 7 None
         :: exn + (unit, nat) WalletCreationResponse)
     = Inr ''addr(random 7)''
   \<and> map_sum id WalletCreationResponse.address
      (ArbitrumService_createWallet ''arbitrum'' demo_ethers demo_numbers Map.empty 8 None
         :: exn + (unit, nat) WalletCreationResponse)
     = Inr ''addr(random 8)''"
  by (simp add: ArbitrumService_createWallet_def demo_wallet_defs)

theorem createWallet_deterministic_witness:
  "(ArbitrumService_createWallet ''arbitrum'' demo_ethers demo_numbers Map.empty 7
        (Some demo_options) :: exn + (unit, nat) WalletCreationResponse)
     = ArbitrumService_createWallet ''arbitrum'' demo_ethers demo_numbers
         [''ARBITRUM_SEED'' \<mapsto> ''abandon abandon abandon abandon abandon abandon abandon abandon abandon abandon abandon about'']
         8 (Some (demo_options\<lparr>password := Some ''secret'', keySize := Some 256\<rparr>))
   \<and> map_sum id wallet_keys
        (ArbitrumService_createWallet ''arbitrum'' demo_ethers demo_numbers Map.empty 7
           (Some demo_options) :: exn + (unit, nat) WalletCreationResponse)
     = Inr (''addr('' @ demo_phrase @ '',m/44'/60'/0'/0/0)'',
            Some (''pub('' @ demo_phrase @ '',m/44'/60'/0'/0/0)''),
            Some (''priv('' @ demo_phrase @ '',m/44'/60'/0'/0/0)''))
   \<and> (ArbitrumService_createWallet ''arbitrum'' demo_ethers demo_numbers
         [''ARBITRUM_SEED'' \<mapsto> demo_phrase] 7 None :: exn + (unit, nat) WalletCreationResponse)
     = ArbitrumService_createWallet ''arbitrum'' demo_ethers demo_numbers
         [''ARBITRUM_SEED'' \<mapsto> demo_phrase] 8 None
   \<and> map_sum id wallet_keys
        (ArbitrumService_createWallet ''arbitrum'' demo_ethers demo_numbers
           [''ARBITRUM_SEED'' \<mapsto> demo_phrase] 7 None :: exn + (unit, nat) WalletCreationResponse)
     = Inr (''addr('' @ demo_phrase @ '',default)'',
            Some (''pub('' @ demo_phrase @ '',default)''),
            Some (''priv('' @ demo_phrase @ '',default)''))
   \<and> map_sum id wallet_keys
        (ArbitrumService_createWallet ''arbitrum'' demo_ethers demo_numbers Map.empty 7 None
           :: exn + (unit, nat) WalletCreationResponse)
     = Inr (''addr(random 7)'', Some ''pub(random 7)'', Some ''priv(random 7)'')
   \<and> map_sum id wallet_keys
        (ArbitrumService_createWallet ''arbitrum'' demo_ethers demo_numbers Map.empty 7
           (Some demo_index_only) :: exn + (unit, nat) WalletCreationResponse)
     = Inr (''addr(random 7,m/44'/60'/3'/0/0)'', Some ''pub(random 7,m/44'/60'/3'/0/0)'',
            Some ''priv(random 7,m/44'/60'/3'/0/0)'')
   \<and> map_sum id wallet_keys
        (ArbitrumService_createWallet ''arbitrum'' demo_ethers demo_numbers Map.empty 8
           (Some demo_index_only) :: exn + (unit, nat) WalletCreationResponse)
     = Inr (''addr(random 8,m/44'/60'/3'/0/0)'', Some ''pub(random 8,m/44'/60'/3'/0/0)'',
            Some ''priv(random 8,m/44'/60'/3'/0/0)'')"
proof -
  let ?o2 = "demo_options\<lparr>password := Some ''secret'', keySize := Some 256\<rparr>"
  let ?env = "[''ARBITRUM_SEED'' \<mapsto> demo_phrase]"
  let ?env2 = "[''ARBITRUM_SEED'' \<mapsto> ''abandon abandon abandon abandon abandon abandon abandon abandon abandon abandon abandon about'']"
  have given: "same_derivation (Some demo_options) (Some ?o2)
      \<and> nonempty (opt (Some demo_options) CreateWalletOptions.mnemonic) = Some demo_phrase"
    by (simp add: same_derivation_def opt_def demo_options_def nonempty_def truthy_def
        demo_phrase_def)
  note part1 = createWallet_deterministic
      [where ?o1.0 = "Some demo_options" and ?o2.0 = "Some ?o2" and nt = "''arbitrum''"
         and elib = demo_ethers and num = demo_numbers and ?env1.0 = Map.empty
         and ?env2.0 = ?env2 and ?r1.0 = 7 and ?r2.0 = 8 and m = demo_phrase,
       THEN conjunct1, THEN mp, OF given]
  have a: "(ArbitrumService_createWallet ''arbitrum'' demo_ethers demo_numbers Map.empty 7
        (Some demo_options) :: exn + (unit, nat) WalletCreationResponse)
     = ArbitrumService_createWallet ''arbitrum'' demo_ethers demo_numbers ?env2 8 (Some ?o2)"
    using part1 [THEN conjunct1] .
  have b: "map_sum id wallet_keys
        (ArbitrumService_createWallet ''arbitrum'' demo_ethers demo_numbers Map.empty 7
           (Some demo_options) :: exn + (unit, nat) WalletCreationResponse)
     = Inr (''addr('' @ demo_phrase @ '',m/44'/60'/0'/0/0)'',
            Some (''pub('' @ demo_phrase @ '',m/44'/60'/0'/0/0)''),
            Some (''priv('' @ demo_phrase @ '',m/44'/60'/0'/0/0)''))"
    using part1 [THEN conjunct2, THEN conjunct1] by (simp add: demo_wallet_defs)
  have none: "same_derivation None None
      \<and> nonempty (opt (None :: nat CreateWalletOptions option) CreateWalletOptions.mnemonic) = None"
    by (simp add: same_derivation_def opt_def nonempty_def truthy_def)
  have seed: "nonempty (?env ''ARBITRUM_SEED'') = Some demo_phrase"
    by (simp add: nonempty_def truthy_def demo_phrase_def)
  note part2 = createWallet_deterministic
      [where ?o1.0 = None and ?o2.0 = None and nt = "''arbitrum''"
         and elib = demo_ethers and num = demo_numbers and ?env1.0 = ?env
         and ?r1.0 = 7 and ?r2.0 = 8,
       THEN conjunct2, THEN conjunct1, THEN mp, OF none, THEN conjunct1, THEN spec, THEN mp,
       OF seed]
  have c: "(ArbitrumService_createWallet ''arbitrum'' demo_ethers demo_numbers ?env 7 None
        :: exn + (unit, nat) WalletCreationResponse)
     = ArbitrumService_createWallet ''arbitrum'' demo_ethers demo_numbers ?env 8 None"
    using part2 [THEN conjunct1] .
  have d: "map_sum id wallet_keys
        (ArbitrumService_createWallet ''arbitrum'' demo_ethers demo_numbers ?env 7 None
           :: exn + (unit, nat) WalletCreationResponse)
     = Inr (''addr('' @ demo_phrase @ '',default)'',
            Some (''pub('' @ demo_phrase @ '',default)''),
            Some (''priv('' @ demo_phrase @ '',default)''))"
    using part2 [THEN conjunct2] by (simp add: demo_wallet_defs)
  have no_mnemonic:
    "nonempty (opt (None :: nat CreateWalletOptions option) CreateWalletOptions.mnemonic) = None"
    by (simp add: opt_def nonempty_def truthy_def)
  have no_seed: "nonempty (Map.empty ''ARBITRUM_SEED'') = None
      \<and> opt (None :: nat CreateWalletOptions option) CreateWalletOptions.index = None"
    by (simp add: opt_def nonempty_def truthy_def)
  have e: "map_sum id wallet_keys
        (ArbitrumService_createWallet ''arbitrum'' demo_ethers demo_numbers Map.empty 7 None
           :: exn + (unit, nat) WalletCreationResponse)
     = Inr (''addr(random 7)'', Some ''pub(random 7)'', Some ''priv(random 7)'')"
    using createWallet_deterministic
      [where ?o1.0 = None and nt = "''arbitrum''" and elib = demo_ethers and num = demo_numbers
         and ?env1.0 = Map.empty and ?r1.0 = 7,
       THEN conjunct2, THEN conjunct2, THEN mp, OF no_mnemonic, THEN conjunct1, THEN mp,
       OF no_seed]
    by (simp add: demo_wallet_defs)
  have index_only:
    "nonempty (opt (Some demo_index_only) CreateWalletOptions.mnemonic) = None"
    by (simp add: opt_def nonempty_def truthy_def demo_index_only_def)
  have draw: "nonempty (Map.empty ''ARBITRUM_SEED'') = None
      \<and> opt (Some demo_index_only) CreateWalletOptions.index \<noteq> None
      \<and> Wallet_createRandom demo_ethers r
          = Inr \<lparr>wallet_address = ''addr(random '' @ string_of_nat r @ '')'',
                 wallet_privateKey = ''priv(random '' @ string_of_nat r @ '')'',
                 wallet_publicKey = ''pub(random '' @ string_of_nat r @ '')'',
                 signingKey_publicKey = ''pub(random '' @ string_of_nat r @ '')'',
                 mnemonic_phrase = Some (''random '' @ string_of_nat r)\<rparr>
      \<and> nonempty (mnemonic_phrase
            \<lparr>wallet_address = ''addr(random '' @ string_of_nat r @ '')'',
             wallet_privateKey = ''priv(random '' @ string_of_nat r @ '')'',
             wallet_publicKey = ''pub(random '' @ string_of_nat r @ '')'',
             signingKey_publicKey = ''pub(random '' @ string_of_nat r @ '')'',
             mnemonic_phrase = Some (''random '' @ string_of_nat r)\<rparr>)
          = Some (''random '' @ string_of_nat r)" for r
    by (simp add: opt_def nonempty_def truthy_def demo_index_only_def demo_ethers_def)
  have f: "map_sum id wallet_keys
        (ArbitrumService_createWallet ''arbitrum'' demo_ethers demo_numbers Map.empty 7
           (Some demo_index_only) :: exn + (unit, nat) WalletCreationResponse)
     = Inr (''addr(random 7,m/44'/60'/3'/0/0)'', Some ''pub(random 7,m/44'/60'/3'/0/0)'',
            Some ''priv(random 7,m/44'/60'/3'/0/0)'')"
    using createWallet_deterministic
      [where ?o1.0 = "Some demo_index_only" and nt = "''arbitrum''" and elib = demo_ethers
         and num = demo_numbers and ?env1.0 = Map.empty and ?r1.0 = 7,
       THEN conjunct2, THEN conjunct2, THEN mp, OF index_only, THEN conjunct2, THEN conjunct1,
       THEN spec, THEN spec, THEN mp, OF draw [of 7]]
    by (simp add: demo_wallet_defs)
  have g: "map_sum id wallet_keys
        (ArbitrumService_createWallet ''arbitrum'' demo_ethers demo_numbers Map.empty 8
           (Some demo_index_only) :: exn + (unit, nat) WalletCreationResponse)
     = Inr (''addr(random 8,m/44'/60'/3'/0/0)'', Some ''pub(random 8,m/44'/60'/3'/0/0)'',
            Some ''priv(random 8,m/44'/60'/3'/0/0)'')"
    using createWallet_deterministic
      [where ?o1.0 = "Some demo_index_only" and nt = "''arbitrum''" and elib = demo_ethers
         and num = demo_numbers and ?env1.0 = Map.empty and ?r1.0 = 8,
       THEN conjunct2, THEN conjunct2, THEN mp, OF index_only, THEN conjunct2, THEN conjunct1,
       THEN spec, THEN spec, THEN mp, OF draw [of 8]]
    by (simp add: demo_wallet_defs)
  show ?thesis using a b c d e f g by (intro conjI)
qed

end
